theory Spec2Isabelle
  imports
    Complex_Main
    "HOL-Library.Char_ord"
    "HOL-Library.List_Lexorder"
    "HOL-Library.Product_Lexorder"
begin

section \<open>Tables\<close>

text \<open>
  A pandas scalar. \<open>Num\<close> is a number of a float64 or int64 column, read as the real
  number it denotes; \<open>Str\<close> is a Python string of an object column, a list of
  characters with code points below 256; \<open>Ts y m d t\<close> is a timestamp of a datetime64
  column (year, month, day, time within the day); \<open>Null\<close> is the missing value of any
  column (NaN, NaT, None).
\<close>

datatype cell = Num real | Str string | Ts int int int int | Null

type_synonym row = "string \<Rightarrow> cell"

text \<open>
  A DataFrame: the column labels in order, and the rows in index order. A row is read
  only at the labels of \<open>columns\<close>.
\<close>

record dataframe =
  columns :: "string list"
  rows :: "row list"

datatype py_error = KeyError | AttributeError | TypeError | IndexError | MergeError

text \<open>\<^verbatim>\<open>all(col in df.columns for col in cs)\<close>\<close>

definition all_in :: "string list \<Rightarrow> dataframe \<Rightarrow> bool" where
  "all_in cs df = list_all (\<lambda>c. c \<in> set (columns df)) cs"

text \<open>\<^verbatim>\<open>df[c] = f(row)\<close>: assignment overwrites a column that exists and appends a new one.\<close>

definition set_column :: "string \<Rightarrow> (row \<Rightarrow> cell) \<Rightarrow> dataframe \<Rightarrow> dataframe" where
  "set_column c f df =
     \<lparr>columns = (if c \<in> set (columns df) then columns df else columns df @ [c]),
      rows = map (\<lambda>r. r(c := f r)) (rows df)\<rparr>"

fun num :: "cell \<Rightarrow> real option" where
  "num (Num x) = Some x"
| "num (Str s) = None"
| "num (Ts y m d t) = None"
| "num Null = None"

fun of_num :: "real option \<Rightarrow> cell" where
  "of_num (Some x) = Num x"
| "of_num None = Null"

fun is_num_cell :: "cell \<Rightarrow> bool" where
  "is_num_cell (Num x) = True"
| "is_num_cell (Str s) = False"
| "is_num_cell (Ts y m d t) = False"
| "is_num_cell Null = True"

fun is_ts_cell :: "cell \<Rightarrow> bool" where
  "is_ts_cell (Num x) = False"
| "is_ts_cell (Str s) = False"
| "is_ts_cell (Ts y m d t) = True"
| "is_ts_cell Null = True"

text \<open>
  The dtype of a column is read off its cells: a column is numeric when every cell is a
  number or NaN, and datetime64 when every cell is a timestamp or NaT; a column without
  any value is taken to have the dtype that the stage reading it expects. Comparing or
  dividing a column that holds anything else raises TypeError, and the \<^verbatim>\<open>.dt\<close> accessor
  raises AttributeError.
\<close>

definition is_numeric_col :: "dataframe \<Rightarrow> string \<Rightarrow> bool" where
  "is_numeric_col df c = list_all (\<lambda>r. is_num_cell (r c)) (rows df)"

definition is_datetime_col :: "dataframe \<Rightarrow> string \<Rightarrow> bool" where
  "is_datetime_col df c = list_all (\<lambda>r. is_ts_cell (r c)) (rows df)"

section \<open>Rounding\<close>

text \<open>Rounding half to even at the n-th decimal, which \<^verbatim>\<open>Series.round(n)\<close> approximates.\<close>

definition round_half_even :: "real \<Rightarrow> int" where
  "round_half_even x =
     (let f = \<lfloor>x\<rfloor>; d = x - of_int f
      in if d < 1 / 2 then f else if 1 / 2 < d then f + 1 else if even f then f else f + 1)"

definition round_dec :: "nat \<Rightarrow> real \<Rightarrow> real" where
  "round_dec n x = of_int (round_half_even (x * 10 ^ n)) / 10 ^ n"

section \<open>Floating point\<close>

text \<open>
  The numbers of a table are float64 values. What numpy and pandas compute on them is
  library code: every operation rounds its result, and a grouped sum, mean or standard
  deviation depends on the summation algorithm of the library, so that \<open>1156.8 / 3\<close> is
  not \<open>771.2 / 2\<close> and the standard deviation of the two is not 0. The z-score,
  prioritization and radar stages take the operations they use as parameters, the fields
  of \<open>float64\<close>: the four operations on two numbers; \<^verbatim>\<open>Series.round(n)\<close>; the mean, the standard deviation (ddof = 1) and the
  sum that \<^verbatim>\<open>groupby\<close> computes on the values of a group, which are not missing; and
  \<^verbatim>\<open>Series.mean()\<close> on such values. Comparisons are exact. Overflow is not modelled:
  the results are finite numbers.
\<close>

record float64 =
  fl_add :: "real \<Rightarrow> real \<Rightarrow> real"
  fl_sub :: "real \<Rightarrow> real \<Rightarrow> real"
  fl_mul :: "real \<Rightarrow> real \<Rightarrow> real"
  fl_div :: "real \<Rightarrow> real \<Rightarrow> real"
  fl_round :: "nat \<Rightarrow> real \<Rightarrow> real"
  fl_group_mean :: "real list \<Rightarrow> real"
  fl_group_std :: "real list \<Rightarrow> real"
  fl_group_sum :: "real list \<Rightarrow> real"
  fl_mean :: "real list \<Rightarrow> real"

section \<open>Grouped statistics\<close>

text \<open>
  \<^verbatim>\<open>df.groupby(ks)[c].transform(agg)\<close>: every row receives the aggregate of column \<open>c\<close>
  over the rows that share its key; the aggregates skip missing values, and a row with a
  missing key belongs to no group and receives NaN.
\<close>

definition group_values :: "string list \<Rightarrow> string \<Rightarrow> row list \<Rightarrow> row \<Rightarrow> real list" where
  "group_values ks c rs r =
     List.map_filter (\<lambda>r'. num (r' c)) (filter (\<lambda>r'. map r' ks = map r ks) rs)"

text \<open>
  The mean of a group without values is NaN, and so is the standard deviation (ddof = 1)
  of a group with fewer than two values.
\<close>

definition agg_mean :: "float64 \<Rightarrow> real list \<Rightarrow> real option" where
  "agg_mean fp xs = (if xs = [] then None else Some (fl_group_mean fp xs))"

definition agg_std :: "float64 \<Rightarrow> real list \<Rightarrow> real option" where
  "agg_std fp xs = (if length xs < 2 then None else Some (fl_group_std fp xs))"

definition transform :: "(real list \<Rightarrow> real option) \<Rightarrow> string list \<Rightarrow> string \<Rightarrow> row list \<Rightarrow> row \<Rightarrow> cell" where
  "transform agg ks c rs r =
     (if Null \<in> set (map r ks) then Null else of_num (agg (group_values ks c rs r)))"

section \<open>calcular_zscore_risco\<close>

fun year_of :: "cell \<Rightarrow> cell" where
  "year_of (Ts y m d t) = Num (of_int y)"
| "year_of (Num x) = Null"
| "year_of (Str s) = Null"
| "year_of Null = Null"

text \<open>\<^verbatim>\<open>np.where(qtd > 0, preco_total / qtd, 0)\<close>: a missing quantity is not \<open>> 0\<close>.\<close>

definition pmp_individual_of :: "float64 \<Rightarrow> row \<Rightarrow> cell" where
  "pmp_individual_of fp r =
     (case num (r ''qtd_itens_comprados'') of
        None \<Rightarrow> Num 0
      | Some q \<Rightarrow>
          if 0 < q
          then (case num (r ''preco_total'') of None \<Rightarrow> Null | Some t \<Rightarrow> Num (fl_div fp t q))
          else Num 0)"

fun fillna0 :: "cell \<Rightarrow> cell" where
  "fillna0 Null = Num 0"
| "fillna0 (Num x) = Num x"
| "fillna0 (Str s) = Str s"
| "fillna0 (Ts y m d t) = Ts y m d t"

text \<open>\<^verbatim>\<open>np.where(std > 0, (pmp - mean) / std, 0)\<close>\<close>

definition zscore_of :: "float64 \<Rightarrow> row \<Rightarrow> cell" where
  "zscore_of fp r =
     (case num (r ''pmp_desvio_padrao'') of
        None \<Rightarrow> Num 0
      | Some s \<Rightarrow>
          if 0 < s
          then (case (num (r ''pmp_individual''), num (r ''pmp_medio'')) of
                  (Some x, Some m) \<Rightarrow> Num (fl_div fp (fl_sub fp x m) s)
                | _ \<Rightarrow> Null)
          else Num 0)"

fun round_cell :: "float64 \<Rightarrow> nat \<Rightarrow> cell \<Rightarrow> cell" where
  "round_cell fp n (Num x) = Num (fl_round fp n x)"
| "round_cell fp n (Str s) = Str s"
| "round_cell fp n (Ts y m d t) = Ts y m d t"
| "round_cell fp n Null = Null"

definition colunas_agrupamento :: "string list" where
  "colunas_agrupamento = [''codigo_br'', ''ano_compra'']"

definition calcular_zscore_risco :: "float64 \<Rightarrow> dataframe \<Rightarrow> py_error + dataframe" where
  "calcular_zscore_risco fp df =
     (if \<not> all_in [''compra'', ''codigo_br'', ''preco_total'', ''qtd_itens_comprados''] df
      then Inr df
      else if \<not> is_datetime_col df ''compra'' then Inl AttributeError
      else
        let df1 = set_column ''ano_compra'' (\<lambda>r. year_of (r ''compra'')) df
        in if \<not> (is_numeric_col df1 ''qtd_itens_comprados'' \<and> is_numeric_col df1 ''preco_total'')
           then Inl TypeError
           else
             let df2 = set_column ''pmp_individual'' (pmp_individual_of fp) df1;
                 df3 = set_column ''pmp_medio''
                         (transform (agg_mean fp) colunas_agrupamento ''pmp_individual'' (rows df2)) df2;
                 df4 = set_column ''pmp_desvio_padrao''
                         (transform (agg_std fp) colunas_agrupamento ''pmp_individual'' (rows df3)) df3;
                 df5 = set_column ''pmp_desvio_padrao'' (\<lambda>r. fillna0 (r ''pmp_desvio_padrao'')) df4;
                 df6 = set_column ''score_z_risco'' (zscore_of fp) df5;
                 df7 = set_column ''score_z_risco'' (\<lambda>r. round_cell fp 2 (r ''score_z_risco'')) df6
             in Inr df7)"

text \<open>
  The claim's words for the z-score. The individual price of a row is
  \<open>preco_total / qtd_itens_comprados\<close> if the quantity is positive, else 0 (and missing
  if the quantity is positive and the total price is missing). The group of a row is the
  set of rows with its \<open>codigo_br\<close> and its purchase year; a row whose key is missing has
  no group. The score is \<open>(pmp - mean) / std\<close> rounded to two decimals when \<open>std > 0\<close>,
  and \<open>0\<close> otherwise, for the mean and the standard deviation of the individual prices
  of the group.
\<close>

definition pmp_spec :: "float64 \<Rightarrow> row \<Rightarrow> cell" where
  "pmp_spec fp r =
     (case r ''qtd_itens_comprados'' of
        Num q \<Rightarrow>
          if q > 0
          then of_num (map_option (\<lambda>t. fl_div fp t q) (num (r ''preco_total'')))
          else Num 0
      | _ \<Rightarrow> Num 0)"

definition grupo :: "row list \<Rightarrow> row \<Rightarrow> row list" where
  "grupo rs r =
     filter (\<lambda>r'. r' ''codigo_br'' = r ''codigo_br'' \<and>
                   year_of (r' ''compra'') = year_of (r ''compra'')) rs"

definition grupo_pmp :: "float64 \<Rightarrow> row list \<Rightarrow> row \<Rightarrow> real list" where
  "grupo_pmp fp rs r = List.map_filter (\<lambda>r'. num (pmp_spec fp r')) (grupo rs r)"

definition sem_grupo :: "row \<Rightarrow> bool" where
  "sem_grupo r = (r ''codigo_br'' = Null \<or> year_of (r ''compra'') = Null)"

definition zscore_spec :: "float64 \<Rightarrow> row list \<Rightarrow> row \<Rightarrow> cell" where
  "zscore_spec fp rs r =
     (if sem_grupo r then Num 0
      else case agg_std fp (grupo_pmp fp rs r) of
             None \<Rightarrow> Num 0
           | Some s \<Rightarrow>
               if 0 < s
               then (case (num (pmp_spec fp r), agg_mean fp (grupo_pmp fp rs r)) of
                       (Some x, Some m) \<Rightarrow> Num (fl_round fp 2 (fl_div fp (fl_sub fp x m) s))
                     | _ \<Rightarrow> Null)
               else Num 0)"

definition medio_spec :: "float64 \<Rightarrow> row list \<Rightarrow> row \<Rightarrow> cell" where
  "medio_spec fp rs r =
     (if sem_grupo r then Null else of_num (agg_mean fp (grupo_pmp fp rs r)))"

definition desvio_spec :: "float64 \<Rightarrow> row list \<Rightarrow> row \<Rightarrow> cell" where
  "desvio_spec fp rs r =
     (if sem_grupo r then Num 0 else fillna0 (of_num (agg_std fp (grupo_pmp fp rs r))))"

text \<open>
  The five columns that the stage writes on a row. The code rounds the whole score
  column, so also the constant 0 of the rows without a positive standard deviation.
\<close>

definition score_of :: "float64 \<Rightarrow> row list \<Rightarrow> row \<Rightarrow> cell" where
  "score_of fp rs r =
     round_cell fp 2
       (if sem_grupo r then Num 0
        else case agg_std fp (grupo_pmp fp rs r) of
               None \<Rightarrow> Num 0
             | Some s \<Rightarrow>
                 if 0 < s
                 then (case (num (pmp_spec fp r), agg_mean fp (grupo_pmp fp rs r)) of
                         (Some x, Some m) \<Rightarrow> Num (fl_div fp (fl_sub fp x m) s)
                       | _ \<Rightarrow> Null)
                 else Num 0)"

definition zscore_row :: "float64 \<Rightarrow> row list \<Rightarrow> row \<Rightarrow> row" where
  "zscore_row fp rs r =
     r(''ano_compra'' := year_of (r ''compra''),
       ''pmp_individual'' := pmp_spec fp r,
       ''pmp_medio'' := medio_spec fp rs r,
       ''pmp_desvio_padrao'' := desvio_spec fp rs r,
       ''score_z_risco'' := score_of fp rs r)"

definition colunas_zscore :: "string list" where
  "colunas_zscore =
     [''ano_compra'', ''pmp_individual'', ''pmp_medio'', ''pmp_desvio_padrao'', ''score_z_risco'']"

definition zscore_columns :: "string list \<Rightarrow> string list" where
  "zscore_columns cs = foldl (\<lambda>acc c. if c \<in> set acc then acc else acc @ [c]) cs colunas_zscore"

section \<open>Reading tables and results\<close>

definition mk_row :: "(string \<times> cell) list \<Rightarrow> row" where
  "mk_row kvs = (\<lambda>c. case map_of kvs c of None \<Rightarrow> Null | Some v \<Rightarrow> v)"

text \<open>\<^verbatim>\<open>df[c]\<close> as a list of values, for a table and for the outcome of a stage.\<close>

definition col :: "dataframe \<Rightarrow> string \<Rightarrow> cell list" where
  "col df c = map (\<lambda>r. r c) (rows df)"

definition result_col :: "py_error + dataframe \<Rightarrow> string \<Rightarrow> py_error + cell list" where
  "result_col res c = (case res of Inl e \<Rightarrow> Inl e | Inr df \<Rightarrow> Inr (col df c))"

definition result_columns :: "py_error + dataframe \<Rightarrow> py_error + string list" where
  "result_columns res = (case res of Inl e \<Rightarrow> Inl e | Inr df \<Rightarrow> Inr (columns df))"

section \<open>Table operations\<close>

text \<open>An exception leaves the stage: the first error of a sequence is its outcome.\<close>

definition bind_err :: "py_error + 'a \<Rightarrow> ('a \<Rightarrow> py_error + 'b) \<Rightarrow> py_error + 'b" where
  "bind_err m f = (case m of Inl e \<Rightarrow> Inl e | Inr x \<Rightarrow> f x)"

text \<open>
  \<^verbatim>\<open>df[[c1, ..., cn]]\<close> raises KeyError on a missing label;
  \<^verbatim>\<open>df.drop(columns=cs, errors='ignore')\<close> does not; \<^verbatim>\<open>df.rename(columns={old: new})\<close>
  ignores a label that is absent.
\<close>

definition select_cols :: "string list \<Rightarrow> dataframe \<Rightarrow> py_error + dataframe" where
  "select_cols cs df = (if all_in cs df then Inr (df\<lparr>columns := cs\<rparr>) else Inl KeyError)"

definition drop_cols :: "string list \<Rightarrow> dataframe \<Rightarrow> dataframe" where
  "drop_cols cs df = df\<lparr>columns := filter (\<lambda>c. c \<notin> set cs) (columns df)\<rparr>"

definition rename_col :: "string \<Rightarrow> string \<Rightarrow> dataframe \<Rightarrow> dataframe" where
  "rename_col old new df =
     \<lparr>columns = map (\<lambda>c. if c = old then new else c) (columns df),
      rows = (if old \<in> set (columns df) then map (\<lambda>r. r(new := r old)) (rows df) else rows df)\<rparr>"

text \<open>\<^verbatim>\<open>drop_duplicates\<close> keeps the first occurrence of each value, in order.\<close>

fun drop_duplicates :: "'a list \<Rightarrow> 'a list" where
  "drop_duplicates [] = []"
| "drop_duplicates (x # xs) = x # drop_duplicates (filter (\<lambda>y. y \<noteq> x) xs)"

text \<open>
  \<^verbatim>\<open>df.groupby(ks).agg(out=(c, agg), ...).reset_index()\<close>: one row per key that has no
  missing component, holding the key and the aggregate of each named column over the rows
  of the group. pandas lists the groups in sorted key order; here they are listed in order
  of first occurrence, which no result below can tell apart, since every grouped table is
  only searched by key. A missing grouping or aggregated label raises KeyError.
\<close>

definition group_keys :: "string list \<Rightarrow> row list \<Rightarrow> cell list list" where
  "group_keys ks rs = drop_duplicates (filter (\<lambda>k. Null \<notin> set k) (map (\<lambda>r. map r ks) rs))"

definition group_row :: "string list \<Rightarrow> (string \<times> string \<times> (cell list \<Rightarrow> cell)) list \<Rightarrow> row list \<Rightarrow> cell list \<Rightarrow> row" where
  "group_row ks aggs rs k =
     mk_row (zip ks k @
             map (\<lambda>(out, c, agg). (out, agg (map (\<lambda>r. r c) (filter (\<lambda>r. map r ks = k) rs)))) aggs)"

definition groupby_agg :: "string list \<Rightarrow> (string \<times> string \<times> (cell list \<Rightarrow> cell)) list \<Rightarrow> dataframe \<Rightarrow> py_error + dataframe" where
  "groupby_agg ks aggs df =
     (if \<not> all_in (ks @ map (\<lambda>(out, c, agg). c) aggs) df then Inl KeyError
      else Inr \<lparr>columns = ks @ map fst aggs,
                rows = map (group_row ks aggs (rows df)) (group_keys ks (rows df))\<rparr>)"

definition agg_sum :: "cell list \<Rightarrow> cell" where
  "agg_sum cs = Num (sum_list (List.map_filter num cs))"

text \<open>
  \<^verbatim>\<open>pd.merge(left, right, on=on, how='left')\<close>: every left row, in order, once for
  each right row with the same key (missing values match each other), or once with missing
  values when there is none. A label of both sides outside \<open>on\<close> gets the suffixes
  \<^verbatim>\<open>_x\<close> and \<^verbatim>\<open>_y\<close>; labels that then collide raise MergeError.
\<close>

definition merge_row :: "string list \<Rightarrow> string list \<Rightarrow> string list \<Rightarrow> row \<Rightarrow> row \<Rightarrow> row" where
  "merge_row lcols rcols overlap r r' =
     foldl (\<lambda>acc c. acc((if c \<in> set overlap then c @ ''_y'' else c) := r' c))
       (foldl (\<lambda>acc c. acc((if c \<in> set overlap then c @ ''_x'' else c) := r c)) r lcols)
       rcols"

definition merge_left :: "dataframe \<Rightarrow> dataframe \<Rightarrow> string list \<Rightarrow> py_error + dataframe" where
  "merge_left left right on =
     (if \<not> (all_in on left \<and> all_in on right) then Inl KeyError
      else
        let rcols = filter (\<lambda>c. c \<notin> set on) (columns right);
            overlap = filter (\<lambda>c. c \<in> set (columns left)) rcols;
            cols = map (\<lambda>c. if c \<in> set overlap then c @ ''_x'' else c) (columns left) @
                   map (\<lambda>c. if c \<in> set overlap then c @ ''_y'' else c) rcols
        in if \<not> distinct cols then Inl MergeError
           else Inr \<lparr>columns = cols,
                     rows = concat (map (\<lambda>r.
                              case filter (\<lambda>r'. map r' on = map r on) (rows right) of
                                [] \<Rightarrow> [merge_row (columns left) rcols overlap r (\<lambda>c. Null)]
                              | m # ms \<Rightarrow> map (merge_row (columns left) rcols overlap r) (m # ms))
                            (rows left))\<rparr>)"

text \<open>
  \<^verbatim>\<open>g.groupby(ks)[c].idxmax()\<close> followed by \<^verbatim>\<open>g.loc[...]\<close>: for every group the first
  row that holds the largest value of \<open>c\<close>, missing values skipped.
\<close>

fun argmax_first :: "('a \<Rightarrow> real) \<Rightarrow> 'a list \<Rightarrow> 'a option" where
  "argmax_first f [] = None"
| "argmax_first f (x # xs) =
     (case argmax_first f xs of
        None \<Rightarrow> Some x
      | Some y \<Rightarrow> if f y \<le> f x then Some x else Some y)"

definition idxmax_rows :: "string list \<Rightarrow> string \<Rightarrow> dataframe \<Rightarrow> row list" where
  "idxmax_rows ks c df =
     List.map_filter
       (\<lambda>k. map_option snd
              (argmax_first fst
                 (List.map_filter (\<lambda>r. map_option (\<lambda>v. (v, r)) (num (r c)))
                    (filter (\<lambda>r. map r ks = k) (rows df)))))
       (group_keys ks (rows df))"

section \<open>calcular_concentracao_fornecedor\<close>

text \<open>\<^verbatim>\<open>np.where(total > 0, principal / total, 0)\<close>\<close>

definition concentracao_of :: "row \<Rightarrow> cell" where
  "concentracao_of r =
     (case num (r ''Gasto_Total_Produto_Global'') of
        None \<Rightarrow> Num 0
      | Some t \<Rightarrow>
          if 0 < t
          then (case num (r ''Gasto_Forn_Principal'') of None \<Rightarrow> Null | Some p \<Rightarrow> Num (p / t))
          else Num 0)"

text \<open>
  The stage has no guard on its columns: the first \<^verbatim>\<open>groupby\<close> raises KeyError when
  \<open>id_produto\<close> or \<open>preco_total\<close> is absent, the second when \<open>id_fornecedor\<close> is.
\<close>

definition calcular_concentracao_fornecedor :: "dataframe \<Rightarrow> py_error + dataframe" where
  "calcular_concentracao_fornecedor df =
     bind_err (groupby_agg [''id_produto''] [(''preco_total'', ''preco_total'', agg_sum)] df) (\<lambda>g.
     if \<not> is_numeric_col df ''preco_total'' then Inl TypeError
     else
     bind_err (groupby_agg [''id_produto'', ''id_fornecedor'']
                 [(''preco_total'', ''preco_total'', agg_sum)] df) (\<lambda>gasto_por_fornecedor.
     bind_err (select_cols [''id_produto'', ''Gasto_Forn_Principal'']
                 (rename_col ''preco_total'' ''Gasto_Forn_Principal''
                    (gasto_por_fornecedor
                       \<lparr>rows := idxmax_rows [''id_produto''] ''preco_total'' gasto_por_fornecedor\<rparr>)))
       (\<lambda>fornecedor_principal.
     bind_err (merge_left (rename_col ''preco_total'' ''Gasto_Total_Produto_Global'' g)
                 fornecedor_principal [''id_produto'']) (\<lambda>m.
     bind_err (select_cols [''id_produto'', ''%_Gasto_Unico_Forn'']
                 (set_column ''%_Gasto_Unico_Forn'' concentracao_of m)) (\<lambda>df_concentracao.
     merge_left df df_concentracao [''id_produto''])))))"

section \<open>calcular_risco_intermitencia\<close>

text \<open>
  \<^verbatim>\<open>dt.to_period('M')\<close>: the month of a timestamp, written as the first instant of the
  month; \<open>period_of\<close> reads its year and month. Periods are ordered by year, then month.
\<close>

fun to_period_M :: "cell \<Rightarrow> cell" where
  "to_period_M (Ts y m d t) = Ts y m 1 0"
| "to_period_M (Num x) = Null"
| "to_period_M (Str s) = Null"
| "to_period_M Null = Null"

fun period_of :: "cell \<Rightarrow> (int \<times> int) option" where
  "period_of (Ts y m d t) = Some (y, m)"
| "period_of (Num x) = None"
| "period_of (Str s) = None"
| "period_of Null = None"

definition agg_nunique :: "cell list \<Rightarrow> cell" where
  "agg_nunique cs = Num (real (length (drop_duplicates (filter (\<lambda>c. c \<noteq> Null) cs))))"

definition min_skipna :: "('a::linorder) list \<Rightarrow> 'a option" where
  "min_skipna xs = (case xs of [] \<Rightarrow> None | x # ys \<Rightarrow> Some (fold min ys x))"

definition max_skipna :: "('a::linorder) list \<Rightarrow> 'a option" where
  "max_skipna xs = (case xs of [] \<Rightarrow> None | x # ys \<Rightarrow> Some (fold max ys x))"

text \<open>\<^verbatim>\<open>np.where(periodo_total_meses > 0, 1 - meses / periodo_total_meses, 0)\<close>\<close>

definition risco_intermitencia_of :: "int \<Rightarrow> row \<Rightarrow> cell" where
  "risco_intermitencia_of periodo_total_meses r =
     (if 0 < periodo_total_meses
      then (case num (r ''Meses_Comprados_Historico'') of
              None \<Rightarrow> Null
            | Some n \<Rightarrow> Num (1 - n / real_of_int periodo_total_meses))
      else Num 0)"

text \<open>
  \<open>to_datetime\<close> stands for \<^verbatim>\<open>pd.to_datetime(..., errors='coerce')\<close>, applied when the
  date column is not datetime64 yet. The assignments to \<open>data_compra\<close> and
  \<open>mes_compra\<close> are made on the caller's table before the window is known, so the early
  return hands back the table with them.
\<close>

definition calcular_risco_intermitencia :: "(cell \<Rightarrow> cell) \<Rightarrow> dataframe \<Rightarrow> py_error + dataframe" where
  "calcular_risco_intermitencia to_datetime df =
     (if ''data_compra'' \<notin> set (columns df) then Inr df
      else
        let df1 = (if is_datetime_col df ''data_compra'' then df
                   else set_column ''data_compra'' (\<lambda>r. to_datetime (r ''data_compra'')) df);
            df2 = set_column ''mes_compra'' (\<lambda>r. to_period_M (r ''data_compra'')) df1
        in
        bind_err (groupby_agg [''id_produto''] [(''mes_compra'', ''mes_compra'', agg_nunique)] df2) (\<lambda>g.
          let intermitencia = rename_col ''mes_compra'' ''Meses_Comprados_Historico'' g;
              meses = List.map_filter (\<lambda>r. period_of (r ''mes_compra'')) (rows df2)
          in case (min_skipna meses, max_skipna meses) of
               (Some mes_min, Some mes_max) \<Rightarrow>
                 let periodo_total_meses =
                       (fst mes_max - fst mes_min) * 12 + snd mes_max - snd mes_min + 1
                 in
                 bind_err (select_cols [''id_produto'', ''Risco_Intermitencia'', ''Meses_Comprados_Historico'']
                             (set_column ''Risco_Intermitencia''
                                (risco_intermitencia_of periodo_total_meses) intermitencia)) (\<lambda>sel.
                 bind_err (merge_left df2 sel [''id_produto'']) (\<lambda>df3.
                 Inr (drop_cols [''mes_compra''] df3)))
             | _ \<Rightarrow> Inr df2))"

section \<open>calcular_indice_priorizacao\<close>

text \<open>
  \<^verbatim>\<open>lambda x: np.abs(x).mean()\<close> and \<^verbatim>\<open>'sum'\<close> on the values of a group: the mean
  skips missing values and is NaN without any value, the sum without any value is 0.
\<close>

definition agg_mean_abs :: "float64 \<Rightarrow> cell list \<Rightarrow> cell" where
  "agg_mean_abs fp cs =
     (let xs = map abs (List.map_filter num cs)
      in if xs = [] then Null else Num (fl_mean fp xs))"

definition agg_group_sum :: "float64 \<Rightarrow> cell list \<Rightarrow> cell" where
  "agg_group_sum fp cs =
     (let xs = List.map_filter num cs
      in if xs = [] then Num 0 else Num (fl_group_sum fp xs))"

text \<open>
  The two normalisation blocks of the source, one for \<open>risco_medio\<close> and one for
  \<open>demanda_valor\<close>: \<^verbatim>\<open>(x - min) / (max - min)\<close> when \<^verbatim>\<open>(max - min) > 0\<close>, else the
  constant 0. On a table without values the difference is NaN and the test is false.
\<close>

definition min_max_normalizar :: "float64 \<Rightarrow> string \<Rightarrow> string \<Rightarrow> dataframe \<Rightarrow> dataframe" where
  "min_max_normalizar fp c out d =
     (let vs = List.map_filter (\<lambda>r. num (r c)) (rows d)
      in case (max_skipna vs, min_skipna vs) of
           (Some v_max, Some v_min) \<Rightarrow>
             if 0 < fl_sub fp v_max v_min
             then set_column out
                    (\<lambda>r. case num (r c) of
                            None \<Rightarrow> Null
                          | Some x \<Rightarrow>
                              Num (fl_div fp (fl_sub fp x v_min) (fl_sub fp v_max v_min))) d
             else set_column out (\<lambda>r. Num 0) d
         | _ \<Rightarrow> set_column out (\<lambda>r. Num 0) d)"

text \<open>Arithmetic on cells: a missing operand gives a missing result.\<close>

definition cell_op :: "(real \<Rightarrow> real \<Rightarrow> real) \<Rightarrow> cell \<Rightarrow> cell \<Rightarrow> cell" where
  "cell_op f a b = (case (num a, num b) of (Some x, Some y) \<Rightarrow> Num (f x y) | _ \<Rightarrow> Null)"

text \<open>\<^verbatim>\<open>(risco_normalizado * 0.5 + demanda_normalizada * 0.5).round(4)\<close>\<close>

definition indice_of :: "float64 \<Rightarrow> row \<Rightarrow> cell" where
  "indice_of fp r =
     round_cell fp 4
       (cell_op (fl_add fp)
          (cell_op (fl_mul fp) (r ''risco_normalizado'') (Num (1 / 2)))
          (cell_op (fl_mul fp) (r ''demanda_normalizada'') (Num (1 / 2))))"

definition calcular_indice_priorizacao :: "float64 \<Rightarrow> dataframe \<Rightarrow> py_error + dataframe" where
  "calcular_indice_priorizacao fp df =
     (if \<not> all_in [''id_produto'', ''preco_total'', ''score_z_risco''] df then Inr df
      else if \<not> (is_numeric_col df ''score_z_risco'' \<and> is_numeric_col df ''preco_total'')
      then Inl TypeError
      else
        bind_err (groupby_agg [''id_produto'']
                    [(''risco_medio'', ''score_z_risco'', agg_mean_abs fp),
                     (''demanda_valor'', ''preco_total'', agg_group_sum fp)] df) (\<lambda>g.
        let p1 = min_max_normalizar fp ''risco_medio'' ''risco_normalizado'' g;
            p2 = min_max_normalizar fp ''demanda_valor'' ''demanda_normalizada'' p1;
            p3 = set_column ''indice_priorizacao'' (indice_of fp) p2
        in
        bind_err (select_cols [''id_produto'', ''indice_priorizacao'', ''demanda_valor''] p3)
          (\<lambda>df_prioridade.
        bind_err (merge_left df df_prioridade [''id_produto'']) (\<lambda>m.
        if \<not> all_in [''indice_priorizacao'', ''demanda_valor''] m then Inl KeyError
        else Inr (set_column ''demanda_valor'' (\<lambda>r. fillna0 (r ''demanda_valor''))
                    (set_column ''indice_priorizacao'' (\<lambda>r. fillna0 (r ''indice_priorizacao'')) m))))))"

section \<open>gerar_mini_fato_radar_enriquecida\<close>

text \<open>
  \<^verbatim>\<open>'median'\<close> on the values of a group: the middle value, or half the sum of the two
  middle values.
\<close>

definition median_list :: "float64 \<Rightarrow> real list \<Rightarrow> real option" where
  "median_list fp xs =
     (let s = sort xs; n = length s
      in if n = 0 then None
         else if odd n then Some (s ! (n div 2))
         else Some (fl_div fp (fl_add fp (s ! (n div 2)) (s ! (n div 2 - 1))) 2))"

definition agg_median :: "float64 \<Rightarrow> cell list \<Rightarrow> cell" where
  "agg_median fp cs = of_num (median_list fp (List.map_filter num cs))"

definition empty_frame :: dataframe where
  "empty_frame = \<lparr>columns = [], rows = []\<rparr>"

definition contexto_benchmark :: "string list" where
  "contexto_benchmark = [''id_produto'', ''id_instituicao'', ''id_tempo'']"

definition required_cols :: "string list" where
  "required_cols = contexto_benchmark @
     [''id_pedido'', ''id_fornecedor'', ''id_fabricante'', ''preco_unitario'', ''preco_total'',
      ''qtd_itens_comprados'']"

definition linha_valida :: "row \<Rightarrow> bool" where
  "linha_valida r =
     ((case num (r ''preco_total'') of None \<Rightarrow> False | Some t \<Rightarrow> 0 < t) \<and>
      (case num (r ''qtd_itens_comprados'') of None \<Rightarrow> False | Some q \<Rightarrow> 0 < q))"

definition desvio_of :: "float64 \<Rightarrow> row \<Rightarrow> cell" where
  "desvio_of fp r =
     (case num (r ''PMP_Mediano_Dinamico'') of
        None \<Rightarrow> Num 0
      | Some b \<Rightarrow>
          if 0 < b
          then cell_op (fl_div fp)
                 (cell_op (fl_sub fp) (r ''preco_unitario'') (r ''PMP_Mediano_Dinamico''))
                 (r ''PMP_Mediano_Dinamico'')
          else Num 0)"

definition economia_of :: "float64 \<Rightarrow> row \<Rightarrow> cell" where
  "economia_of fp r =
     cell_op (fl_mul fp)
       (cell_op (fl_sub fp) (r ''preco_unitario'') (r ''PMP_Mediano_Dinamico''))
       (r ''qtd_itens_comprados'')"

definition gerar_mini_fato_radar_enriquecida :: "float64 \<Rightarrow> dataframe \<Rightarrow> py_error + dataframe" where
  "gerar_mini_fato_radar_enriquecida fp df_fato =
     (if \<not> all_in required_cols df_fato then Inr empty_frame
      else if \<not> (is_numeric_col df_fato ''preco_total'' \<and>
                 is_numeric_col df_fato ''qtd_itens_comprados'')
      then Inl TypeError
      else
        let df_limpo = df_fato\<lparr>rows := filter linha_valida (rows df_fato)\<rparr>
        in if rows df_limpo = [] then Inr empty_frame
           else if \<not> is_numeric_col df_limpo ''preco_unitario'' then Inl TypeError
           else
             bind_err (groupby_agg contexto_benchmark
                         [(''PMP_Mediano_Dinamico'', ''preco_unitario'', agg_median fp)] df_limpo)
               (\<lambda>df_benchmark.
             bind_err (merge_left df_limpo df_benchmark contexto_benchmark) (\<lambda>m.
             if ''PMP_Mediano_Dinamico'' \<notin> set (columns m) then Inl KeyError
             else
               let m1 = set_column ''Economia_por_Linha'' (economia_of fp) m;
                   m2 = set_column ''Desvio_%_Oportunidade'' (desvio_of fp) m1
               in
               bind_err (select_cols
                           [''id_pedido'', ''id_produto'', ''id_instituicao'', ''id_fabricante'',
                            ''id_fornecedor'', ''id_tempo'', ''preco_unitario'',
                            ''PMP_Mediano_Dinamico'', ''Desvio_%_Oportunidade'',
                            ''Economia_por_Linha''] m2) (\<lambda>radar_final.
               Inr (rename_col ''PMP_Mediano_Dinamico'' ''PMP_Benchmark_Referencia''
                      (rename_col ''preco_unitario'' ''PMP_Pago_Linha'' radar_final))))))"

section \<open>gerar_id_pedido\<close>

text \<open>
  \<^verbatim>\<open>str(x).strip()\<close> and \<^verbatim>\<open>re.sub(r'\D', '', s)[:8]\<close> on text with code points below
  256. There \<^verbatim>\<open>strip\<close> removes the characters 9 to 13, 28 to 32, 133 (next line) and
  160 (no-break space), and the decimal digits that \<^verbatim>\<open>\D\<close> keeps are 0 to 9.

  Python's \<^verbatim>\<open>str\<close> on a value that is not a string depends on the dtype of the value's
  column: the number 2 reads \<^verbatim>\<open>2\<close> in an int64 column and \<^verbatim>\<open>2.0\<close> in a float64 column,
  and a missing value reads \<^verbatim>\<open>nan\<close>, \<^verbatim>\<open>NaT\<close> or \<^verbatim>\<open>None\<close>. \<open>render c v\<close> stands for that
  text for the value \<open>v\<close> of the column \<open>c\<close>, and \<open>md5\<close> for
  \<^verbatim>\<open>hashlib.md5(s.encode('utf-8')).hexdigest()\<close>.
\<close>

definition is_space :: "char \<Rightarrow> bool" where
  "is_space c = (c \<in> set [CHR 0x09, CHR 0x0A, CHR 0x0B, CHR 0x0C, CHR 0x0D,
                            CHR 0x1C, CHR 0x1D, CHR 0x1E, CHR 0x1F, CHR 0x20,
                            CHR 0x85, CHR 0xA0])"

definition py_strip :: "string \<Rightarrow> string" where
  "py_strip s = rev (dropWhile is_space (rev (dropWhile is_space s)))"

definition is_digit :: "char \<Rightarrow> bool" where
  "is_digit c = (c \<in> set ''0123456789'')"

definition py_str :: "(string \<Rightarrow> cell \<Rightarrow> string) \<Rightarrow> string \<Rightarrow> cell \<Rightarrow> string" where
  "py_str render c v = (case v of Str s \<Rightarrow> s | _ \<Rightarrow> render c v)"

definition campo :: "(string \<Rightarrow> cell \<Rightarrow> string) \<Rightarrow> row \<Rightarrow> string \<Rightarrow> string" where
  "campo render r c = py_strip (py_str render c (r c))"

definition raiz :: "(string \<Rightarrow> cell \<Rightarrow> string) \<Rightarrow> row \<Rightarrow> string \<Rightarrow> string" where
  "raiz render r c = take 8 (filter is_digit (campo render r c))"

fun join_underscore :: "string list \<Rightarrow> string" where
  "join_underscore [] = []"
| "join_underscore [s] = s"
| "join_underscore (s # t # ss) = s @ ''_'' @ join_underscore (t # ss)"

definition chave_concatenada :: "(string \<Rightarrow> cell \<Rightarrow> string) \<Rightarrow> row \<Rightarrow> string" where
  "chave_concatenada render r =
     join_underscore
       [raiz render r ''cnpj_instituicao'',
        campo render r ''compra'',
        campo render r ''codigo_br'',
        raiz render r ''cnpj_fornecedor'',
        campo render r ''qtd_itens_comprados'',
        campo render r ''preco_unitario'',
        raiz render r ''cnpj_fabricante'',
        campo render r ''insercao'',
        campo render r ''unidade_fornecimento_capacidade'',
        campo render r ''capacidade'',
        campo render r ''unidade_medida'']"

definition calcular_hash_pedido ::
  "(string \<Rightarrow> string) \<Rightarrow> (string \<Rightarrow> cell \<Rightarrow> string) \<Rightarrow> row \<Rightarrow> string" where
  "calcular_hash_pedido md5 render r = md5 (chave_concatenada render r)"

definition colunas_hash :: "string list" where
  "colunas_hash =
     [''cnpj_instituicao'', ''compra'', ''codigo_br'', ''cnpj_fornecedor'', ''qtd_itens_comprados'',
      ''preco_unitario'', ''cnpj_fabricante'', ''insercao'', ''unidade_fornecimento_capacidade'',
      ''capacidade'', ''unidade_medida'']"

definition colunas_para_dropar :: "string list" where
  "colunas_para_dropar = [''unidade_fornecimento_capacidade'', ''capacidade'', ''unidade_medida'']"

text \<open>
  \<^verbatim>\<open>sort_values(by=['compra', 'codigo_br'], ascending=True)\<close> is a stable
  lexicographic sort. With two key columns pandas ranks the values of each column through
  a sorted categorical: numbers by value, or timestamps by date, then strings in the order
  of Python's strings, then missing values; a column of mixed numbers and strings is
  sorted so, and only a column that holds both numbers and timestamps raises TypeError.
  The sort key of a cell is its class (0, 1 or 2) followed by its value. With one key
  column pandas sorts the column itself with numpy's unstable quicksort, which is the
  parameter \<open>quicksort_compra\<close>, and a column of more than one kind of value raises
  TypeError.
\<close>

type_synonym chave = "nat \<times> real \<times> int \<times> int \<times> int \<times> int \<times> string"

fun chave_de :: "cell \<Rightarrow> chave" where
  "chave_de (Num x) = (0, x, 0, 0, 0, 0, [])"
| "chave_de (Ts y m d t) = (0, 0, y, m, d, t, [])"
| "chave_de (Str s) = (1, 0, 0, 0, 0, 0, s)"
| "chave_de Null = (2, 0, 0, 0, 0, 0, [])"

fun comparaveis :: "cell \<Rightarrow> cell \<Rightarrow> bool" where
  "comparaveis (Num x) (Ts y m d t) = False"
| "comparaveis (Ts y m d t) (Num x) = False"
| "comparaveis c c' = True"

fun mesmo_tipo :: "cell \<Rightarrow> cell \<Rightarrow> bool" where
  "mesmo_tipo (Num x) (Num y) = True"
| "mesmo_tipo (Str s) (Str t) = True"
| "mesmo_tipo (Ts y m d t) (Ts y' m' d' t') = True"
| "mesmo_tipo Null c = True"
| "mesmo_tipo c Null = True"
| "mesmo_tipo c c' = False"

definition ordenavel :: "dataframe \<Rightarrow> string \<Rightarrow> bool" where
  "ordenavel df c = list_all (\<lambda>r. list_all (\<lambda>r'. comparaveis (r c) (r' c)) (rows df)) (rows df)"

definition um_tipo :: "dataframe \<Rightarrow> string \<Rightarrow> bool" where
  "um_tipo df c = list_all (\<lambda>r. list_all (\<lambda>r'. mesmo_tipo (r c) (r' c)) (rows df)) (rows df)"

definition chave_ordenacao :: "row \<Rightarrow> chave \<times> chave" where
  "chave_ordenacao r = (chave_de (r ''compra''), chave_de (r ''codigo_br''))"

definition ordenar :: "(row list \<Rightarrow> row list) \<Rightarrow> dataframe \<Rightarrow> py_error + dataframe" where
  "ordenar quicksort_compra df =
     (if ''compra'' \<in> set (columns df) \<and> ''codigo_br'' \<in> set (columns df)
      then if ordenavel df ''compra'' \<and> ordenavel df ''codigo_br''
           then Inr (df\<lparr>rows := sort_key chave_ordenacao (rows df)\<rparr>)
           else Inl TypeError
      else if ''compra'' \<in> set (columns df)
      then if um_tipo df ''compra''
           then Inr (df\<lparr>rows := quicksort_compra (rows df)\<rparr>)
           else Inl TypeError
      else Inr df)"

definition gerar_id_pedido ::
  "float64 \<Rightarrow> (string \<Rightarrow> string) \<Rightarrow> (string \<Rightarrow> cell \<Rightarrow> string) \<Rightarrow> (row list \<Rightarrow> row list) \<Rightarrow>
   dataframe \<Rightarrow> py_error + dataframe" where
  "gerar_id_pedido fp md5 render quicksort_compra df =
     (if rows df = [] then Inr df
      else
        let df1 = (if all_in colunas_hash df
                   then set_column ''id_pedido'' (\<lambda>r. Str (calcular_hash_pedido md5 render r)) df
                   else df);
            df2 = drop_cols colunas_para_dropar df1
        in
        bind_err (calcular_zscore_risco fp df2) (\<lambda>df3.
        bind_err (ordenar quicksort_compra df3) (\<lambda>df4.
        Inr (if ''id_pedido'' \<in> set (columns df4)
             then df4\<lparr>columns := ''id_pedido'' # filter (\<lambda>c. c \<noteq> ''id_pedido'') (columns df4)\<rparr>
             else df4))))"

section \<open>criar_dimensao\<close>

text \<open>\<^verbatim>\<open>f"{x:05d}"\<close>: the decimal digits of \<open>x\<close>, padded with zeros on the left to width 5.\<close>

function str_nat :: "nat \<Rightarrow> string" where
  "str_nat n = (if n < 10 then [''0123456789'' ! n] else str_nat (n div 10) @ [''0123456789'' ! (n mod 10)])"
  by pat_completeness auto
termination
  by (relation "measure id") auto

declare str_nat.simps [simp del]

definition format_05d :: "nat \<Rightarrow> string" where
  "format_05d n = replicate (5 - length (str_nat n)) (CHR ''0'') @ str_nat n"

text \<open>
  The helper of \<^verbatim>\<open>criar_e_integrar_dimensoes\<close>, called for Institution (\<open>Ins\<close>), Product
  (\<open>Pro\<close>), Supplier (\<open>For\<close>) and Manufacturer (\<open>Fab\<close>). It returns the dimension and
  the fact table with the key joined in and the attributes dropped. The log line reads
  \<^verbatim>\<open>df_dim[chave_primaria].iloc[0]\<close>, which raises IndexError on an empty dimension.
\<close>

definition criar_dimensao ::
  "dataframe \<Rightarrow> string list \<Rightarrow> string \<Rightarrow> string \<Rightarrow> py_error + dataframe \<times> dataframe" where
  "criar_dimensao df_base colunas_atributos chave_primaria prefixo =
     (if \<not> all_in colunas_atributos df_base then Inl KeyError
      else
        let combos = drop_duplicates (map (\<lambda>r. map r colunas_atributos) (rows df_base));
            df_dim =
              \<lparr>columns = chave_primaria # colunas_atributos,
               rows = map (\<lambda>(i, k). mk_row ((chave_primaria, Str (prefixo @ format_05d (i + 1))) #
                                            zip colunas_atributos k))
                        (enumerate 0 combos)\<rparr>
        in if rows df_dim = [] then Inl IndexError
           else bind_err (merge_left df_base df_dim colunas_atributos) (\<lambda>m.
                Inr (df_dim, drop_cols colunas_atributos m)))"

section \<open>Example tables\<close>

text \<open>
  The arithmetic of the real numbers, which float64 approximates: no operation rounds,
  \<^verbatim>\<open>round(n)\<close> rounds half to even, and the standard deviation is the sample standard
  deviation. The examples are evaluated in it.
\<close>

definition desvio_amostral :: "real list \<Rightarrow> real" where
  "desvio_amostral xs =
     (let m = sum_list xs / real (length xs)
      in sqrt (sum_list (map (\<lambda>x. (x - m)\<^sup>2) xs) / real (length xs - 1)))"

definition exato :: float64 where
  "exato = \<lparr>fl_add = (+), fl_sub = (-), fl_mul = (*), fl_div = (/), fl_round = round_dec,
             fl_group_mean = (\<lambda>xs. sum_list xs / real (length xs)),
             fl_group_std = desvio_amostral,
             fl_group_sum = sum_list,
             fl_mean = (\<lambda>xs. sum_list xs / real (length xs))\<rparr>"

text \<open>
  Two purchases of product 123 in 2024, of 2 units for 20 and of 3 units for 90 (unit
  prices 10 and 30); one line of product 456 with quantity 0; and two purchases of
  product 789 at the same unit price 5.
\<close>

definition ex_zscore :: dataframe where
  "ex_zscore =
     \<lparr>columns = [''compra'', ''codigo_br'', ''preco_total'', ''qtd_itens_comprados''],
      rows = [mk_row [(''compra'', Ts 2024 3 1 0), (''codigo_br'', Str ''123''),
                      (''preco_total'', Num 20), (''qtd_itens_comprados'', Num 2)],
              mk_row [(''compra'', Ts 2024 7 9 0), (''codigo_br'', Str ''123''),
                      (''preco_total'', Num 90), (''qtd_itens_comprados'', Num 3)],
              mk_row [(''compra'', Ts 2024 7 9 0), (''codigo_br'', Str ''456''),
                      (''preco_total'', Num 8), (''qtd_itens_comprados'', Num 0)],
              mk_row [(''compra'', Ts 2024 2 2 0), (''codigo_br'', Str ''789''),
                      (''preco_total'', Num 10), (''qtd_itens_comprados'', Num 2)],
              mk_row [(''compra'', Ts 2024 5 6 0), (''codigo_br'', Str ''789''),
                      (''preco_total'', Num 15), (''qtd_itens_comprados'', Num 3)]]\<rparr>"

text \<open>
  A consolidated extract as the ingestion leaves it: the file's year in \<open>ano_compra\<close>
  (2023) and a purchase dated January 2024.
\<close>

definition ex_frame :: dataframe where
  "ex_frame =
     \<lparr>columns = [''ano_compra'', ''compra'', ''codigo_br'', ''preco_total'', ''qtd_itens_comprados''],
      rows = [mk_row [(''ano_compra'', Num 2023), (''compra'', Ts 2024 1 5 0),
                      (''codigo_br'', Str ''123''), (''preco_total'', Num 10),
                      (''qtd_itens_comprados'', Num 1)]]\<rparr>"


text \<open>A fact table without \<open>id_produto\<close>, and one whose purchase dates are all missing.\<close>

definition ex_sem_produto :: dataframe where
  "ex_sem_produto =
     \<lparr>columns = [''data_compra'', ''id_fornecedor'', ''preco_total''],
      rows = [mk_row [(''data_compra'', Ts 2024 1 5 0), (''id_fornecedor'', Str ''For00001''),
                      (''preco_total'', Num 700)]]\<rparr>"

definition ex_sem_datas :: dataframe where
  "ex_sem_datas =
     \<lparr>columns = [''id_produto'', ''data_compra''],
      rows = [mk_row [(''id_produto'', Str ''Pro00001''), (''data_compra'', Null)]]\<rparr>"

section \<open>Definitions used in the proofs\<close>

text \<open>The right-hand row that a left join finds for a row, or the all-missing row.\<close>

definition lookup_row :: "string list \<Rightarrow> row list \<Rightarrow> row \<Rightarrow> row" where
  "lookup_row on rs r =
     (case find (\<lambda>r'. map r' on = map r on) rs of None \<Rightarrow> (\<lambda>c. Null) | Some r' \<Rightarrow> r')"

text \<open>Reading a decimal string back, to tell formatted keys apart.\<close>

definition digit_val :: "char \<Rightarrow> nat" where
  "digit_val c = (of_char c - 48)"

definition nat_of_dec :: "string \<Rightarrow> nat" where
  "nat_of_dec s = foldl (\<lambda>a c. 10 * a + digit_val c) 0 s"

text \<open>The surrogate key of index \<open>i\<close>, and the dimension row of the \<open>i\<close>-th combination.\<close>

definition chave_sk :: "string \<Rightarrow> nat \<Rightarrow> cell" where
  "chave_sk prefixo i = Str (prefixo @ format_05d i)"

definition dim_row :: "string list \<Rightarrow> string \<Rightarrow> string \<Rightarrow> nat \<times> cell list \<Rightarrow> row" where
  "dim_row colunas_atributos chave_primaria prefixo =
     (\<lambda>(i, k). mk_row ((chave_primaria, Str (prefixo @ format_05d (i + 1))) # zip colunas_atributos k))"

text \<open>The key of the last row of the dimension that \<open>criar_dimensao\<close> returns.\<close>

definition ultima_chave :: "py_error + dataframe \<times> dataframe \<Rightarrow> string \<Rightarrow> py_error + cell" where
  "ultima_chave res c = (case res of Inl e \<Rightarrow> Inl e | Inr (dimensao, fato) \<Rightarrow> Inr (last (col dimensao c)))"

text \<open>The attribute columns of the Institution dimension.\<close>

definition col_inst :: "string list" where
  "col_inst = [''cnpj_instituicao'', ''nome_instituicao'', ''municipio_instituicao'', ''uf'']"

text \<open>
  Three purchases, the first and third by the same institution; and a catalogue of
  100000 products.
\<close>

definition ex_grande :: dataframe where
  "ex_grande =
     \<lparr>columns = [''codigo_br''],
      rows = map (\<lambda>i. mk_row [(''codigo_br'', Num (real i))]) [0..<100000]\<rparr>"

definition ex_inst :: dataframe where
  "ex_inst =
     \<lparr>columns = [''cnpj_instituicao'', ''nome_instituicao'', ''municipio_instituicao'', ''uf'',
                 ''preco_total''],
      rows = [mk_row [(''cnpj_instituicao'', Str ''11''), (''nome_instituicao'', Str ''A''),
                      (''municipio_instituicao'', Str ''Recife''), (''uf'', Str ''PE''),
                      (''preco_total'', Num 1)],
              mk_row [(''cnpj_instituicao'', Str ''22''), (''nome_instituicao'', Str ''B''),
                      (''municipio_instituicao'', Str ''Natal''), (''uf'', Str ''RN''),
                      (''preco_total'', Num 2)],
              mk_row [(''cnpj_instituicao'', Str ''11''), (''nome_instituicao'', Str ''A''),
                      (''municipio_instituicao'', Str ''Recife''), (''uf'', Str ''PE''),
                      (''preco_total'', Num 3)]]\<rparr>"

text \<open>
  What the z-score stage needs in order to return: if its four columns are present, a
  datetime purchase date and numeric quantity and price.
\<close>

definition zscore_pronto :: "dataframe \<Rightarrow> bool" where
  "zscore_pronto df =
     (all_in [''compra'', ''codigo_br'', ''preco_total'', ''qtd_itens_comprados''] df \<longrightarrow>
      is_datetime_col df ''compra'' \<and> is_numeric_col df ''qtd_itens_comprados'' \<and>
      is_numeric_col df ''preco_total'')"

text \<open>
  Five lines out of order, two of them with the same date and the same numeric code, two
  with a code that is text, and one without a date; and two orders with all eleven hash
  fields (the code of the first between a no-break space and a space), with Python's
  \<^verbatim>\<open>str\<close> on their numbers and dates: the quantity is an int64 column, the unit price
  and the capacity are float64 columns.
\<close>

definition ex_ordem :: dataframe where
  "ex_ordem =
     \<lparr>columns = [''compra'', ''codigo_br'', ''preco_total'', ''qtd_itens_comprados'', ''linha''],
      rows = [mk_row [(''compra'', Ts 2024 3 1 0), (''codigo_br'', Str ''BR2''),
                      (''preco_total'', Num 10), (''qtd_itens_comprados'', Num 1), (''linha'', Num 1)],
              mk_row [(''compra'', Ts 2024 1 5 0), (''codigo_br'', Str ''BR9''),
                      (''preco_total'', Num 10), (''qtd_itens_comprados'', Num 1), (''linha'', Num 2)],
              mk_row [(''compra'', Ts 2024 3 1 0), (''codigo_br'', Num 7),
                      (''preco_total'', Num 10), (''qtd_itens_comprados'', Num 1), (''linha'', Num 3)],
              mk_row [(''compra'', Null), (''codigo_br'', Str ''BR0''),
                      (''preco_total'', Num 10), (''qtd_itens_comprados'', Num 1), (''linha'', Num 4)],
              mk_row [(''compra'', Ts 2024 3 1 0), (''codigo_br'', Num 7),
                      (''preco_total'', Num 10), (''qtd_itens_comprados'', Num 1), (''linha'', Num 5)]]\<rparr>"

definition ex_render :: "string \<Rightarrow> cell \<Rightarrow> string" where
  "ex_render c v =
     (case v of
        Num x \<Rightarrow> (if c = ''qtd_itens_comprados'' then ''2''
                  else if x = 2 then ''2.0'' else ''500.0'')
      | Ts y m d t \<Rightarrow> (if d = 5 then ''2024-01-05 00:00:00'' else ''2024-01-09 00:00:00'')
      | Str s \<Rightarrow> s
      | Null \<Rightarrow> ''nan'')"

definition ex_pedidos :: dataframe where
  "ex_pedidos =
     \<lparr>columns = colunas_hash,
      rows = [mk_row [(''cnpj_instituicao'', Str ''12.345.678/0001-99''),
                      (''compra'', Ts 2024 1 9 0), (''codigo_br'', Str [CHR 0xA0, CHR ''B'', CHR ''R'', CHR ''1'', CHR 0x20]),
                      (''cnpj_fornecedor'', Str ''98765432000155''),
                      (''qtd_itens_comprados'', Num 2), (''preco_unitario'', Num 2),
                      (''cnpj_fabricante'', Null), (''insercao'', Ts 2024 1 9 0),
                      (''unidade_fornecimento_capacidade'', Str ''FRASCO''),
                      (''capacidade'', Num 500), (''unidade_medida'', Str ''ML'')],
              mk_row [(''cnpj_instituicao'', Str ''12.345.678/0001-99''),
                      (''compra'', Ts 2024 1 5 0), (''codigo_br'', Str ''BR7''),
                      (''cnpj_fornecedor'', Str ''98765432000155''),
                      (''qtd_itens_comprados'', Num 2), (''preco_unitario'', Num 2),
                      (''cnpj_fabricante'', Str ''11222333000181''), (''insercao'', Ts 2024 1 9 0),
                      (''unidade_fornecimento_capacidade'', Str ''FRASCO''),
                      (''capacidade'', Num 500), (''unidade_medida'', Str ''ML'')]]\<rparr>"









text \<open>
  The claim's words for the priority index. The risk of a product is the mean of the
  absolute z-scores of its lines, missing for a product without any z-score, and its
  demand is the sum of their total prices. Each metric is normalized over the products
  by \<open>(x - min) / (max - min)\<close> when the difference is strictly positive, and to 0
  otherwise. The index of a product is half its normalized risk plus half its normalized
  demand, rounded to 4 decimals; a line without a product, or whose product has no index,
  gets 0, and a line without a product gets the demand 0.
\<close>

definition risco_medio_spec :: "float64 \<Rightarrow> row list \<Rightarrow> cell \<Rightarrow> real option" where
  "risco_medio_spec fp rs p =
     (let zs = List.map_filter (\<lambda>r. num (r ''score_z_risco''))
                 (filter (\<lambda>r. r ''id_produto'' = p) rs)
      in if zs = [] then None else Some (fl_mean fp (map abs zs)))"

definition demanda_spec :: "float64 \<Rightarrow> row list \<Rightarrow> cell \<Rightarrow> real" where
  "demanda_spec fp rs p =
     (let ts = List.map_filter (\<lambda>r. num (r ''preco_total''))
                 (filter (\<lambda>r. r ''id_produto'' = p) rs)
      in if ts = [] then 0 else fl_group_sum fp ts)"

definition normalizar_spec :: "float64 \<Rightarrow> real list \<Rightarrow> real option \<Rightarrow> real option" where
  "normalizar_spec fp vs x =
     (case (max_skipna vs, min_skipna vs) of
        (Some v_max, Some v_min) \<Rightarrow>
          if 0 < fl_sub fp v_max v_min
          then map_option (\<lambda>v. fl_div fp (fl_sub fp v v_min) (fl_sub fp v_max v_min)) x
          else Some 0
      | _ \<Rightarrow> Some 0)"

definition riscos :: "float64 \<Rightarrow> row list \<Rightarrow> real list" where
  "riscos fp rs =
     List.map_filter (\<lambda>k. risco_medio_spec fp rs (hd k)) (group_keys [''id_produto''] rs)"

definition demandas :: "float64 \<Rightarrow> row list \<Rightarrow> real list" where
  "demandas fp rs = map (\<lambda>k. demanda_spec fp rs (hd k)) (group_keys [''id_produto''] rs)"

definition risco_normalizado :: "float64 \<Rightarrow> row list \<Rightarrow> cell \<Rightarrow> real option" where
  "risco_normalizado fp rs p = normalizar_spec fp (riscos fp rs) (risco_medio_spec fp rs p)"

definition demanda_normalizada :: "float64 \<Rightarrow> row list \<Rightarrow> cell \<Rightarrow> real option" where
  "demanda_normalizada fp rs p =
     normalizar_spec fp (demandas fp rs) (Some (demanda_spec fp rs p))"

definition indice_spec :: "float64 \<Rightarrow> row list \<Rightarrow> cell \<Rightarrow> cell" where
  "indice_spec fp rs p =
     (case (risco_normalizado fp rs p, demanda_normalizada fp rs p) of
        (Some a, Some b) \<Rightarrow>
          Num (fl_round fp 4 (fl_add fp (fl_mul fp a (1 / 2)) (fl_mul fp b (1 / 2))))
      | _ \<Rightarrow> Null)"

definition indice_linha :: "float64 \<Rightarrow> row list \<Rightarrow> row \<Rightarrow> cell" where
  "indice_linha fp rs r =
     (if r ''id_produto'' = Null then Num 0 else fillna0 (indice_spec fp rs (r ''id_produto'')))"

definition demanda_linha :: "float64 \<Rightarrow> row list \<Rightarrow> row \<Rightarrow> cell" where
  "demanda_linha fp rs r =
     (if r ''id_produto'' = Null then Num 0 else Num (demanda_spec fp rs (r ''id_produto'')))"

text \<open>
  What the bounds need of the arithmetic, and what holds of float64 with rounding to
  nearest, whose rounding is monotone and leaves 0 and 1 as they are: \<open>x - x\<close> is 0; a
  difference is monotone in its first operand; the quotient of a number between 0 and a
  positive divisor by that divisor lies in [0, 1]; half a number of [0, 1] plus half
  another lies in [0, 1]; and a number of [0, 1] rounded to 4 decimals lies in [0, 1].
\<close>

definition na_unidade :: "float64 \<Rightarrow> bool" where
  "na_unidade fp =
     ((\<forall>x. fl_sub fp x x = 0) \<and>
      (\<forall>m x M. m \<le> x \<and> x \<le> M \<longrightarrow> 0 \<le> fl_sub fp x m \<and> fl_sub fp x m \<le> fl_sub fp M m) \<and>
      (\<forall>a b. 0 \<le> a \<and> a \<le> b \<and> 0 < b \<longrightarrow> 0 \<le> fl_div fp a b \<and> fl_div fp a b \<le> 1) \<and>
      (\<forall>a b. 0 \<le> a \<and> a \<le> 1 \<and> 0 \<le> b \<and> b \<le> 1 \<longrightarrow>
         0 \<le> fl_add fp (fl_mul fp a (1 / 2)) (fl_mul fp b (1 / 2)) \<and>
         fl_add fp (fl_mul fp a (1 / 2)) (fl_mul fp b (1 / 2)) \<le> 1) \<and>
      (\<forall>x. 0 \<le> x \<and> x \<le> 1 \<longrightarrow> 0 \<le> fl_round fp 4 x \<and> fl_round fp 4 x \<le> 1))"

text \<open>
  Three products: two lines of product 1 with z-scores 2 and -2, product 2 with z-score
  0, product 3 with z-score 1, and a line without a product; and a table with a single
  product.
\<close>

definition ex_prio :: dataframe where
  "ex_prio =
     \<lparr>columns = [''id_produto'', ''preco_total'', ''score_z_risco''],
      rows = [mk_row [(''id_produto'', Str ''Pro00001''), (''preco_total'', Num 100),
                      (''score_z_risco'', Num 2)],
              mk_row [(''id_produto'', Str ''Pro00001''), (''preco_total'', Num 300),
                      (''score_z_risco'', Num (- 2))],
              mk_row [(''id_produto'', Str ''Pro00002''), (''preco_total'', Num 50),
                      (''score_z_risco'', Num 0)],
              mk_row [(''id_produto'', Str ''Pro00003''), (''preco_total'', Num 150),
                      (''score_z_risco'', Num 1)],
              mk_row [(''id_produto'', Null), (''preco_total'', Num 10),
                      (''score_z_risco'', Num 3)]]\<rparr>"

definition ex_prio_unico :: dataframe where
  "ex_prio_unico =
     \<lparr>columns = [''id_produto'', ''preco_total'', ''score_z_risco''],
      rows = [mk_row [(''id_produto'', Str ''Pro00001''), (''preco_total'', Num 100),
                      (''score_z_risco'', Num 2)],
              mk_row [(''id_produto'', Str ''Pro00001''), (''preco_total'', Num 300),
                      (''score_z_risco'', Num (- 1))]]\<rparr>"

text \<open>
  The claim's words for the radar. A line is valid when its total price and its quantity
  are numbers strictly above 0. The benchmark of a line is the median of the unit prices
  of the valid lines of its product, institution and time period: the middle value in
  sorted order, or half the sum of the two middle values; a line that lacks one of the
  three keys has no benchmark. The saving of a line is \<open>(unit price - benchmark) *
  quantity\<close>, and its deviation is \<open>(unit price - benchmark) / benchmark\<close> if the
  benchmark is strictly positive, else 0. \<open>radar_linha\<close> is the radar row of a valid
  line, read at the labels of \<open>colunas_radar\<close>.
\<close>

fun positivo :: "cell \<Rightarrow> bool" where
  "positivo (Num x) = (0 < x)"
| "positivo (Str s) = False"
| "positivo (Ts y m d t) = False"
| "positivo Null = False"

definition validas :: "row list \<Rightarrow> row list" where
  "validas rs = filter (\<lambda>r. positivo (r ''preco_total'') \<and> positivo (r ''qtd_itens_comprados'')) rs"

definition grupo_radar :: "row list \<Rightarrow> row \<Rightarrow> row list" where
  "grupo_radar vs r =
     filter (\<lambda>r'. r' ''id_produto'' = r ''id_produto'' \<and>
                   r' ''id_instituicao'' = r ''id_instituicao'' \<and>
                   r' ''id_tempo'' = r ''id_tempo'') vs"

definition mediana_spec :: "float64 \<Rightarrow> real list \<Rightarrow> real option" where
  "mediana_spec fp xs =
     (let s = sort xs; h = length s div 2
      in if s = [] then None
         else if even (length s)
         then Some (fl_div fp (fl_add fp (hd (drop h s)) (last (take h s))) 2)
         else Some (hd (drop h s)))"

definition benchmark_spec :: "float64 \<Rightarrow> row list \<Rightarrow> row \<Rightarrow> cell" where
  "benchmark_spec fp vs r =
     (if r ''id_produto'' = Null \<or> r ''id_instituicao'' = Null \<or> r ''id_tempo'' = Null
      then Null
      else of_num (mediana_spec fp
                     (List.map_filter (\<lambda>r'. num (r' ''preco_unitario'')) (grupo_radar vs r))))"

definition economia_spec :: "float64 \<Rightarrow> row \<Rightarrow> cell \<Rightarrow> cell" where
  "economia_spec fp r b =
     (case (r ''preco_unitario'', b, r ''qtd_itens_comprados'') of
        (Num p, Num m, Num q) \<Rightarrow> Num (fl_mul fp (fl_sub fp p m) q)
      | _ \<Rightarrow> Null)"

definition desvio_oportunidade_spec :: "float64 \<Rightarrow> row \<Rightarrow> cell \<Rightarrow> cell" where
  "desvio_oportunidade_spec fp r b =
     (case b of
        Num m \<Rightarrow>
          if m > 0
          then (case r ''preco_unitario'' of
                  Num p \<Rightarrow> Num (fl_div fp (fl_sub fp p m) m)
                | _ \<Rightarrow> Null)
          else Num 0
      | _ \<Rightarrow> Num 0)"

definition radar_linha :: "float64 \<Rightarrow> row list \<Rightarrow> row \<Rightarrow> row" where
  "radar_linha fp vs r =
     r(''PMP_Mediano_Dinamico'' := benchmark_spec fp vs r,
       ''Economia_por_Linha'' := economia_spec fp r (benchmark_spec fp vs r),
       ''Desvio_%_Oportunidade'' := desvio_oportunidade_spec fp r (benchmark_spec fp vs r),
       ''PMP_Pago_Linha'' := r ''preco_unitario'',
       ''PMP_Benchmark_Referencia'' := benchmark_spec fp vs r)"

definition colunas_radar :: "string list" where
  "colunas_radar =
     [''id_pedido'', ''id_produto'', ''id_instituicao'', ''id_fabricante'', ''id_fornecedor'',
      ''id_tempo'', ''PMP_Pago_Linha'', ''PMP_Benchmark_Referencia'', ''Desvio_%_Oportunidade'',
      ''Economia_por_Linha'']"


text \<open>
  Six lines: two valid purchases of product 1 at unit prices 10 and 30 and one with
  price 0; of product 2 a valid purchase at 7, a valid one without a time period, and
  one with quantity 0.
\<close>

definition ex_radar :: dataframe where
  "ex_radar =
     \<lparr>columns = [''id_pedido'', ''id_produto'', ''id_instituicao'', ''id_tempo'', ''id_fornecedor'',
                 ''id_fabricante'', ''preco_unitario'', ''preco_total'', ''qtd_itens_comprados''],
      rows = [mk_row [(''id_pedido'', Str ''a''), (''id_produto'', Str ''Pro00001''),
                      (''id_instituicao'', Str ''Ins00001''), (''id_tempo'', Num 20240105),
                      (''id_fornecedor'', Str ''For00001''), (''id_fabricante'', Str ''Fab00001''),
                      (''preco_unitario'', Num 10), (''preco_total'', Num 20),
                      (''qtd_itens_comprados'', Num 2)],
              mk_row [(''id_pedido'', Str ''b''), (''id_produto'', Str ''Pro00001''),
                      (''id_instituicao'', Str ''Ins00001''), (''id_tempo'', Num 20240105),
                      (''id_fornecedor'', Str ''For00001''), (''id_fabricante'', Str ''Fab00001''),
                      (''preco_unitario'', Num 30), (''preco_total'', Num 90),
                      (''qtd_itens_comprados'', Num 3)],
              mk_row [(''id_pedido'', Str ''c''), (''id_produto'', Str ''Pro00001''),
                      (''id_instituicao'', Str ''Ins00001''), (''id_tempo'', Num 20240105),
                      (''id_fornecedor'', Str ''For00001''), (''id_fabricante'', Str ''Fab00001''),
                      (''preco_unitario'', Num 0), (''preco_total'', Num 0),
                      (''qtd_itens_comprados'', Num 5)],
              mk_row [(''id_pedido'', Str ''d''), (''id_produto'', Str ''Pro00002''),
                      (''id_instituicao'', Str ''Ins00001''), (''id_tempo'', Num 20240105),
                      (''id_fornecedor'', Str ''For00001''), (''id_fabricante'', Str ''Fab00001''),
                      (''preco_unitario'', Num 7), (''preco_total'', Num 7),
                      (''qtd_itens_comprados'', Num 1)],
              mk_row [(''id_pedido'', Str ''e''), (''id_produto'', Str ''Pro00002''),
                      (''id_instituicao'', Str ''Ins00001''), (''id_tempo'', Null),
                      (''id_fornecedor'', Str ''For00001''), (''id_fabricante'', Str ''Fab00001''),
                      (''preco_unitario'', Num 4), (''preco_total'', Num 8),
                      (''qtd_itens_comprados'', Num 2)],
              mk_row [(''id_pedido'', Str ''f''), (''id_produto'', Str ''Pro00002''),
                      (''id_instituicao'', Str ''Ins00001''), (''id_tempo'', Num 20240105),
                      (''id_fornecedor'', Str ''For00001''), (''id_fabricante'', Str ''Fab00001''),
                      (''preco_unitario'', Num 9), (''preco_total'', Num 9),
                      (''qtd_itens_comprados'', Num 0)]]\<rparr>"

section \<open>Properties\<close>

subsection \<open>Tables and grouped statistics\<close>

lemma rows_set_column: "rows (set_column c f df) = map (\<lambda>r. r(c := f r)) (rows df)"
  by (simp add: set_column_def)

lemma columns_set_column:
  "columns (set_column c f df) = (if c \<in> set (columns df) then columns df else columns df @ [c])"
  by (simp add: set_column_def)

lemma set_column_mk:
  "set_column c f \<lparr>columns = cs, rows = map g rs\<rparr> =
     \<lparr>columns = (if c \<in> set cs then cs else cs @ [c]),
      rows = map (\<lambda>r. (g r)(c := f (g r))) rs\<rparr>"
  by (simp add: set_column_def comp_def)

lemma is_numeric_set_column:
  "c \<noteq> c' \<Longrightarrow> is_numeric_col (set_column c' f df) c = is_numeric_col df c"
  by (simp add: is_numeric_col_def list_all_iff rows_set_column)

lemma map_filter_map: "List.map_filter f (map g xs) = List.map_filter (f \<circ> g) xs"
  by (induction xs) (simp_all add: List.map_filter_simps split: option.splits)

lemma length_map_filter_le: "length (List.map_filter f xs) \<le> length xs"
  by (induction xs) (simp_all add: List.map_filter_simps split: option.splits)

lemma set_map_filter: "set (List.map_filter f xs) = {y. \<exists>x\<in>set xs. f x = Some y}"
  by (induction xs) (auto simp add: List.map_filter_simps split: option.splits)

lemma transform_map:
  "transform agg ks c (map g rs) (g r) =
     (if Null \<in> set (map (g r) ks) then Null
      else of_num (agg (List.map_filter (\<lambda>r'. num (g r' c))
                          (filter (\<lambda>r'. map (g r') ks = map (g r) ks) rs))))"
  by (simp add: transform_def group_values_def filter_map map_filter_map comp_def)

lemma num_of_num [simp]: "num (of_num x) = x"
  by (cases x) simp_all

lemma sum_list_const: "\<forall>x\<in>set xs. x = (v::real) \<Longrightarrow> sum_list xs = real (length xs) * v"
  by (induction xs) (simp_all add: algebra_simps)

lemma desvio_amostral_const:
  assumes "\<forall>x\<in>set xs. x = v"
  shows "desvio_amostral xs = 0"
proof -
  have "\<forall>y\<in>set (map (\<lambda>x. (x - sum_list xs / real (length xs))\<^sup>2) xs).
          y = (v - sum_list xs / real (length xs))\<^sup>2"
    using assms by auto
  then have e: "sum_list (map (\<lambda>x. (x - sum_list xs / real (length xs))\<^sup>2) xs) =
             real (length xs) * (v - sum_list xs / real (length xs))\<^sup>2"
    using sum_list_const [of "map (\<lambda>x. (x - sum_list xs / real (length xs))\<^sup>2) xs"] by simp
  have "real (length xs) * (v - sum_list xs / real (length xs))\<^sup>2 = 0"
    using sum_list_const [OF assms] by (cases "xs = []") simp_all
  then show ?thesis
    by (simp add: desvio_amostral_def Let_def e)
qed

subsection \<open>Rounding\<close>

lemma round_half_even_of_int [simp]: "round_half_even (of_int k) = k"
  by (simp add: round_half_even_def)

lemma round_dec_zero [simp]: "round_dec n 0 = 0"
  using round_half_even_of_int [of 0] by (simp add: round_dec_def)

lemma round_half_even_near:
  assumes "of_int k - 1 / 2 < x" and "x < of_int k + 1 / 2"
  shows "round_half_even x = k"
proof -
  have "\<lfloor>x\<rfloor> = k \<or> \<lfloor>x\<rfloor> = k - 1"
    using assms by linarith
  then show ?thesis
    using assms by (auto simp add: round_half_even_def Let_def)
qed

subsection \<open>The z-score stage\<close>

lemma pmp_individual_of_spec: "pmp_individual_of fp r = pmp_spec fp r"
  by (cases "r ''qtd_itens_comprados''"; cases "r ''preco_total''")
    (simp_all add: pmp_individual_of_def pmp_spec_def)

lemma pmp_ano: "pmp_spec fp (r(''ano_compra'' := v)) = pmp_spec fp r"
  by (simp add: pmp_spec_def split: cell.splits)

text \<open>
  The stage as one pass over the rows: on a table with the four required columns, a
  datetime purchase date and numeric price and quantity, every row receives the five
  columns of \<open>zscore_row\<close>, computed from the input rows.
\<close>

lemma calcular_zscore_risco_rows:
  assumes cols: "all_in [''compra'', ''codigo_br'', ''preco_total'', ''qtd_itens_comprados''] df"
    and dt: "is_datetime_col df ''compra''"
    and nq: "is_numeric_col df ''qtd_itens_comprados''"
    and np: "is_numeric_col df ''preco_total''"
  shows "calcular_zscore_risco fp df =
           Inr \<lparr>columns = zscore_columns (columns df),
                rows = map (zscore_row fp (rows df)) (rows df)\<rparr>"
proof -
  define rs where "rs = rows df"
  define cs where "cs = columns df"
  define g1 :: "row \<Rightarrow> row" where "g1 = (\<lambda>r. r(''ano_compra'' := year_of (r ''compra'')))"
  define g2 :: "row \<Rightarrow> row" where "g2 = (\<lambda>r. (g1 r)(''pmp_individual'' := pmp_spec fp r))"
  define g3 :: "row \<Rightarrow> row" where "g3 = (\<lambda>r. (g2 r)(''pmp_medio'' := medio_spec fp rs r))"
  define g5 :: "row \<Rightarrow> row" where
    "g5 = (\<lambda>r. (g3 r)(''pmp_desvio_padrao'' := desvio_spec fp rs r))"
  define c1 where "c1 = (if ''ano_compra'' \<in> set cs then cs else cs @ [''ano_compra''])"
  define c2 where "c2 = (if ''pmp_individual'' \<in> set c1 then c1 else c1 @ [''pmp_individual''])"
  define c3 where "c3 = (if ''pmp_medio'' \<in> set c2 then c2 else c2 @ [''pmp_medio''])"
  define c4 where "c4 = (if ''pmp_desvio_padrao'' \<in> set c3 then c3 else c3 @ [''pmp_desvio_padrao''])"
  define c6 where "c6 = (if ''score_z_risco'' \<in> set c4 then c4 else c4 @ [''score_z_risco''])"
  define df1 where "df1 = set_column ''ano_compra'' (\<lambda>r. year_of (r ''compra'')) df"
  define df2 where "df2 = set_column ''pmp_individual'' (pmp_spec fp) df1"
  define df3 where "df3 = set_column ''pmp_medio''
      (transform (agg_mean fp) colunas_agrupamento ''pmp_individual'' (rows df2)) df2"
  define df4 where "df4 = set_column ''pmp_desvio_padrao''
      (transform (agg_std fp) colunas_agrupamento ''pmp_individual'' (rows df3)) df3"
  define df5 where "df5 = set_column ''pmp_desvio_padrao'' (\<lambda>r. fillna0 (r ''pmp_desvio_padrao'')) df4"
  define df6 where "df6 = set_column ''score_z_risco'' (zscore_of fp) df5"
  define df7 where
    "df7 = set_column ''score_z_risco'' (\<lambda>r. round_cell fp 2 (r ''score_z_risco'')) df6"
  have pf: "pmp_individual_of fp = pmp_spec fp"
    by (rule ext) (rule pmp_individual_of_spec)
  have e1: "df1 = \<lparr>columns = c1, rows = map g1 rs\<rparr>"
    by (simp add: df1_def set_column_def c1_def cs_def g1_def rs_def)
  have e2: "df2 = \<lparr>columns = c2, rows = map g2 rs\<rparr>"
    unfolding df2_def e1 set_column_mk by (simp add: c2_def g2_def g1_def pmp_ano)
  have gk2: "\<And>r r'. (map (g2 r') colunas_agrupamento = map (g2 r) colunas_agrupamento) =
       (r' ''codigo_br'' = r ''codigo_br'' \<and> year_of (r' ''compra'') = year_of (r ''compra''))"
    by (simp add: colunas_agrupamento_def g2_def g1_def)
  have gn2: "\<And>r. (Null \<in> set (map (g2 r) colunas_agrupamento)) = sem_grupo r"
    by (auto simp add: colunas_agrupamento_def g2_def g1_def sem_grupo_def)
  have gv2: "\<And>r'. g2 r' ''pmp_individual'' = pmp_spec fp r'"
    by (simp add: g2_def)
  have t2: "\<And>r. transform (agg_mean fp) colunas_agrupamento ''pmp_individual'' (map g2 rs) (g2 r)
              = medio_spec fp rs r"
    unfolding transform_map gk2 gn2 gv2 by (simp add: medio_spec_def grupo_pmp_def grupo_def)
  have e3: "df3 = \<lparr>columns = c3, rows = map g3 rs\<rparr>"
    unfolding df3_def e2 set_column_mk by (simp add: c3_def g3_def t2)
  have gk3: "\<And>r r'. (map (g3 r') colunas_agrupamento = map (g3 r) colunas_agrupamento) =
       (r' ''codigo_br'' = r ''codigo_br'' \<and> year_of (r' ''compra'') = year_of (r ''compra''))"
    by (simp add: colunas_agrupamento_def g3_def g2_def g1_def)
  have gn3: "\<And>r. (Null \<in> set (map (g3 r) colunas_agrupamento)) = sem_grupo r"
    by (auto simp add: colunas_agrupamento_def g3_def g2_def g1_def sem_grupo_def)
  have gv3: "\<And>r'. g3 r' ''pmp_individual'' = pmp_spec fp r'"
    by (simp add: g3_def g2_def)
  have t3: "\<And>r. fillna0 (transform (agg_std fp) colunas_agrupamento ''pmp_individual'' (map g3 rs) (g3 r))
              = desvio_spec fp rs r"
    unfolding transform_map gk3 gn3 gv3 by (simp add: desvio_spec_def grupo_pmp_def grupo_def)
  have e5: "df5 = \<lparr>columns = c4, rows = map g5 rs\<rparr>"
    unfolding df5_def df4_def e3 set_column_mk by (simp add: c4_def g5_def t3)
  have z5: "\<And>r. round_cell fp 2 (zscore_of fp (g5 r)) = score_of fp rs r"
    by (simp add: zscore_of_def score_of_def g5_def g3_def g2_def g1_def desvio_spec_def
        medio_spec_def split: option.splits)
  have e7: "df7 = \<lparr>columns = c6, rows = map (zscore_row fp rs) rs\<rparr>"
    unfolding df7_def df6_def e5 set_column_mk
    by (simp add: c6_def z5 [unfolded g5_def g3_def g2_def g1_def] zscore_row_def
        g5_def g3_def g2_def g1_def)
  have cc: "c6 = zscore_columns cs"
    by (simp add: zscore_columns_def colunas_zscore_def c6_def c4_def c3_def c2_def c1_def)
  have n1: "is_numeric_col df1 ''qtd_itens_comprados''" "is_numeric_col df1 ''preco_total''"
    using nq np by (simp_all add: df1_def is_numeric_set_column)
  have "calcular_zscore_risco fp df = Inr df7"
    unfolding calcular_zscore_risco_def pf
    using cols dt n1
    by (simp add: Let_def df1_def[symmetric] df2_def[symmetric] df3_def[symmetric] df4_def[symmetric]
        df5_def[symmetric] df6_def[symmetric] df7_def[symmetric])
  then show ?thesis by (simp add: e7 cc rs_def cs_def)
qed

lemma score_of_spec:
  "fl_round fp 2 0 = 0 \<Longrightarrow> score_of fp rs r = zscore_spec fp rs r"
  by (simp add: score_of_def zscore_spec_def split: option.splits)

lemma zscore_spec_singleton:
  assumes "length (grupo rs r) = 1"
  shows "zscore_spec fp rs r = Num 0"
proof -
  have "length (grupo_pmp fp rs r) \<le> 1"
    using length_map_filter_le [of "\<lambda>r'. num (pmp_spec fp r')" "grupo rs r"] assms
    by (simp add: grupo_pmp_def)
  then have "agg_std fp (grupo_pmp fp rs r) = None"
    by (simp add: agg_std_def)
  then show ?thesis by (simp add: zscore_spec_def)
qed

lemma zscore_spec_equal:
  assumes c: "\<forall>x n. fl_group_std fp (replicate n x) = 0"
    and e: "\<forall>r'\<in>set (grupo rs r). pmp_spec fp r' = pmp_spec fp r"
  shows "zscore_spec fp rs r = Num 0"
proof -
  have "\<forall>x\<in>set (grupo_pmp fp rs r). x = the (num (pmp_spec fp r))"
    using e by (auto simp add: grupo_pmp_def set_map_filter)
  then have "grupo_pmp fp rs r =
               replicate (length (grupo_pmp fp rs r)) (the (num (pmp_spec fp r)))"
    by (intro replicate_eqI) simp_all
  then have "fl_group_std fp (grupo_pmp fp rs r) = 0"
    using c by metis
  then show ?thesis by (simp add: zscore_spec_def agg_std_def)
qed

text \<open>
  C1. On a table that has the four required columns (with a datetime purchase date and
  numeric price and quantity) the stage returns. Every row's \<open>pmp_individual\<close> is
  \<open>preco_total / qtd_itens_comprados\<close> if the quantity is positive and 0 if not, and
  every row's \<open>score_z_risco\<close> is \<open>(pmp_individual - group mean) / group std\<close> rounded to
  two decimals when the standard deviation of the row's (codigo_br, purchase year) group
  is strictly positive, and 0 otherwise; quotient, difference, mean, standard deviation
  and rounding are those of float64, of which the statement uses only that 0 rounds to 0.
  A row that is alone in its group gets 0. So does a row whose group has one common
  \<open>pmp_individual\<close>, for a standard deviation that is 0 on equal values, as is the one
  that pandas computes by Welford's update.
\<close>

theorem calcular_zscore_risco_score:
  assumes "all_in [''compra'', ''codigo_br'', ''preco_total'', ''qtd_itens_comprados''] df"
    and "is_datetime_col df ''compra''"
    and "is_numeric_col df ''qtd_itens_comprados''"
    and "is_numeric_col df ''preco_total''"
    and "fl_round fp 2 0 = 0"
  shows "\<exists>out. calcular_zscore_risco fp df = Inr out \<and>
           col out ''pmp_individual'' = map (pmp_spec fp) (rows df) \<and>
           col out ''score_z_risco'' = map (zscore_spec fp (rows df)) (rows df) \<and>
           (\<forall>r\<in>set (rows df).
              length (grupo (rows df) r) = 1 \<longrightarrow> zscore_spec fp (rows df) r = Num 0) \<and>
           ((\<forall>x n. fl_group_std fp (replicate n x) = 0) \<longrightarrow>
            (\<forall>r\<in>set (rows df).
               (\<forall>r'\<in>set (grupo (rows df) r). pmp_spec fp r' = pmp_spec fp r)
               \<longrightarrow> zscore_spec fp (rows df) r = Num 0))"
proof -
  define out where "out = \<lparr>columns = zscore_columns (columns df),
                            rows = map (zscore_row fp (rows df)) (rows df)\<rparr>"
  have o: "calcular_zscore_risco fp df = Inr out"
    unfolding out_def by (rule calcular_zscore_risco_rows [OF assms(1-4)])
  have p: "col out ''pmp_individual'' = map (pmp_spec fp) (rows df)"
    and z: "col out ''score_z_risco'' = map (zscore_spec fp (rows df)) (rows df)"
    by (simp_all add: out_def col_def zscore_row_def score_of_spec [OF assms(5)])
  show ?thesis
    using o p z zscore_spec_singleton [of "rows df" _ fp] zscore_spec_equal [of fp "rows df"]
    by blast
qed

lemma sqrt2_bounds: "141 / 100 < sqrt 2" "sqrt 2 < 1415 / 1000"
  by (rule real_less_rsqrt, simp add: power2_eq_square)
    (rule real_less_lsqrt, simp_all add: power2_eq_square)

lemma sqrt200: "sqrt 200 = 10 * sqrt 2"
proof -
  have "sqrt 200 = sqrt (100 * 2)" by simp
  also have "\<dots> = sqrt 100 * sqrt 2" by (rule real_sqrt_mult)
  also have "sqrt 100 = 10" using real_sqrt_abs [of 10] by simp
  finally show ?thesis .
qed

lemma ex_round_lo: "round_dec 2 ((10 - 20) / sqrt 200) = - 71 / 100"
proof -
  have s: "0 < sqrt 2" by simp
  have a: "100 / sqrt 2 < 715 / 10"
    using sqrt2_bounds(1) s by (simp add: field_simps)
  have b: "705 / 10 < 100 / sqrt 2"
    using sqrt2_bounds(2) s by (simp add: field_simps)
  have e: "1000 / sqrt 200 = 100 / sqrt 2"
    by (simp add: sqrt200)
  have "round_half_even (- (100 / sqrt 2)) = - 71"
    by (rule round_half_even_near) (use a b in simp_all)
  then show ?thesis by (simp add: round_dec_def e)
qed

lemma ex_round_hi: "round_dec 2 ((30 - 20) / sqrt 200) = 71 / 100"
proof -
  have s: "0 < sqrt 2" by simp
  have a: "100 / sqrt 2 < 715 / 10"
    using sqrt2_bounds(1) s by (simp add: field_simps)
  have b: "705 / 10 < 100 / sqrt 2"
    using sqrt2_bounds(2) s by (simp add: field_simps)
  have e: "1000 / sqrt 200 = 100 / sqrt 2"
    by (simp add: sqrt200)
  have "round_half_even (100 / sqrt 2) = 71"
    by (rule round_half_even_near) (use a b in simp_all)
  then show ?thesis by (simp add: round_dec_def e)
qed

lemma ex_pmp:
  "map (pmp_spec exato) (rows ex_zscore) = [Num 10, Num 30, Num 0, Num 5, Num 5]"
  by (simp add: ex_zscore_def pmp_spec_def mk_row_def exato_def)

lemma ex_grupo_pmp:
  "grupo_pmp exato (rows ex_zscore) (rows ex_zscore ! 0) = [10, 30]"
  "grupo_pmp exato (rows ex_zscore) (rows ex_zscore ! 1) = [10, 30]"
  "grupo_pmp exato (rows ex_zscore) (rows ex_zscore ! 2) = [0]"
  "grupo_pmp exato (rows ex_zscore) (rows ex_zscore ! 3) = [5, 5]"
  "grupo_pmp exato (rows ex_zscore) (rows ex_zscore ! 4) = [5, 5]"
  by (simp_all add: ex_zscore_def grupo_pmp_def grupo_def mk_row_def pmp_spec_def exato_def
      List.map_filter_simps)

lemma ex_std:
  "agg_std exato [10, 30] = Some (sqrt 200)" "agg_std exato [0] = None"
  "agg_std exato [5, 5] = Some 0"
  by (simp_all add: agg_std_def exato_def desvio_amostral_def power2_eq_square)

lemma ex_scores:
  "map (zscore_spec exato (rows ex_zscore)) (rows ex_zscore) =
     [Num (- 71 / 100), Num (71 / 100), Num 0, Num 0, Num 0]"
proof -
  have r: "\<And>f. map f (rows ex_zscore) =
             [f (rows ex_zscore ! 0), f (rows ex_zscore ! 1), f (rows ex_zscore ! 2),
              f (rows ex_zscore ! 3), f (rows ex_zscore ! 4)]"
    by (simp add: ex_zscore_def)
  have z0: "zscore_spec exato (rows ex_zscore) (rows ex_zscore ! 0) = Num (- 71 / 100)"
    unfolding zscore_spec_def ex_grupo_pmp ex_std
    using ex_round_lo
    by (simp add: ex_zscore_def mk_row_def pmp_spec_def agg_mean_def sem_grupo_def exato_def)
  have z1: "zscore_spec exato (rows ex_zscore) (rows ex_zscore ! 1) = Num (71 / 100)"
    unfolding zscore_spec_def ex_grupo_pmp ex_std
    using ex_round_hi
    by (simp add: ex_zscore_def mk_row_def pmp_spec_def agg_mean_def sem_grupo_def exato_def)
  have z2: "zscore_spec exato (rows ex_zscore) (rows ex_zscore ! 2) = Num 0"
    unfolding zscore_spec_def ex_grupo_pmp ex_std
    by (simp add: ex_zscore_def mk_row_def sem_grupo_def)
  have z3: "zscore_spec exato (rows ex_zscore) (rows ex_zscore ! 3) = Num 0"
    unfolding zscore_spec_def ex_grupo_pmp ex_std
    by (simp add: ex_zscore_def mk_row_def sem_grupo_def)
  have z4: "zscore_spec exato (rows ex_zscore) (rows ex_zscore ! 4) = Num 0"
    unfolding zscore_spec_def ex_grupo_pmp ex_std
    by (simp add: ex_zscore_def mk_row_def sem_grupo_def)
  show ?thesis
    by (simp only: r z0 z1 z2 z3 z4)
qed

theorem calcular_zscore_risco_score_witness:
  "all_in [''compra'', ''codigo_br'', ''preco_total'', ''qtd_itens_comprados''] ex_zscore \<and>
   is_datetime_col ex_zscore ''compra'' \<and>
   is_numeric_col ex_zscore ''qtd_itens_comprados'' \<and>
   is_numeric_col ex_zscore ''preco_total'' \<and>
   fl_round exato 2 0 = 0 \<and>
   rows ex_zscore ! 2 \<in> set (rows ex_zscore) \<and>
   length (grupo (rows ex_zscore) (rows ex_zscore ! 2)) = 1 \<and>
   (\<forall>x n. fl_group_std exato (replicate n x) = 0) \<and>
   rows ex_zscore ! 3 \<in> set (rows ex_zscore) \<and>
   map (pmp_spec exato) (grupo (rows ex_zscore) (rows ex_zscore ! 3)) = [Num 5, Num 5] \<and>
   pmp_spec exato (rows ex_zscore ! 3) = Num 5 \<and>
   zscore_spec exato (rows ex_zscore) (rows ex_zscore ! 2) = Num 0 \<and>
   zscore_spec exato (rows ex_zscore) (rows ex_zscore ! 3) = Num 0 \<and>
   (\<exists>out. calcular_zscore_risco exato ex_zscore = Inr out \<and>
      col out ''pmp_individual'' = [Num 10, Num 30, Num 0, Num 5, Num 5] \<and>
      col out ''score_z_risco'' = [Num (- 71 / 100), Num (71 / 100), Num 0, Num 0, Num 0])"
proof -
  have h: "all_in [''compra'', ''codigo_br'', ''preco_total'', ''qtd_itens_comprados''] ex_zscore"
    "is_datetime_col ex_zscore ''compra''"
    "is_numeric_col ex_zscore ''qtd_itens_comprados''"
    "is_numeric_col ex_zscore ''preco_total''" "fl_round exato 2 0 = 0"
    by (simp_all add: ex_zscore_def all_in_def is_datetime_col_def is_numeric_col_def mk_row_def
        exato_def)
  have m: "rows ex_zscore ! 2 \<in> set (rows ex_zscore)" "rows ex_zscore ! 3 \<in> set (rows ex_zscore)"
    by (simp_all add: ex_zscore_def)
  have g: "length (grupo (rows ex_zscore) (rows ex_zscore ! 2)) = 1"
    by (simp add: ex_zscore_def grupo_def mk_row_def)
  have c: "\<forall>x n. fl_group_std exato (replicate n x) = 0"
    by (auto simp add: exato_def intro!: desvio_amostral_const)
  have e3: "map (pmp_spec exato) (grupo (rows ex_zscore) (rows ex_zscore ! 3)) = [Num 5, Num 5]"
    "pmp_spec exato (rows ex_zscore ! 3) = Num 5"
    by (simp_all add: ex_zscore_def grupo_def mk_row_def pmp_spec_def exato_def)
  have "\<forall>y\<in>set (map (pmp_spec exato) (grupo (rows ex_zscore) (rows ex_zscore ! 3))).
          y = pmp_spec exato (rows ex_zscore ! 3)"
    unfolding e3 by simp
  then have e: "\<forall>r'\<in>set (grupo (rows ex_zscore) (rows ex_zscore ! 3)).
             pmp_spec exato r' = pmp_spec exato (rows ex_zscore ! 3)"
    by simp
  obtain out where o: "calcular_zscore_risco exato ex_zscore = Inr out"
    "col out ''pmp_individual'' = map (pmp_spec exato) (rows ex_zscore)"
    "col out ''score_z_risco'' = map (zscore_spec exato (rows ex_zscore)) (rows ex_zscore)"
    and s: "\<forall>r\<in>set (rows ex_zscore).
              length (grupo (rows ex_zscore) r) = 1
              \<longrightarrow> zscore_spec exato (rows ex_zscore) r = Num 0"
    and q: "(\<forall>x n. fl_group_std exato (replicate n x) = 0) \<longrightarrow>
            (\<forall>r\<in>set (rows ex_zscore).
               (\<forall>r'\<in>set (grupo (rows ex_zscore) r). pmp_spec exato r' = pmp_spec exato r)
               \<longrightarrow> zscore_spec exato (rows ex_zscore) r = Num 0)"
    using calcular_zscore_risco_score [OF h] by blast
  have z2: "zscore_spec exato (rows ex_zscore) (rows ex_zscore ! 2) = Num 0"
    using s m(1) g by blast
  have z3: "zscore_spec exato (rows ex_zscore) (rows ex_zscore ! 3) = Num 0"
    using q c m(2) e by blast
  show ?thesis
    using h m g c e3 z2 z3 o unfolding ex_pmp ex_scores by blast
qed

subsection \<open>Columns left behind by the z-score stage\<close>

lemma set_zscore_columns: "set (zscore_columns cs) = set cs \<union> set colunas_zscore"
  by (auto simp add: zscore_columns_def colunas_zscore_def)

lemma take_zscore_columns: "take (length cs) (zscore_columns cs) = cs"
  by (simp add: zscore_columns_def colunas_zscore_def)

lemma zscore_row_other: "c \<notin> set colunas_zscore \<Longrightarrow> zscore_row fp rs r c = r c"
  by (simp add: zscore_row_def colunas_zscore_def)

text \<open>
  C10, amended. On a table that has the four required columns the stage returns a table
  whose columns are the input's columns, in their order, followed by those of
  \<open>ano_compra\<close>, \<open>pmp_individual\<close>, \<open>pmp_medio\<close>, \<open>pmp_desvio_padrao\<close> and
  \<open>score_z_risco\<close> that the input did not have; none is removed, and every column with
  another label keeps its values. A column of the input that bears one of the five labels
  is overwritten.
\<close>

theorem calcular_zscore_risco_frame:
  assumes "all_in [''compra'', ''codigo_br'', ''preco_total'', ''qtd_itens_comprados''] df"
    and "is_datetime_col df ''compra''"
    and "is_numeric_col df ''qtd_itens_comprados''"
    and "is_numeric_col df ''preco_total''"
  shows "\<exists>out. calcular_zscore_risco fp df = Inr out \<and>
           set (columns out) = set (columns df) \<union> set colunas_zscore \<and>
           take (length (columns df)) (columns out) = columns df \<and>
           (\<forall>c. c \<notin> set colunas_zscore \<longrightarrow> col out c = col df c)"
  using calcular_zscore_risco_rows [OF assms]
  by (simp add: set_zscore_columns take_zscore_columns col_def zscore_row_other)

theorem calcular_zscore_risco_frame_witness:
  "all_in [''compra'', ''codigo_br'', ''preco_total'', ''qtd_itens_comprados''] ex_frame \<and>
   is_datetime_col ex_frame ''compra'' \<and>
   is_numeric_col ex_frame ''qtd_itens_comprados'' \<and>
   is_numeric_col ex_frame ''preco_total'' \<and>
   ''preco_total'' \<notin> set colunas_zscore \<and>
   (\<exists>out. calcular_zscore_risco exato ex_frame = Inr out \<and>
      set (columns out) = set (columns ex_frame) \<union> set colunas_zscore \<and>
      col out ''preco_total'' = [Num 10])"
proof -
  have h: "all_in [''compra'', ''codigo_br'', ''preco_total'', ''qtd_itens_comprados''] ex_frame"
    "is_datetime_col ex_frame ''compra''"
    "is_numeric_col ex_frame ''qtd_itens_comprados''"
    "is_numeric_col ex_frame ''preco_total''"
    by (simp_all add: ex_frame_def all_in_def is_datetime_col_def is_numeric_col_def mk_row_def)
  have n: "''preco_total'' \<notin> set colunas_zscore"
    by (simp add: colunas_zscore_def)
  have c: "col ex_frame ''preco_total'' = [Num 10]"
    by (simp add: col_def ex_frame_def mk_row_def)
  show ?thesis
    using h n c calcular_zscore_risco_frame [OF h, of exato] by auto
qed

text \<open>
  The claim as stated fails on the consolidated extract: its \<open>ano_compra\<close> column, which
  held the file's year 2023, holds the purchase date's year 2024 after the stage.
\<close>

theorem calcular_zscore_risco_frame_counterexample:
  "''ano_compra'' \<in> set (columns ex_frame) \<and>
   col ex_frame ''ano_compra'' = [Num 2023] \<and>
   result_col (calcular_zscore_risco exato ex_frame) ''ano_compra'' = Inr [Num 2024]"
proof -
  have h: "all_in [''compra'', ''codigo_br'', ''preco_total'', ''qtd_itens_comprados''] ex_frame"
    "is_datetime_col ex_frame ''compra''"
    "is_numeric_col ex_frame ''qtd_itens_comprados''"
    "is_numeric_col ex_frame ''preco_total''"
    by (simp_all add: ex_frame_def all_in_def is_datetime_col_def is_numeric_col_def mk_row_def)
  show ?thesis
    unfolding calcular_zscore_risco_rows [OF h]
    by (simp add: result_col_def col_def zscore_row_def ex_frame_def mk_row_def)
qed

subsection \<open>Missing columns\<close>

lemma calcular_zscore_risco_noop:
  "\<not> all_in [''compra'', ''codigo_br'', ''preco_total'', ''qtd_itens_comprados''] df \<Longrightarrow>
   calcular_zscore_risco fp df = Inr df"
  by (simp add: calcular_zscore_risco_def)

lemma calcular_indice_priorizacao_noop:
  "\<not> all_in [''id_produto'', ''preco_total'', ''score_z_risco''] df \<Longrightarrow>
   calcular_indice_priorizacao fp df = Inr df"
  by (simp add: calcular_indice_priorizacao_def)

lemma calcular_risco_intermitencia_noop:
  "''data_compra'' \<notin> set (columns df) \<Longrightarrow> calcular_risco_intermitencia to_datetime df = Inr df"
  by (simp add: calcular_risco_intermitencia_def)

lemma gerar_mini_fato_radar_enriquecida_vazio:
  "\<not> all_in required_cols df \<Longrightarrow> gerar_mini_fato_radar_enriquecida fp df = Inr empty_frame"
  by (simp add: gerar_mini_fato_radar_enriquecida_def)

text \<open>
  C4. The z-score, prioritization and radar stages check their columns, and the
  intermittency stage checks \<open>data_compra\<close>; the supplier-concentration stage checks
  nothing and the intermittency stage does not check \<open>id_produto\<close>. On a fact table
  without \<open>id_produto\<close> both raise KeyError instead of returning the table.
\<close>

theorem enrichment_missing_column_raises:
  "\<not> all_in [''id_produto''] ex_sem_produto \<and>
   calcular_concentracao_fornecedor ex_sem_produto = Inl KeyError \<and>
   calcular_risco_intermitencia id ex_sem_produto = Inl KeyError"
  by (simp add: ex_sem_produto_def all_in_def calcular_concentracao_fornecedor_def
      calcular_risco_intermitencia_def groupby_agg_def bind_err_def set_column_def
      is_datetime_col_def mk_row_def Let_def)

subsection \<open>The intermittency stage without a window\<close>

text \<open>
  C7. On a table whose purchase dates are all missing the window cannot be determined
  and the stage returns early; the table it returns has the column \<open>mes_compra\<close>, which
  the input did not have and which the regular path drops.
\<close>

theorem calcular_risco_intermitencia_sem_datas:
  "columns ex_sem_datas = [''id_produto'', ''data_compra''] \<and>
   result_columns (calcular_risco_intermitencia id ex_sem_datas) =
     Inr [''id_produto'', ''data_compra'', ''mes_compra'']"
  by (simp add: ex_sem_datas_def result_columns_def calcular_risco_intermitencia_def
      groupby_agg_def group_row_def all_in_def group_keys_def mk_row_def agg_nunique_def
      List.map_filter_simps bind_err_def rename_col_def Let_def is_datetime_col_def
      set_column_def min_skipna_def max_skipna_def)

subsection \<open>Deduplication, key format and joins\<close>

lemma set_drop_duplicates [simp]: "set (drop_duplicates xs) = set xs"
  by (induction xs rule: drop_duplicates.induct) auto

lemma distinct_drop_duplicates [simp]: "distinct (drop_duplicates xs)"
  by (induction xs rule: drop_duplicates.induct) auto

lemma drop_duplicates_filter:
  "drop_duplicates (filter P xs) = filter P (drop_duplicates xs)"
proof (induction xs rule: drop_duplicates.induct)
  case 1
  show ?case by simp
next
  case (2 x xs)
  have c: "filter (\<lambda>y. y \<noteq> x) (filter P xs) = filter P (filter (\<lambda>y. y \<noteq> x) xs)"
    by (simp add: conj_commute)
  show ?case
  proof (cases "P x")
    case True
    have "drop_duplicates (filter P (x # xs)) =
            x # drop_duplicates (filter (\<lambda>y. y \<noteq> x) (filter P xs))"
      using True by simp
    also have "\<dots> = x # filter P (drop_duplicates (filter (\<lambda>y. y \<noteq> x) xs))"
      unfolding c using 2 by simp
    also have "\<dots> = filter P (drop_duplicates (x # xs))"
      using True by simp
    finally show ?thesis .
  next
    case False
    have "filter P (filter (\<lambda>y. y \<noteq> x) xs) = filter P xs"
      using False by (auto intro: filter_cong)
    then have "filter P (drop_duplicates (filter (\<lambda>y. y \<noteq> x) xs)) = drop_duplicates (filter P xs)"
      using 2 by simp
    then show ?thesis using False by simp
  qed
qed

lemma drop_duplicates_distinct: "distinct xs \<Longrightarrow> drop_duplicates xs = xs"
proof (induction xs)
  case Nil
  show ?case by simp
next
  case (Cons x xs)
  then have "filter (\<lambda>y. y \<noteq> x) xs = xs"
    by (auto intro: filter_True)
  then show ?case using Cons by simp
qed

lemma drop_duplicates_append:
  "drop_duplicates (xs @ ys) = drop_duplicates xs @ filter (\<lambda>y. y \<notin> set xs) (drop_duplicates ys)"
proof (induction xs arbitrary: ys rule: drop_duplicates.induct)
  case 1
  show ?case by simp
next
  case (2 x xs)
  have "drop_duplicates ((x # xs) @ ys) =
          x # drop_duplicates (filter (\<lambda>y. y \<noteq> x) xs @ filter (\<lambda>y. y \<noteq> x) ys)"
    by simp
  also have "\<dots> = x # drop_duplicates (filter (\<lambda>y. y \<noteq> x) xs) @
                   filter (\<lambda>y. y \<notin> set (filter (\<lambda>y. y \<noteq> x) xs))
                     (drop_duplicates (filter (\<lambda>y. y \<noteq> x) ys))"
    using 2 by simp
  also have "filter (\<lambda>y. y \<notin> set (filter (\<lambda>y. y \<noteq> x) xs))
               (drop_duplicates (filter (\<lambda>y. y \<noteq> x) ys)) =
             filter (\<lambda>y. y \<notin> set (x # xs)) (drop_duplicates ys)"
    by (auto simp add: drop_duplicates_filter intro: filter_cong)
  finally show ?case by simp
qed

lemma drop_duplicates_snoc:
  "drop_duplicates (xs @ [x]) =
     (if x \<in> set xs then drop_duplicates xs else drop_duplicates xs @ [x])"
  by (simp add: drop_duplicates_append)

lemma lt10_cases:
  "(d::nat) < 10 \<Longrightarrow>
   d = 0 \<or> d = 1 \<or> d = 2 \<or> d = 3 \<or> d = 4 \<or> d = 5 \<or> d = 6 \<or> d = 7 \<or> d = 8 \<or> d = 9"
  by arith

lemma digit_nth: "d < 10 \<Longrightarrow> digit_val (''0123456789'' ! d) = d"
  by (drule lt10_cases) (elim disjE, simp_all add: digit_val_def)

lemma nat_of_dec_snoc: "nat_of_dec (s @ [c]) = 10 * nat_of_dec s + digit_val c"
  by (simp add: nat_of_dec_def)

lemma nat_of_dec_str_nat: "nat_of_dec (str_nat n) = n"
proof (induction n rule: str_nat.induct)
  case (1 n)
  show ?case
  proof (cases "n < 10")
    case True
    then show ?thesis
      using digit_nth [of n] by (subst str_nat.simps) (simp add: nat_of_dec_def)
  next
    case False
    then show ?thesis
      using 1 digit_nth [of "n mod 10"]
      by (subst str_nat.simps) (simp add: nat_of_dec_snoc)
  qed
qed

lemma nat_of_dec_zeros: "nat_of_dec (replicate k (CHR ''0'') @ s) = nat_of_dec s"
proof -
  have z: "digit_val (CHR ''0'') = 0"
    by (simp add: digit_val_def)
  have "foldl (\<lambda>a c. 10 * a + digit_val c) 0 (replicate k (CHR ''0'')) = 0"
    by (induction k) (simp_all add: z)
  then show ?thesis by (simp add: nat_of_dec_def)
qed

lemma nat_of_dec_format_05d: "nat_of_dec (format_05d n) = n"
  by (simp add: format_05d_def nat_of_dec_zeros nat_of_dec_str_nat)

lemma format_05d_inj: "format_05d m = format_05d n \<Longrightarrow> m = n"
  using nat_of_dec_format_05d by metis

lemma length_str_nat: "0 < k \<Longrightarrow> length (str_nat n) \<le> k \<longleftrightarrow> n < 10 ^ k"
proof (induction n arbitrary: k rule: str_nat.induct)
  case (1 n)
  show ?case
  proof (cases "n < 10")
    case True
    have "(10::nat) ^ 1 \<le> 10 ^ k" using 1(2) by (intro power_increasing) simp_all
    then have "n < 10 ^ k" using True by simp
    then show ?thesis using True 1(2) by (subst str_nat.simps) simp
  next
    case False
    show ?thesis
    proof (cases "k = 1")
      case True
      have "str_nat (n div 10) \<noteq> []"
        by (subst str_nat.simps) simp
      then show ?thesis using False True
        by (subst str_nat.simps) simp
    next
      case k: False
      then obtain j where j: "k = Suc j" "0 < j" using 1(2) by (cases k) auto
      have "length (str_nat (n div 10)) \<le> j \<longleftrightarrow> n div 10 < 10 ^ j"
        using 1(1) [OF False j(2)] .
      moreover have "n div 10 < 10 ^ j \<longleftrightarrow> n < 10 ^ k"
        using div_less_iff_less_mult [of 10 n "10 ^ j"] j by (simp add: mult.commute)
      ultimately show ?thesis using False j
        by (subst str_nat.simps) simp
    qed
  qed
qed

lemma length_str_nat_pos: "0 < length (str_nat n)"
  by (subst str_nat.simps) simp

lemma length_format_05d: "length (format_05d n) = max 5 (length (str_nat n))"
  by (simp add: format_05d_def)

lemma length_format_05d_five: "length (format_05d n) = 5 \<longleftrightarrow> n < 100000"
  using length_str_nat [of 5 n] by (auto simp add: length_format_05d max_def)

lemma digits_str_nat: "\<forall>c\<in>set (str_nat n). is_digit c"
proof (induction n rule: str_nat.induct)
  case (1 n)
  have d: "\<And>d. d < 10 \<Longrightarrow> is_digit (''0123456789'' ! d)"
    by (drule lt10_cases) (elim disjE, simp_all add: is_digit_def)
  show ?case
  proof (cases "n < 10")
    case True
    then show ?thesis using d [of n] by (subst str_nat.simps) simp
  next
    case False
    then show ?thesis using 1 d [of "n mod 10"] by (subst str_nat.simps) auto
  qed
qed

lemma is_digit_zero: "is_digit (CHR ''0'')"
  by (simp add: is_digit_def)

lemma digits_format_05d: "\<forall>c\<in>set (format_05d n). is_digit c"
  using digits_str_nat [of n] is_digit_zero by (auto simp add: format_05d_def)

lemma filter_unique_key:
  "distinct (map f xs) \<Longrightarrow>
   filter (\<lambda>x. f x = k) xs = (case find (\<lambda>x. f x = k) xs of None \<Rightarrow> [] | Some m \<Rightarrow> [m])"
proof (induction xs)
  case Nil
  show ?case by simp
next
  case (Cons x xs)
  show ?case
  proof (cases "f x = k")
    case True
    then have "k \<notin> f ` set xs" using Cons.prems by auto
    then have "filter (\<lambda>x. f x = k) xs = []" by (auto simp add: filter_empty_conv)
    then show ?thesis using True by simp
  next
    case False
    then show ?thesis using Cons by simp
  qed
qed

lemma foldl_upd_same: "foldl (\<lambda>acc c. acc(c := r c)) r cs = r"
  by (induction cs) (simp_all only: foldl.simps fun_upd_triv)

lemma merge_row_no_overlap:
  "merge_row lcols rcols [] r r' = foldl (\<lambda>acc c. acc(c := r' c)) r rcols"
  by (simp add: merge_row_def foldl_upd_same)

lemma merge_left_unique:
  assumes on: "all_in on left" "all_in on right"
    and dl: "distinct (columns left)"
    and dr: "distinct (filter (\<lambda>c. c \<notin> set on) (columns right))"
    and disj: "\<forall>c\<in>set (columns right). c \<in> set on \<or> c \<notin> set (columns left)"
    and uniq: "distinct (map (\<lambda>r. map r on) (rows right))"
  shows "merge_left left right on =
           Inr \<lparr>columns = columns left @ filter (\<lambda>c. c \<notin> set on) (columns right),
                rows = map (\<lambda>r. foldl (\<lambda>acc c. acc(c := lookup_row on (rows right) r c)) r
                                   (filter (\<lambda>c. c \<notin> set on) (columns right)))
                         (rows left)\<rparr>"
proof -
  define rcols where "rcols = filter (\<lambda>c. c \<notin> set on) (columns right)"
  have ov: "filter (\<lambda>c. c \<in> set (columns left)) rcols = []"
    using disj by (auto simp add: rcols_def filter_empty_conv)
  have dc: "distinct (columns left @ rcols)"
    using dl dr disj by (auto simp add: rcols_def)
  have row: "\<And>r. (case filter (\<lambda>r'. map r' on = map r on) (rows right) of
                [] \<Rightarrow> [merge_row (columns left) rcols [] r (\<lambda>c. Null)]
              | m # ms \<Rightarrow> map (merge_row (columns left) rcols [] r) (m # ms)) =
             [foldl (\<lambda>acc c. acc(c := lookup_row on (rows right) r c)) r rcols]"
    using filter_unique_key [OF uniq]
    by (simp add: lookup_row_def merge_row_no_overlap del: map_eq_conv split: option.splits)
  have cc: "\<And>g xs. concat (map (\<lambda>r. [g r]) xs) = map g xs"
    by (induct_tac xs) simp_all
  show ?thesis
    unfolding merge_left_def Let_def rcols_def [symmetric] ov
    using on dc by (simp add: row cc del: map_eq_conv)
qed

lemma mk_row_Cons: "mk_row ((c, v) # kvs) c' = (if c' = c then v else mk_row kvs c')"
  by (simp add: mk_row_def)

lemma mk_row_zip_map: "c \<in> set cs \<Longrightarrow> mk_row (zip cs (map r cs)) c = r c"
proof -
  assume "c \<in> set cs"
  have "zip cs (map r cs) = map (\<lambda>c. (c, r c)) cs"
    by (induction cs) simp_all
  then have "map_of (zip cs (map r cs)) c = Some (r c)"
    using \<open>c \<in> set cs\<close> by (simp add: map_of_map_restrict)
  then show ?thesis by (simp add: mk_row_def)
qed

lemma map_mk_row_zip: "map (mk_row (zip cs (map r cs))) cs = map r cs"
  by (simp add: mk_row_zip_map)

lemma dim_row_attrs:
  assumes "chave_primaria \<notin> set cs" and "k \<in> set (map (\<lambda>r. map r cs) rs)"
  shows "map (dim_row cs chave_primaria prefixo (i, k)) cs = k"
proof -
  obtain r where k: "k = map r cs" using assms(2) by auto
  have "\<And>c. c \<in> set cs \<Longrightarrow> dim_row cs chave_primaria prefixo (i, k) c = r c"
    using assms(1) by (auto simp add: dim_row_def mk_row_Cons k mk_row_zip_map)
  then show ?thesis by (simp add: k)
qed

lemma dim_row_chave: "dim_row cs chave_primaria prefixo (i, k) chave_primaria = chave_sk prefixo (Suc i)"
  by (simp add: dim_row_def mk_row_Cons chave_sk_def)

lemma map_enumerate_fst: "map snd (enumerate n xs) = xs"
  by (simp add: enumerate_eq_zip)

lemma chave_sk_inj: "chave_sk p i = chave_sk p j \<Longrightarrow> i = j"
  by (auto simp add: chave_sk_def dest: format_05d_inj)

lemma distinct_chaves: "distinct (map (chave_sk p) [1..<Suc n])"
  by (auto simp add: distinct_map inj_on_def dest: chave_sk_inj)

lemma criar_dimensao_ok:
  assumes cols: "all_in colunas_atributos df_base"
    and ne: "rows df_base \<noteq> []"
    and dc: "distinct (columns df_base)"
    and nk: "chave_primaria \<notin> set (columns df_base)"
  shows "criar_dimensao df_base colunas_atributos chave_primaria prefixo =
     Inr (\<lparr>columns = chave_primaria # colunas_atributos,
           rows = map (dim_row colunas_atributos chave_primaria prefixo)
                    (enumerate 0 (drop_duplicates (map (\<lambda>r. map r colunas_atributos) (rows df_base))))\<rparr>,
          \<lparr>columns = filter (\<lambda>c. c \<notin> set colunas_atributos) (columns df_base) @ [chave_primaria],
           rows = map (\<lambda>r. r(chave_primaria :=
                     lookup_row colunas_atributos
                       (map (dim_row colunas_atributos chave_primaria prefixo)
                          (enumerate 0 (drop_duplicates (map (\<lambda>r. map r colunas_atributos) (rows df_base)))))
                       r chave_primaria)) (rows df_base)\<rparr>)"
proof -
  define combos where "combos = drop_duplicates (map (\<lambda>r. map r colunas_atributos) (rows df_base))"
  define dim where "dim = \<lparr>columns = chave_primaria # colunas_atributos,
           rows = map (dim_row colunas_atributos chave_primaria prefixo) (enumerate 0 combos)\<rparr>"
  have nka: "chave_primaria \<notin> set colunas_atributos"
    using cols nk by (auto simp add: all_in_def list_all_iff)
  have ne': "combos \<noteq> []"
    using ne set_drop_duplicates [of "map (\<lambda>r. map r colunas_atributos) (rows df_base)"]
    unfolding combos_def by (metis list.map_disc_iff set_empty)
  have ne3: "enumerate 0 combos \<noteq> []"
    using ne' by (cases combos) simp_all
  have keys: "map (\<lambda>r. map r colunas_atributos) (rows dim) = combos"
  proof -
    have "\<And>p. p \<in> set (enumerate 0 combos) \<Longrightarrow>
            map (dim_row colunas_atributos chave_primaria prefixo p) colunas_atributos = snd p"
    proof -
      fix p assume p: "p \<in> set (enumerate 0 combos)"
      obtain i k where ik: "p = (i, k)" by (cases p)
      have "k \<in> set combos" using p ik by (auto simp add: enumerate_eq_zip dest: set_zip_rightD)
      then have "k \<in> set (map (\<lambda>r. map r colunas_atributos) (rows df_base))"
        by (simp add: combos_def)
      then show "map (dim_row colunas_atributos chave_primaria prefixo p) colunas_atributos = snd p"
        using dim_row_attrs [OF nka] ik by simp
    qed
    then have "map (\<lambda>r. map r colunas_atributos) (rows dim) = map snd (enumerate 0 combos)"
      by (simp add: dim_def del: map_eq_conv cong: map_cong)
    then show ?thesis by (simp add: map_enumerate_fst)
  qed
  have uniq: "distinct (map (\<lambda>r. map r colunas_atributos) (rows dim))"
    unfolding keys by (simp add: combos_def)
  have rc: "filter (\<lambda>c. c \<notin> set colunas_atributos) (columns dim) = [chave_primaria]"
    using nka by (simp add: dim_def)
  have m: "merge_left df_base dim colunas_atributos =
       Inr \<lparr>columns = columns df_base @ [chave_primaria],
            rows = map (\<lambda>r. r(chave_primaria := lookup_row colunas_atributos (rows dim) r chave_primaria))
                     (rows df_base)\<rparr>"
    using merge_left_unique [of colunas_atributos df_base dim] cols dc nk uniq
    by (simp add: rc) (simp add: dim_def all_in_def list_all_iff)
  show ?thesis
    unfolding criar_dimensao_def Let_def combos_def [symmetric] dim_row_def [symmetric]
      dim_def [symmetric]
    using cols ne3 m nk nka
    by (simp add: bind_err_def drop_cols_def) (simp add: dim_def)
qed

lemma lookup_dim:
  assumes i: "i < length combos" and d: "distinct combos"
    and a: "\<forall>p\<in>set (enumerate 0 combos). map (D p) cs = snd p"
    and e: "combos ! i = map r cs"
  shows "lookup_row cs (map D (enumerate 0 combos)) r = D (i, combos ! i)"
proof -
  have mem: "(i, combos ! i) \<in> set (enumerate 0 combos)"
    using i by (simp add: in_set_enumerate_eq)
  then have "map (D (i, combos ! i)) cs = map r cs"
    using a e by fastforce
  then have "\<exists>x\<in>set (map D (enumerate 0 combos)). map x cs = map r cs"
    using mem by (intro bexI [of _ "D (i, combos ! i)"]) (simp_all del: map_eq_conv)
  then obtain r' where f: "find (\<lambda>r'. map r' cs = map r cs) (map D (enumerate 0 combos)) = Some r'"
    by (cases "find (\<lambda>r'. map r' cs = map r cs) (map D (enumerate 0 combos))")
      (auto simp add: find_None_iff simp del: map_eq_conv)
  then have "r' \<in> set (map D (enumerate 0 combos))" and m: "map r' cs = map r cs"
    by (auto simp add: find_Some_iff simp del: map_eq_conv)
  then obtain p where p: "p \<in> set (enumerate 0 combos)" "r' = D p" by auto
  then have "snd p = combos ! i" using a m e by (auto simp del: map_eq_conv)
  moreover have "fst p < length combos" "snd p = combos ! fst p"
    using p(1) by (auto simp add: in_set_enumerate_eq)
  ultimately have "fst p = i"
    using d i by (simp add: nth_eq_iff_index_eq)
  then have "p = (i, combos ! i)" using \<open>snd p = combos ! i\<close> by (cases p) simp
  then show ?thesis using f p(2) by (simp add: lookup_row_def)
qed

lemma col_dim:
  "col \<lparr>columns = cs, rows = map (dim_row attrs chave prefixo) (enumerate 0 combos)\<rparr> chave =
     map (chave_sk prefixo) [1..<Suc (length combos)]"
proof -
  have f: "map fst (enumerate 0 combos) = [0..<length combos]"
    by (simp add: enumerate_eq_zip)
  have "map (\<lambda>p. dim_row attrs chave prefixo p chave) (enumerate 0 combos) =
        map (\<lambda>p. chave_sk prefixo (Suc (fst p))) (enumerate 0 combos)"
    by (rule map_cong) (auto simp add: dim_row_chave)
  also have "\<dots> = map (\<lambda>i. chave_sk prefixo (Suc i)) (map fst (enumerate 0 combos))"
    by (simp only: map_map comp_def)
  also have "\<dots> = map (chave_sk prefixo) (map Suc [0..<length combos])"
    by (simp only: f map_map comp_def)
  also have "map Suc [0..<length combos] = [1..<Suc (length combos)]"
    by (simp only: map_Suc_upt One_nat_def)
  finally show ?thesis by (simp add: col_def comp_def del: upt_Suc)
qed

text \<open>
  The keys of a dimension of any size. On a non-empty fact table that has the attribute
  columns (and distinct labels, none of them the key's), \<open>criar_dimensao\<close> returns the
  dimension and the integrated fact table. The dimension's attribute combinations are the
  distinct combinations of the fact table in order of first occurrence; its keys are the
  prefix followed by \<open>format_05d\<close> of 1, 2, ..., n, hence sequential, gapless and
  unique; the formatted index consists of digits, and of five digits precisely for an
  index below 100000; and every fact row receives the key of its combination.
\<close>

theorem criar_dimensao_sequencial:
  assumes cols: "all_in colunas_atributos df_base"
    and ne: "rows df_base \<noteq> []"
    and dc: "distinct (columns df_base)"
    and nk: "chave_primaria \<notin> set (columns df_base)"
  shows "\<exists>dimensao fato.
           criar_dimensao df_base colunas_atributos chave_primaria prefixo = Inr (dimensao, fato) \<and>
           map (\<lambda>r. map r colunas_atributos) (rows dimensao) =
             drop_duplicates (map (\<lambda>r. map r colunas_atributos) (rows df_base)) \<and>
           col dimensao chave_primaria =
             map (\<lambda>i. Str (prefixo @ format_05d i)) [1..<Suc (length (rows dimensao))] \<and>
           distinct (col dimensao chave_primaria) \<and>
           (\<forall>i. 5 \<le> length (format_05d i) \<and> (\<forall>c\<in>set (format_05d i). is_digit c) \<and>
                (length (format_05d i) = 5 \<longleftrightarrow> i < 100000)) \<and>
           length (rows fato) = length (rows df_base) \<and>
           (\<forall>j<length (rows df_base). \<forall>i<length (rows dimensao).
              map (rows dimensao ! i) colunas_atributos = map (rows df_base ! j) colunas_atributos
              \<longrightarrow> col fato chave_primaria ! j = Str (prefixo @ format_05d (Suc i)))"
proof -
  define combos where "combos = drop_duplicates (map (\<lambda>r. map r colunas_atributos) (rows df_base))"
  define D where "D = dim_row colunas_atributos chave_primaria prefixo"
  define dimensao where "dimensao = \<lparr>columns = chave_primaria # colunas_atributos,
           rows = map D (enumerate 0 combos)\<rparr>"
  define fato where "fato = \<lparr>columns = filter (\<lambda>c. c \<notin> set colunas_atributos) (columns df_base) @ [chave_primaria],
           rows = map (\<lambda>r. r(chave_primaria :=
                     lookup_row colunas_atributos (map D (enumerate 0 combos)) r chave_primaria))
                   (rows df_base)\<rparr>"
  have nka: "chave_primaria \<notin> set colunas_atributos"
    using cols nk by (auto simp add: all_in_def list_all_iff)
  have r: "criar_dimensao df_base colunas_atributos chave_primaria prefixo = Inr (dimensao, fato)"
    using criar_dimensao_ok [OF cols ne dc nk] by (simp add: dimensao_def fato_def combos_def D_def)
  have a: "\<forall>p\<in>set (enumerate 0 combos). map (D p) colunas_atributos = snd p"
  proof
    fix p assume p: "p \<in> set (enumerate 0 combos)"
    obtain i k where ik: "p = (i, k)" by (cases p)
    have "k \<in> set combos" using p ik by (auto simp add: enumerate_eq_zip dest: set_zip_rightD)
    then have "k \<in> set (map (\<lambda>r. map r colunas_atributos) (rows df_base))"
      by (simp add: combos_def)
    then show "map (D p) colunas_atributos = snd p"
      using dim_row_attrs [OF nka] ik by (simp add: D_def)
  qed
  then have "map (\<lambda>r. map r colunas_atributos) (rows dimensao) = map snd (enumerate 0 combos)"
    by (simp add: dimensao_def del: map_eq_conv cong: map_cong)
  then have keys: "map (\<lambda>r. map r colunas_atributos) (rows dimensao) = combos"
    by (simp add: map_enumerate_fst)
  have len: "length (rows dimensao) = length combos"
    by (simp add: dimensao_def)
  have "col dimensao chave_primaria = map (chave_sk prefixo) [1..<Suc (length combos)]"
    unfolding dimensao_def D_def by (rule col_dim)
  then have ch: "col dimensao chave_primaria = map (chave_sk prefixo) [1..<Suc (length (rows dimensao))]"
    by (simp only: len)
  have ch': "col dimensao chave_primaria =
        map (\<lambda>i. Str (prefixo @ format_05d i)) [1..<Suc (length (rows dimensao))]"
    using ch by (simp add: chave_sk_def [abs_def])
  have di: "distinct (col dimensao chave_primaria)"
    unfolding ch by (rule distinct_chaves)
  have fm: "\<forall>i. 5 \<le> length (format_05d i) \<and> (\<forall>c\<in>set (format_05d i). is_digit c) \<and>
                (length (format_05d i) = 5 \<longleftrightarrow> i < 100000)"
    using digits_format_05d length_format_05d_five by (simp add: length_format_05d)
  have dcomb: "distinct combos" by (simp add: combos_def)
  have ft: "\<forall>j<length (rows df_base). \<forall>i<length (rows dimensao).
              map (rows dimensao ! i) colunas_atributos = map (rows df_base ! j) colunas_atributos
              \<longrightarrow> col fato chave_primaria ! j = Str (prefixo @ format_05d (Suc i))"
  proof (intro allI impI)
    fix j i
    assume j: "j < length (rows df_base)" and i: "i < length (rows dimensao)"
      and e: "map (rows dimensao ! i) colunas_atributos = map (rows df_base ! j) colunas_atributos"
    have "map (\<lambda>r. map r colunas_atributos) (rows dimensao) ! i = combos ! i"
      using keys by simp
    then have "combos ! i = map (rows df_base ! j) colunas_atributos"
      using e i by simp
    then have "lookup_row colunas_atributos (map D (enumerate 0 combos)) (rows df_base ! j)
                 = D (i, combos ! i)"
      using lookup_dim [OF _ dcomb a] i len by simp
    then show "col fato chave_primaria ! j = Str (prefixo @ format_05d (Suc i))"
      using j by (simp add: fato_def col_def D_def dim_row_chave chave_sk_def)
  qed
  have lf: "length (rows fato) = length (rows df_base)"
    by (simp add: fato_def)
  show ?thesis
    using r keys ch' di fm lf ft unfolding combos_def by blast
qed

lemma replicate_small:
  "replicate 1 x = [x]" "replicate 2 x = [x, x]" "replicate 3 x = [x, x, x]"
  "replicate 4 x = [x, x, x, x]"
  by (simp_all add: numeral_eq_Suc)

lemma ex_inst_combos:
  "drop_duplicates (map (\<lambda>r. map r col_inst) (rows ex_inst)) =
     [[Str ''11'', Str ''A'', Str ''Recife'', Str ''PE''],
      [Str ''22'', Str ''B'', Str ''Natal'', Str ''RN'']]"
  by (simp add: ex_inst_def col_inst_def mk_row_def)

theorem criar_dimensao_sequencial_witness:
  "all_in col_inst ex_inst \<and> rows ex_inst \<noteq> [] \<and> distinct (columns ex_inst) \<and>
   ''id_instituicao'' \<notin> set (columns ex_inst) \<and>
   (\<exists>dimensao fato.
      criar_dimensao ex_inst col_inst ''id_instituicao'' ''Ins'' = Inr (dimensao, fato) \<and>
      col dimensao ''id_instituicao'' = [Str ''Ins00001'', Str ''Ins00002''] \<and>
      col fato ''id_instituicao'' ! 0 = Str ''Ins00001'' \<and>
      col fato ''id_instituicao'' ! 1 = Str ''Ins00002'' \<and>
      col fato ''id_instituicao'' ! 2 = Str ''Ins00001'')"
proof -
  have h: "all_in col_inst ex_inst" "rows ex_inst \<noteq> []" "distinct (columns ex_inst)"
    "''id_instituicao'' \<notin> set (columns ex_inst)"
    by (simp_all add: ex_inst_def col_inst_def all_in_def)
  obtain dimensao fato where
    r: "criar_dimensao ex_inst col_inst ''id_instituicao'' ''Ins'' = Inr (dimensao, fato)"
    and k: "map (\<lambda>r. map r col_inst) (rows dimensao) =
             drop_duplicates (map (\<lambda>r. map r col_inst) (rows ex_inst))"
    and c: "col dimensao ''id_instituicao'' =
             map (\<lambda>i. Str (''Ins'' @ format_05d i)) [1..<Suc (length (rows dimensao))]"
    and f: "\<forall>j<length (rows ex_inst). \<forall>i<length (rows dimensao).
              map (rows dimensao ! i) col_inst = map (rows ex_inst ! j) col_inst
              \<longrightarrow> col fato ''id_instituicao'' ! j = Str (''Ins'' @ format_05d (Suc i))"
    using criar_dimensao_sequencial [OF h, of "''Ins''"] by blast
  have "length (map (\<lambda>r. map r col_inst) (rows dimensao)) = 2"
    unfolding k ex_inst_combos by simp
  then have len: "length (rows dimensao) = 2" by simp
  have f1: "format_05d 1 = ''00001''" and f2: "format_05d 2 = ''00002''"
    by (simp_all add: format_05d_def str_nat.simps replicate_small)
  have f2': "format_05d (Suc (Suc 0)) = ''00002''"
    using f2 by (simp add: numeral_2_eq_2)
  have cd: "col dimensao ''id_instituicao'' = [Str ''Ins00001'', Str ''Ins00002'']"
    unfolding c len using f1 f2' by (simp add: upt_rec)
  have d0: "map (rows dimensao ! 0) col_inst = [Str ''11'', Str ''A'', Str ''Recife'', Str ''PE'']"
    and d1: "map (rows dimensao ! 1) col_inst = [Str ''22'', Str ''B'', Str ''Natal'', Str ''RN'']"
    using nth_map [of 0 "rows dimensao" "\<lambda>r. map r col_inst"]
      nth_map [of 1 "rows dimensao" "\<lambda>r. map r col_inst"] len
    unfolding k ex_inst_combos by simp_all
  have e0: "map (rows ex_inst ! 0) col_inst = [Str ''11'', Str ''A'', Str ''Recife'', Str ''PE'']"
    and e1: "map (rows ex_inst ! 1) col_inst = [Str ''22'', Str ''B'', Str ''Natal'', Str ''RN'']"
    and e2: "map (rows ex_inst ! 2) col_inst = [Str ''11'', Str ''A'', Str ''Recife'', Str ''PE'']"
    by (simp_all add: ex_inst_def col_inst_def mk_row_def)
  have le: "length (rows ex_inst) = 3" by (simp add: ex_inst_def)
  have q0: "map (rows dimensao ! 0) col_inst = map (rows ex_inst ! 0) col_inst"
    and q1: "map (rows dimensao ! 1) col_inst = map (rows ex_inst ! 1) col_inst"
    and q2: "map (rows dimensao ! 0) col_inst = map (rows ex_inst ! 2) col_inst"
    by (simp_all only: d0 d1 e0 e1 e2)
  have i0: "0 < length (rows dimensao)" and i1: "1 < length (rows dimensao)"
    and j0: "0 < length (rows ex_inst)" and j1: "1 < length (rows ex_inst)"
    and j2: "2 < length (rows ex_inst)"
    using le len by simp_all
  have "col fato ''id_instituicao'' ! 0 = Str (''Ins'' @ format_05d (Suc 0))"
    by (rule f [rule_format, OF j0 i0 q0])
  moreover have "col fato ''id_instituicao'' ! 1 = Str (''Ins'' @ format_05d (Suc 1))"
    by (rule f [rule_format, OF j1 i1 q1])
  moreover have "col fato ''id_instituicao'' ! 2 = Str (''Ins'' @ format_05d (Suc 0))"
    by (rule f [rule_format, OF j2 i0 q2])
  ultimately show ?thesis
    using h r cd f1 f2' by simp
qed

lemma ex_grande_combos:
  "drop_duplicates (map (\<lambda>r. map r [''codigo_br'']) (rows ex_grande)) =
     map (\<lambda>i. [Num (real i)]) [0..<100000]"
proof -
  have "map (\<lambda>r. map r [''codigo_br'']) (rows ex_grande) = map (\<lambda>i. [Num (real i)]) [0..<100000]"
    by (simp add: ex_grande_def mk_row_def comp_def)
  moreover have "distinct (map (\<lambda>i. [Num (real i)]) [0..<100000])"
    by (simp add: distinct_map inj_on_def)
  ultimately show ?thesis by (simp only: drop_duplicates_distinct)
qed

text \<open>
  C2. The keys are to be the prefix followed by the index padded to exactly five digits,
  and the comment on the format in the source says that the pattern \<^verbatim>\<open>{:05d}\<close>
  guarantees 5 digits. The pattern sets a minimum width only: on a catalogue of 100000
  distinct products the stage returns, and the key of the last product is the prefix
  followed by the six digits 100000.
\<close>

theorem criar_dimensao_chave_100000:
  "ultima_chave (criar_dimensao ex_grande [''codigo_br''] ''id_produto'' ''Pro'') ''id_produto'' =
     Inr (Str ''Pro100000'')"
proof -
  have h: "all_in [''codigo_br''] ex_grande" "rows ex_grande \<noteq> []" "distinct (columns ex_grande)"
    "''id_produto'' \<notin> set (columns ex_grande)"
    by (simp_all add: ex_grande_def all_in_def)
  have f: "format_05d 100000 = ''100000''"
    by (simp add: format_05d_def str_nat.simps)
  have l: "last (map (chave_sk ''Pro'') [Suc 0..<100001]) = chave_sk ''Pro'' 100000"
    by (simp add: last_map last_upt del: upt_Suc)
  show ?thesis
    unfolding criar_dimensao_ok [OF h] ex_grande_combos ultima_chave_def
    by (simp add: col_dim l chave_sk_def f del: upt_Suc)
qed

subsection \<open>gerar_id_pedido\<close>

lemma insort_key_map:
  "(\<forall>x. K (g x) = K x) \<Longrightarrow> insort_key K (g x) (map g ys) = map g (insort_key K x ys)"
  by (induction ys) simp_all

lemma sort_key_map:
  "(\<forall>x. K (g x) = K x) \<Longrightarrow> sort_key K (map g xs) = map g (sort_key K xs)"
  by (induction xs) (simp_all add: insort_key_map)

lemma ordenavel_col: "ordenavel d c = (\<forall>x\<in>set (col d c). \<forall>y\<in>set (col d c). comparaveis x y)"
  by (auto simp add: ordenavel_def col_def list_all_iff)

lemma is_datetime_col_col: "is_datetime_col d c = (\<forall>x\<in>set (col d c). is_ts_cell x)"
  by (auto simp add: is_datetime_col_def col_def list_all_iff)

lemma is_numeric_col_col: "is_numeric_col d c = (\<forall>x\<in>set (col d c). is_num_cell x)"
  by (auto simp add: is_numeric_col_def col_def list_all_iff)

lemma zscore_preserva:
  assumes "zscore_pronto d"
  shows "\<exists>z cs. calcular_zscore_risco fp d = Inr \<lparr>columns = cs, rows = map z (rows d)\<rparr> \<and>
           set (columns d) \<subseteq> set cs \<and>
           (''id_pedido'' \<in> set cs \<longleftrightarrow> ''id_pedido'' \<in> set (columns d)) \<and>
           (\<forall>r c. c \<notin> set colunas_zscore \<longrightarrow> z r c = r c)"
proof (cases "all_in [''compra'', ''codigo_br'', ''preco_total'', ''qtd_itens_comprados''] d")
  case True
  then have "calcular_zscore_risco fp d =
      Inr \<lparr>columns = zscore_columns (columns d), rows = map (zscore_row fp (rows d)) (rows d)\<rparr>"
    using assms by (intro calcular_zscore_risco_rows) (simp_all add: zscore_pronto_def)
  moreover have "''id_pedido'' \<notin> set colunas_zscore" by (simp add: colunas_zscore_def)
  ultimately show ?thesis
    using zscore_row_other [of _ fp "rows d"]
    by (intro exI [of _ "zscore_row fp (rows d)"] exI [of _ "zscore_columns (columns d)"])
      (auto simp add: set_zscore_columns)
next
  case False
  then have "calcular_zscore_risco fp d = Inr d" by (rule calcular_zscore_risco_noop)
  then show ?thesis
    by (intro exI [of _ "\<lambda>r. r"] exI [of _ "columns d"]) simp
qed

lemma gerar_id_pedido_ok:
  assumes ne: "rows df \<noteq> []"
    and cc: "''compra'' \<in> set (columns df)" and cb: "''codigo_br'' \<in> set (columns df)"
    and zp: "zscore_pronto df"
    and oc: "ordenavel df ''compra''" and ob: "ordenavel df ''codigo_br''"
  shows "\<exists>g cs. gerar_id_pedido fp md5 render quicksort_compra df =
             Inr \<lparr>columns = (if ''id_pedido'' \<in> set cs
                             then ''id_pedido'' # filter (\<lambda>c. c \<noteq> ''id_pedido'') cs else cs),
                  rows = sort_key chave_ordenacao (map g (rows df))\<rparr> \<and>
           (\<forall>r c. c \<notin> set colunas_zscore \<longrightarrow> c \<noteq> ''id_pedido'' \<longrightarrow> g r c = r c) \<and>
           (all_in colunas_hash df \<longrightarrow>
              ''id_pedido'' \<in> set cs \<and>
              (\<forall>r. g r ''id_pedido'' = Str (calcular_hash_pedido md5 render r)))"
proof -
  define h :: "row \<Rightarrow> row" where
    "h = (if all_in colunas_hash df
          then (\<lambda>r. r(''id_pedido'' := Str (calcular_hash_pedido md5 render r))) else (\<lambda>r. r))"
  define df1 where
    "df1 = (if all_in colunas_hash df
            then set_column ''id_pedido'' (\<lambda>r. Str (calcular_hash_pedido md5 render r)) df
            else df)"
  define df2 where "df2 = drop_cols colunas_para_dropar df1"
  have r2: "rows df2 = map h (rows df)"
    by (simp add: df2_def df1_def h_def drop_cols_def set_column_def)
  have c2: "set (columns df2) = (set (columns df) \<union> (if all_in colunas_hash df then {''id_pedido''} else {}))
              - set colunas_para_dropar"
    by (auto simp add: df2_def df1_def drop_cols_def set_column_def)
  have hk: "\<And>r c. c \<noteq> ''id_pedido'' \<Longrightarrow> h r c = r c"
    by (simp add: h_def)
  have col2: "\<And>c. c \<noteq> ''id_pedido'' \<Longrightarrow> col df2 c = col df c"
    by (simp add: col_def r2 hk)
  have a4: "all_in [''compra'', ''codigo_br'', ''preco_total'', ''qtd_itens_comprados''] df2 \<Longrightarrow>
            all_in [''compra'', ''codigo_br'', ''preco_total'', ''qtd_itens_comprados''] df"
    by (auto simp add: all_in_def c2 split: if_splits)
  have zp2: "zscore_pronto df2"
    using zp a4
    by (auto simp add: zscore_pronto_def is_datetime_col_col is_numeric_col_col col2)
  obtain z cs where z: "calcular_zscore_risco fp df2 = Inr \<lparr>columns = cs, rows = map z (rows df2)\<rparr>"
    and sub: "set (columns df2) \<subseteq> set cs"
    and idp: "''id_pedido'' \<in> set cs \<longleftrightarrow> ''id_pedido'' \<in> set (columns df2)"
    and zk: "\<forall>r c. c \<notin> set colunas_zscore \<longrightarrow> z r c = r c"
    using zscore_preserva [OF zp2, of fp] by blast
  define df3 where "df3 = \<lparr>columns = cs, rows = map z (rows df2)\<rparr>"
  define g where "g = (\<lambda>r. z (h r))"
  have r3: "rows df3 = map g (rows df)"
    by (simp add: df3_def r2 g_def)
  have nz: "''compra'' \<notin> set colunas_zscore" "''codigo_br'' \<notin> set colunas_zscore"
    "''id_pedido'' \<notin> set colunas_zscore"
    by (simp_all add: colunas_zscore_def)
  have gk: "\<And>r. g r ''compra'' = r ''compra''" "\<And>r. g r ''codigo_br'' = r ''codigo_br''"
    using zk nz by (simp_all add: g_def hk)
  have K: "\<forall>r. chave_ordenacao (g r) = chave_ordenacao r"
    by (simp add: chave_ordenacao_def gk)
  have col3: "col df3 ''compra'' = col df ''compra''" "col df3 ''codigo_br'' = col df ''codigo_br''"
    by (simp_all add: col_def r3 gk)
  have in3: "''compra'' \<in> set (columns df3)" "''codigo_br'' \<in> set (columns df3)"
    using sub cc cb by (auto simp add: df3_def c2 colunas_para_dropar_def)
  have o3: "ordenavel df3 ''compra''" "ordenavel df3 ''codigo_br''"
    using oc ob by (simp_all add: ordenavel_col col3)
  have s: "ordenar quicksort_compra df3 = Inr (df3\<lparr>rows := sort_key chave_ordenacao (rows df3)\<rparr>)"
    using in3 o3 by (simp add: ordenar_def)
  have hash: "all_in colunas_hash df \<longrightarrow>
              ''id_pedido'' \<in> set cs \<and>
              (\<forall>r. g r ''id_pedido'' = Str (calcular_hash_pedido md5 render r))"
  proof
    assume a: "all_in colunas_hash df"
    have "''id_pedido'' \<in> set (columns df2)"
      using a by (simp add: c2 colunas_para_dropar_def)
    moreover have "\<forall>r. g r ''id_pedido'' = Str (calcular_hash_pedido md5 render r)"
      using zk nz a by (simp add: g_def h_def)
    ultimately show "''id_pedido'' \<in> set cs \<and>
              (\<forall>r. g r ''id_pedido'' = Str (calcular_hash_pedido md5 render r))"
      using idp by simp
  qed
  have "gerar_id_pedido fp md5 render quicksort_compra df =
          Inr \<lparr>columns = (if ''id_pedido'' \<in> set cs
                          then ''id_pedido'' # filter (\<lambda>c. c \<noteq> ''id_pedido'') cs else cs),
               rows = sort_key chave_ordenacao (map g (rows df))\<rparr>"
    unfolding gerar_id_pedido_def Let_def df1_def [symmetric] df2_def [symmetric]
    using ne z s
    by (simp add: bind_err_def df3_def [symmetric]) (simp add: df3_def r2 g_def comp_def)
  moreover have "\<forall>r c. c \<notin> set colunas_zscore \<longrightarrow> c \<noteq> ''id_pedido'' \<longrightarrow> g r c = r c"
    using zk by (simp add: g_def hk)
  ultimately show ?thesis using hash by blast
qed

lemma chave_ordenacao_preservada:
  assumes "\<forall>r c. c \<notin> set colunas_zscore \<longrightarrow> c \<noteq> ''id_pedido'' \<longrightarrow> g r c = r c"
  shows "\<forall>r. chave_ordenacao (g r) = chave_ordenacao r"
  using assms by (simp add: chave_ordenacao_def colunas_zscore_def)

lemma filter_chave_map:
  "(\<forall>r. K (g r) = K r) \<Longrightarrow>
   filter (\<lambda>r. K r = k) (map g xs) = map g (filter (\<lambda>r. K r = k) xs)"
  by (induction xs) simp_all

text \<open>
  C9. On a non-empty table with both \<open>compra\<close> and \<open>codigo_br\<close>
  \<open>gerar_id_pedido\<close> returns the input rows, each extended by derived columns only, in
  the order of a stable sort by (purchase date, catalog code), in each column numbers or
  dates first, then text, then missing values: the keys of the output are sorted, the
  rows of equal key keep their input order, and \<open>id_pedido\<close>, when the table has it,
  is the first column. The two hypotheses on the cells leave out the tables on which the
  code raises: \<open>zscore_pronto\<close> those on which the z-score stage does, \<open>ordenavel\<close> those
  with a key column that holds both numbers and timestamps.
\<close>

theorem gerar_id_pedido_ordenado:
  assumes "rows df \<noteq> []"
    and "''compra'' \<in> set (columns df)" and "''codigo_br'' \<in> set (columns df)"
    and "zscore_pronto df"
    and "ordenavel df ''compra''" and "ordenavel df ''codigo_br''"
  shows "\<exists>out g. gerar_id_pedido fp md5 render quicksort_compra df = Inr out \<and>
           rows out = map g (sort_key chave_ordenacao (rows df)) \<and>
           (\<forall>r c. c \<notin> set colunas_zscore \<longrightarrow> c \<noteq> ''id_pedido'' \<longrightarrow> g r c = r c) \<and>
           sorted (map chave_ordenacao (rows out)) \<and>
           (\<forall>k. filter (\<lambda>r. chave_ordenacao r = k) (rows out) =
                map g (filter (\<lambda>r. chave_ordenacao r = k) (rows df))) \<and>
           (''id_pedido'' \<in> set (columns out) \<longrightarrow> hd (columns out) = ''id_pedido'')"
proof -
  obtain g cs where
    r: "gerar_id_pedido fp md5 render quicksort_compra df =
             Inr \<lparr>columns = (if ''id_pedido'' \<in> set cs
                             then ''id_pedido'' # filter (\<lambda>c. c \<noteq> ''id_pedido'') cs else cs),
                  rows = sort_key chave_ordenacao (map g (rows df))\<rparr>"
    and F: "\<forall>r c. c \<notin> set colunas_zscore \<longrightarrow> c \<noteq> ''id_pedido'' \<longrightarrow> g r c = r c"
    using gerar_id_pedido_ok [OF assms] by blast
  have K: "\<forall>r. chave_ordenacao (g r) = chave_ordenacao r"
    using F by (rule chave_ordenacao_preservada)
  define out where "out = \<lparr>columns = (if ''id_pedido'' \<in> set cs
                             then ''id_pedido'' # filter (\<lambda>c. c \<noteq> ''id_pedido'') cs else cs),
                  rows = sort_key chave_ordenacao (map g (rows df))\<rparr>"
  have ro: "rows out = map g (sort_key chave_ordenacao (rows df))"
    using sort_key_map [OF K] by (simp add: out_def)
  have so: "sorted (map chave_ordenacao (rows out))"
    by (simp add: out_def)
  have st: "\<forall>k. filter (\<lambda>r. chave_ordenacao r = k) (rows out) =
                map g (filter (\<lambda>r. chave_ordenacao r = k) (rows df))"
    using filter_chave_map [OF K] by (simp add: out_def sort_key_stable)
  have hd: "''id_pedido'' \<in> set (columns out) \<longrightarrow> hd (columns out) = ''id_pedido''"
    by (simp add: out_def)
  show ?thesis
    using r ro F so st hd unfolding out_def [symmetric] by blast
qed

lemma chave_concatenada_eq:
  "chave_concatenada render r =
     raiz render r ''cnpj_instituicao'' @ ''_'' @ campo render r ''compra'' @ ''_'' @
     campo render r ''codigo_br'' @ ''_'' @ raiz render r ''cnpj_fornecedor'' @ ''_'' @
     campo render r ''qtd_itens_comprados'' @ ''_'' @ campo render r ''preco_unitario'' @ ''_'' @
     raiz render r ''cnpj_fabricante'' @ ''_'' @ campo render r ''insercao'' @ ''_'' @
     campo render r ''unidade_fornecimento_capacidade'' @ ''_'' @ campo render r ''capacidade'' @
     ''_'' @ campo render r ''unidade_medida''"
  by (simp add: chave_concatenada_def)

lemma calcular_hash_pedido_cong:
  "\<forall>c\<in>set colunas_hash. r1 c = r2 c \<Longrightarrow>
   calcular_hash_pedido md5 render r1 = calcular_hash_pedido md5 render r2"
  by (simp add: calcular_hash_pedido_def chave_concatenada_def colunas_hash_def raiz_def campo_def)

text \<open>
  C3. On a non-empty table with the eleven hash columns \<open>gerar_id_pedido\<close> returns a
  table whose first column is \<open>id_pedido\<close>, holding for every row the digest of the
  underscore-delimited concatenation \<open>chave_concatenada\<close> of the eleven fields in their
  fixed order (tax-id roots cut to the first 8 digits); two rows that agree on the eleven
  fields have the same concatenation and the same identifier.
\<close>

theorem gerar_id_pedido_hash:
  assumes ne: "rows df \<noteq> []"
    and ch: "all_in colunas_hash df"
    and zp: "zscore_pronto df"
    and oc: "ordenavel df ''compra''" and ob: "ordenavel df ''codigo_br''"
  shows "\<exists>out. gerar_id_pedido fp md5 render quicksort_compra df = Inr out \<and>
           hd (columns out) = ''id_pedido'' \<and>
           col out ''id_pedido'' =
             map (\<lambda>r. Str (md5 (chave_concatenada render r)))
               (sort_key chave_ordenacao (rows df)) \<and>
           (\<forall>r1 r2. (\<forall>c\<in>set colunas_hash. r1 c = r2 c) \<longrightarrow>
              md5 (chave_concatenada render r1) = md5 (chave_concatenada render r2))"
proof -
  have cc: "''compra'' \<in> set (columns df)" and cb: "''codigo_br'' \<in> set (columns df)"
    using ch by (simp_all add: all_in_def colunas_hash_def)
  obtain g cs where
    r: "gerar_id_pedido fp md5 render quicksort_compra df =
             Inr \<lparr>columns = (if ''id_pedido'' \<in> set cs
                             then ''id_pedido'' # filter (\<lambda>c. c \<noteq> ''id_pedido'') cs else cs),
                  rows = sort_key chave_ordenacao (map g (rows df))\<rparr>"
    and F: "\<forall>r c. c \<notin> set colunas_zscore \<longrightarrow> c \<noteq> ''id_pedido'' \<longrightarrow> g r c = r c"
    and i: "''id_pedido'' \<in> set cs"
    and h: "\<forall>r. g r ''id_pedido'' = Str (calcular_hash_pedido md5 render r)"
    using gerar_id_pedido_ok [OF ne cc cb zp oc ob] ch by blast
  have K: "\<forall>r. chave_ordenacao (g r) = chave_ordenacao r"
    using F by (rule chave_ordenacao_preservada)
  have "col \<lparr>columns = ''id_pedido'' # filter (\<lambda>c. c \<noteq> ''id_pedido'') cs,
              rows = sort_key chave_ordenacao (map g (rows df))\<rparr> ''id_pedido'' =
        map (\<lambda>r. Str (md5 (chave_concatenada render r))) (sort_key chave_ordenacao (rows df))"
    using sort_key_map [OF K] h by (simp add: col_def calcular_hash_pedido_def)
  then show ?thesis
    using r i calcular_hash_pedido_cong [of _ _ md5 render]
    by (simp add: calcular_hash_pedido_def)
qed

lemma ex_ordem_sorted:
  "map (\<lambda>r. r ''linha'') (sort_key chave_ordenacao (rows ex_ordem)) =
     [Num 2, Num 3, Num 5, Num 1, Num 4]"
  by (simp add: ex_ordem_def chave_ordenacao_def mk_row_def)

theorem gerar_id_pedido_ordenado_witness:
  "rows ex_ordem \<noteq> [] \<and> ''compra'' \<in> set (columns ex_ordem) \<and>
   ''codigo_br'' \<in> set (columns ex_ordem) \<and> zscore_pronto ex_ordem \<and>
   all_in [''compra'', ''codigo_br'', ''preco_total'', ''qtd_itens_comprados''] ex_ordem \<and>
   ordenavel ex_ordem ''compra'' \<and> ordenavel ex_ordem ''codigo_br'' \<and>
   (\<exists>out. gerar_id_pedido exato id ex_render id ex_ordem = Inr out \<and>
      col out ''linha'' = [Num 2, Num 3, Num 5, Num 1, Num 4])"
proof -
  have h: "rows ex_ordem \<noteq> []" "''compra'' \<in> set (columns ex_ordem)"
    "''codigo_br'' \<in> set (columns ex_ordem)" "zscore_pronto ex_ordem"
    "ordenavel ex_ordem ''compra''" "ordenavel ex_ordem ''codigo_br''"
    by (simp_all add: ex_ordem_def zscore_pronto_def ordenavel_def is_datetime_col_def
        is_numeric_col_def mk_row_def)
  have a: "all_in [''compra'', ''codigo_br'', ''preco_total'', ''qtd_itens_comprados''] ex_ordem"
    by (simp add: ex_ordem_def all_in_def)
  obtain out g where r: "gerar_id_pedido exato id ex_render id ex_ordem = Inr out"
    and ro: "rows out = map g (sort_key chave_ordenacao (rows ex_ordem))"
    and F: "\<forall>r c. c \<notin> set colunas_zscore \<longrightarrow> c \<noteq> ''id_pedido'' \<longrightarrow> g r c = r c"
    using gerar_id_pedido_ordenado [OF h, of exato id ex_render id] by blast
  have "\<forall>r. g r ''linha'' = r ''linha''"
    using F by (simp add: colunas_zscore_def)
  then have "col out ''linha'' = map (\<lambda>r. r ''linha'') (sort_key chave_ordenacao (rows ex_ordem))"
    by (simp add: col_def ro)
  then show ?thesis
    using h a r ex_ordem_sorted by simp
qed

lemma ex_pedidos_chaves:
  "map (chave_concatenada ex_render) (sort_key chave_ordenacao (rows ex_pedidos)) =
     [''12345678_2024-01-05 00:00:00_BR7_98765432_2_2.0_11222333_2024-01-09 00:00:00_FRASCO_500.0_ML'',
      ''12345678_2024-01-09 00:00:00_BR1_98765432_2_2.0__2024-01-09 00:00:00_FRASCO_500.0_ML'']"
  by (simp add: ex_pedidos_def chave_ordenacao_def mk_row_def chave_concatenada_def raiz_def
      campo_def py_str_def py_strip_def is_space_def is_digit_def ex_render_def)

theorem gerar_id_pedido_hash_witness:
  "rows ex_pedidos \<noteq> [] \<and> all_in colunas_hash ex_pedidos \<and> zscore_pronto ex_pedidos \<and>
   ordenavel ex_pedidos ''compra'' \<and> ordenavel ex_pedidos ''codigo_br'' \<and>
   (\<exists>out. gerar_id_pedido exato id ex_render id ex_pedidos = Inr out \<and>
      hd (columns out) = ''id_pedido'' \<and>
      col out ''id_pedido'' =
        [Str ''12345678_2024-01-05 00:00:00_BR7_98765432_2_2.0_11222333_2024-01-09 00:00:00_FRASCO_500.0_ML'',
         Str ''12345678_2024-01-09 00:00:00_BR1_98765432_2_2.0__2024-01-09 00:00:00_FRASCO_500.0_ML''])"
proof -
  have h: "rows ex_pedidos \<noteq> []" "all_in colunas_hash ex_pedidos" "zscore_pronto ex_pedidos"
    "ordenavel ex_pedidos ''compra''" "ordenavel ex_pedidos ''codigo_br''"
    by (simp_all add: ex_pedidos_def zscore_pronto_def ordenavel_def all_in_def colunas_hash_def
        mk_row_def)
  obtain out where r: "gerar_id_pedido exato id ex_render id ex_pedidos = Inr out"
    and hc: "hd (columns out) = ''id_pedido''"
    and c: "col out ''id_pedido'' =
             map (\<lambda>r. Str (id (chave_concatenada ex_render r)))
               (sort_key chave_ordenacao (rows ex_pedidos))"
    using gerar_id_pedido_hash [OF h, of exato id ex_render id] by blast
  have "col out ''id_pedido'' =
          map Str (map (chave_concatenada ex_render) (sort_key chave_ordenacao (rows ex_pedidos)))"
    using c by (simp add: comp_def)
  then show ?thesis
    using h r hc unfolding ex_pedidos_chaves by simp
qed

subsection \<open>The supplier-concentration stage\<close>

lemma find_keyed:
  assumes "\<forall>k\<in>set ks. map (F k) on = k"
  shows "find (\<lambda>r'. map r' on = key) (map F ks) = (if key \<in> set ks then Some (F key) else None)"
  using assms by (induction ks) (auto simp del: map_eq_conv)

lemma lookup_row_keyed:
  assumes "\<forall>k\<in>set ks. map (F k) on = k"
  shows "lookup_row on (map F ks) r =
           (if map r on \<in> set ks then F (map r on) else (\<lambda>c. Null))"
  by (simp add: lookup_row_def find_keyed [OF assms] del: map_eq_conv)

lemma set_group_keys:
  "set (group_keys ks rs) = {k. Null \<notin> set k \<and> k \<in> (\<lambda>r. map r ks) ` set rs}"
  by (auto simp add: group_keys_def)

lemma distinct_group_keys: "distinct (group_keys ks rs)"
  by (simp add: group_keys_def)

lemma groupby_agg_ok:
  "all_in (ks @ map (\<lambda>(out, c, agg). c) aggs) df \<Longrightarrow>
   groupby_agg ks aggs df =
     Inr \<lparr>columns = ks @ map fst aggs,
          rows = map (group_row ks aggs (rows df)) (group_keys ks (rows df))\<rparr>"
  by (simp add: groupby_agg_def)


lemma map_filter_all_Some:
  "\<forall>x\<in>set xs. f x = Some (g x) \<Longrightarrow> List.map_filter f xs = map g xs"
  by (induction xs) (simp_all add: List.map_filter_simps)



lemma keys1:
  "k \<in> set (group_keys [c] rs) \<longleftrightarrow> (\<exists>p. k = [p] \<and> p \<noteq> Null \<and> p \<in> (\<lambda>r. r c) ` set rs)"
  by (auto simp add: set_group_keys)





lemma rename_col_mk:
  "old \<in> set cs \<Longrightarrow>
   rename_col old new \<lparr>columns = cs, rows = map F ks\<rparr> =
     \<lparr>columns = map (\<lambda>c. if c = old then new else c) cs,
      rows = map (\<lambda>k. (F k)(new := F k old)) ks\<rparr>"
  by (simp add: rename_col_def comp_def)

lemma select_cols_mk:
  "list_all (\<lambda>c. c \<in> set cs) sel \<Longrightarrow>
   select_cols sel \<lparr>columns = cs, rows = rs\<rparr> = Inr \<lparr>columns = sel, rows = rs\<rparr>"
  by (simp add: select_cols_def all_in_def)

lemma set_column_mk_new:
  "c \<notin> set cs \<Longrightarrow>
   set_column c f \<lparr>columns = cs, rows = map F ks\<rparr> =
     \<lparr>columns = cs @ [c], rows = map (\<lambda>k. (F k)(c := f (F k))) ks\<rparr>"
  by (simp add: set_column_def comp_def)

lemma merge_left_keyed:
  assumes on: "all_in on left"
    and dl: "distinct (columns left)"
    and cr: "columns right = on @ [c]" and c: "c \<notin> set on" "c \<notin> set (columns left)"
    and rr: "rows right = map F ks" and dk: "distinct ks"
    and key: "\<forall>k\<in>set ks. map (F k) on = k"
  shows "merge_left left right on =
           Inr \<lparr>columns = columns left @ [c],
                rows = map (\<lambda>r. r(c := (if map r on \<in> set ks then F (map r on) c else Null)))
                         (rows left)\<rparr>"
proof -
  have f: "filter (\<lambda>x. x \<notin> set on) (columns right) = [c]"
    using c(1) by (simp add: cr)
  have u: "distinct (map (\<lambda>r. map r on) (rows right))"
  proof -
    have "map (\<lambda>r. map r on) (rows right) = map (\<lambda>k. k) ks"
      unfolding rr map_map comp_def using key by (intro map_cong) auto
    then show ?thesis using dk by simp
  qed
  have "merge_left left right on =
           Inr \<lparr>columns = columns left @ [c],
                rows = map (\<lambda>r. r(c := lookup_row on (rows right) r c)) (rows left)\<rparr>"
    using merge_left_unique [OF on _ dl _ _ u] c
    by (simp add: f) (simp add: cr all_in_def list_all_iff)
  moreover have "\<And>r. lookup_row on (rows right) r c =
                    (if map r on \<in> set ks then F (map r on) c else Null)"
    unfolding rr lookup_row_keyed [OF key] by simp
  ultimately show ?thesis by simp
qed














subsection \<open>Tables on which gerar_id_pedido raises\<close>

text \<open>
  The two hypotheses on the cells of the sorted tables are necessary: on a table that has
  both sort columns and fails one of them, the z-score stage or the sort raises.
\<close>

lemma calcular_zscore_risco_levanta:
  assumes "\<not> zscore_pronto d"
  shows "\<exists>e. calcular_zscore_risco fp d = Inl e"
proof -
  have a: "all_in [''compra'', ''codigo_br'', ''preco_total'', ''qtd_itens_comprados''] d"
    and n: "\<not> (is_datetime_col d ''compra'' \<and> is_numeric_col d ''qtd_itens_comprados'' \<and>
               is_numeric_col d ''preco_total'')"
    using assms by (auto simp add: zscore_pronto_def)
  show ?thesis
  proof (cases "is_datetime_col d ''compra''")
    case False
    then show ?thesis using a by (simp add: calcular_zscore_risco_def)
  next
    case True
    then have "\<not> (is_numeric_col (set_column ''ano_compra'' (\<lambda>r. year_of (r ''compra'')) d)
                     ''qtd_itens_comprados'' \<and>
                 is_numeric_col (set_column ''ano_compra'' (\<lambda>r. year_of (r ''compra'')) d)
                     ''preco_total'')"
      using n by (simp add: is_numeric_set_column)
    then show ?thesis using a True by (simp add: calcular_zscore_risco_def Let_def)
  qed
qed

lemma gerar_id_pedido_levanta:
  assumes ne: "rows df \<noteq> []"
    and cc: "''compra'' \<in> set (columns df)" and cb: "''codigo_br'' \<in> set (columns df)"
    and n: "\<not> (zscore_pronto df \<and> ordenavel df ''compra'' \<and> ordenavel df ''codigo_br'')"
  shows "\<exists>e. gerar_id_pedido fp md5 render quicksort_compra df = Inl e"
proof -
  define h :: "row \<Rightarrow> row" where
    "h = (if all_in colunas_hash df
          then (\<lambda>r. r(''id_pedido'' := Str (calcular_hash_pedido md5 render r))) else (\<lambda>r. r))"
  define df1 where
    "df1 = (if all_in colunas_hash df
            then set_column ''id_pedido'' (\<lambda>r. Str (calcular_hash_pedido md5 render r)) df
            else df)"
  define df2 where "df2 = drop_cols colunas_para_dropar df1"
  have r2: "rows df2 = map h (rows df)"
    by (simp add: df2_def df1_def h_def drop_cols_def set_column_def)
  have c2: "set (columns df2) = (set (columns df) \<union> (if all_in colunas_hash df then {''id_pedido''} else {}))
              - set colunas_para_dropar"
    by (auto simp add: df2_def df1_def drop_cols_def set_column_def)
  have hk: "\<And>r c. c \<noteq> ''id_pedido'' \<Longrightarrow> h r c = r c"
    by (simp add: h_def)
  have col2: "\<And>c. c \<noteq> ''id_pedido'' \<Longrightarrow> col df2 c = col df c"
    by (simp add: col_def r2 hk)
  have a4: "all_in [''compra'', ''codigo_br'', ''preco_total'', ''qtd_itens_comprados''] df2 \<longleftrightarrow>
            all_in [''compra'', ''codigo_br'', ''preco_total'', ''qtd_itens_comprados''] df"
    by (auto simp add: all_in_def c2 colunas_para_dropar_def split: if_splits)
  have zp2: "zscore_pronto df2 \<longleftrightarrow> zscore_pronto df"
    by (simp add: zscore_pronto_def is_datetime_col_col is_numeric_col_col col2 a4)
  show ?thesis
  proof (cases "zscore_pronto df")
    case False
    then obtain e where "calcular_zscore_risco fp df2 = Inl e"
      using calcular_zscore_risco_levanta [of df2 fp] zp2 by blast
    then show ?thesis
      unfolding gerar_id_pedido_def Let_def df1_def [symmetric] df2_def [symmetric]
      using ne by (simp add: bind_err_def)
  next
    case True
    then obtain z cs where z: "calcular_zscore_risco fp df2 = Inr \<lparr>columns = cs, rows = map z (rows df2)\<rparr>"
      and sub: "set (columns df2) \<subseteq> set cs"
      and zk: "\<forall>r c. c \<notin> set colunas_zscore \<longrightarrow> z r c = r c"
      using zscore_preserva [of df2 fp] zp2 by blast
    define df3 where "df3 = \<lparr>columns = cs, rows = map z (rows df2)\<rparr>"
    have nz: "''compra'' \<notin> set colunas_zscore" "''codigo_br'' \<notin> set colunas_zscore"
      by (simp_all add: colunas_zscore_def)
    have col3: "col df3 ''compra'' = col df ''compra''" "col df3 ''codigo_br'' = col df ''codigo_br''"
      using zk nz by (simp_all add: col_def df3_def r2 hk)
    have in3: "''compra'' \<in> set (columns df3)" "''codigo_br'' \<in> set (columns df3)"
      using sub cc cb by (auto simp add: df3_def c2 colunas_para_dropar_def)
    have "\<not> (ordenavel df3 ''compra'' \<and> ordenavel df3 ''codigo_br'')"
      using n True by (simp add: ordenavel_col col3)
    then have "ordenar quicksort_compra df3 = Inl TypeError"
      using in3 by (simp add: ordenar_def)
    then show ?thesis
      unfolding gerar_id_pedido_def Let_def df1_def [symmetric] df2_def [symmetric]
      using ne z by (simp add: bind_err_def df3_def [symmetric])
  qed
qed

subsection \<open>The prioritization stage\<close>

lemma min_max_normalizar_eq:
  "min_max_normalizar fp c out d =
     set_column out
       (\<lambda>r. of_num (normalizar_spec fp (List.map_filter (\<lambda>r. num (r c)) (rows d)) (num (r c)))) d"
proof -
  have e: "\<And>a b r. (case num (r c) of None \<Rightarrow> Null
                                     | Some x \<Rightarrow> Num (fl_div fp (fl_sub fp x a) b)) =
                 of_num (map_option (\<lambda>v. fl_div fp (fl_sub fp v a) b) (num (r c)))"
    by (simp split: option.splits)
  show ?thesis
    unfolding min_max_normalizar_def normalizar_spec_def Let_def
    by (cases "max_skipna (List.map_filter (\<lambda>r. num (r c)) (rows d))";
        cases "min_skipna (List.map_filter (\<lambda>r. num (r c)) (rows d))")
      (simp_all add: e)
qed

lemma merge_left_keyed2:
  assumes on: "all_in on left"
    and dl: "distinct (columns left)"
    and cr: "columns right = on @ [c, c']" and c: "c \<notin> set on" "c \<notin> set (columns left)"
    and c': "c' \<notin> set on" "c' \<notin> set (columns left)" "c \<noteq> c'"
    and rr: "rows right = map F ks" and dk: "distinct ks"
    and key: "\<forall>k\<in>set ks. map (F k) on = k"
  shows "merge_left left right on =
           Inr \<lparr>columns = columns left @ [c, c'],
                rows = map (\<lambda>r. r(c := (if map r on \<in> set ks then F (map r on) c else Null),
                                   c' := (if map r on \<in> set ks then F (map r on) c' else Null)))
                         (rows left)\<rparr>"
proof -
  have f: "filter (\<lambda>x. x \<notin> set on) (columns right) = [c, c']"
    using c(1) c'(1) by (simp add: cr)
  have u: "distinct (map (\<lambda>r. map r on) (rows right))"
  proof -
    have "map (\<lambda>r. map r on) (rows right) = map (\<lambda>k. k) ks"
      unfolding rr map_map comp_def using key by (intro map_cong) auto
    then show ?thesis using dk by simp
  qed
  have "merge_left left right on =
           Inr \<lparr>columns = columns left @ [c, c'],
                rows = map (\<lambda>r. r(c := lookup_row on (rows right) r c,
                                   c' := lookup_row on (rows right) r c')) (rows left)\<rparr>"
    using merge_left_unique [OF on _ dl _ _ u] c c'
    by (simp add: f) (simp add: cr all_in_def list_all_iff)
  moreover have "\<And>r x. lookup_row on (rows right) r x =
                    (if map r on \<in> set ks then F (map r on) x else Null)"
    unfolding rr lookup_row_keyed [OF key] by simp
  ultimately show ?thesis by simp
qed

lemma group_row_prioridade:
  "group_row [''id_produto'']
     [(''risco_medio'', ''score_z_risco'', agg_mean_abs fp),
      (''demanda_valor'', ''preco_total'', agg_group_sum fp)]
     rs [p] =
   mk_row [(''id_produto'', p), (''risco_medio'', of_num (risco_medio_spec fp rs p)),
           (''demanda_valor'', Num (demanda_spec fp rs p))]"
  by (simp add: group_row_def agg_group_sum_def agg_mean_abs_def risco_medio_spec_def
      demanda_spec_def map_filter_map comp_def Let_def)

lemma map_filter_cong_set:
  "\<forall>x\<in>set xs. f x = g x \<Longrightarrow> List.map_filter f xs = List.map_filter g xs"
  by (induction xs) (simp_all add: List.map_filter_simps split: option.splits)

lemma calcular_indice_priorizacao_rows:
  assumes cols: "all_in [''id_produto'', ''preco_total'', ''score_z_risco''] df"
    and nz: "is_numeric_col df ''score_z_risco''" and np: "is_numeric_col df ''preco_total''"
    and dc: "distinct (columns df)"
    and ni: "''indice_priorizacao'' \<notin> set (columns df)"
    and nd: "''demanda_valor'' \<notin> set (columns df)"
  shows "calcular_indice_priorizacao fp df =
           Inr \<lparr>columns = columns df @ [''indice_priorizacao'', ''demanda_valor''],
                rows = map (\<lambda>r. r(''indice_priorizacao'' := indice_linha fp (rows df) r,
                                   ''demanda_valor'' := demanda_linha fp (rows df) r)) (rows df)\<rparr>"
proof -
  define rs where "rs = rows df"
  define K1 where "K1 = group_keys [''id_produto''] rs"
  define aggs where "aggs = [(''risco_medio'', ''score_z_risco'', agg_mean_abs fp),
                             (''demanda_valor'', ''preco_total'', agg_group_sum fp)]"
  define G where "G = group_row [''id_produto''] aggs rs"
  define g where "g = \<lparr>columns = [''id_produto'', ''risco_medio'', ''demanda_valor''], rows = map G K1\<rparr>"
  define P1 where "P1 = (\<lambda>k. (G k)(''risco_normalizado'' :=
                          of_num (normalizar_spec fp (riscos fp rs) (num (G k ''risco_medio'')))))"
  define P2 where "P2 = (\<lambda>k. (P1 k)(''demanda_normalizada'' :=
                          of_num (normalizar_spec fp (demandas fp rs) (num (P1 k ''demanda_valor'')))))"
  define P3 where "P3 = (\<lambda>k. (P2 k)(''indice_priorizacao'' := indice_of fp (P2 k)))"
  have a1: "all_in ([''id_produto''] @ map (\<lambda>(out, c, agg). c) aggs) df"
    and a3: "all_in [''id_produto''] df"
    using cols by (simp_all add: all_in_def aggs_def)
  have k1: "\<And>k. k \<in> set K1 \<longleftrightarrow> (\<exists>p. k = [p] \<and> p \<noteq> Null \<and> p \<in> (\<lambda>r. r ''id_produto'') ` set rs)"
    unfolding K1_def by (rule keys1)
  have A: "groupby_agg [''id_produto''] aggs df = Inr g"
    unfolding groupby_agg_ok [OF a1] by (simp add: g_def G_def K1_def rs_def aggs_def)
  have gv: "\<And>p. G [p] ''id_produto'' = p"
    "\<And>p. G [p] ''risco_medio'' = of_num (risco_medio_spec fp rs p)"
    "\<And>p. G [p] ''demanda_valor'' = Num (demanda_spec fp rs p)"
    unfolding G_def aggs_def group_row_prioridade by (simp_all add: mk_row_def)
  have hdk: "\<And>k. k \<in> set K1 \<Longrightarrow> k = [hd k]"
    unfolding k1 by auto
  have vr: "List.map_filter (\<lambda>r. num (r ''risco_medio'')) (map G K1) = riscos fp rs"
    unfolding riscos_def K1_def [symmetric] map_filter_map comp_def
  proof (rule map_filter_cong_set, rule ballI)
    fix k assume "k \<in> set K1"
    then have "k = [hd k]" by (rule hdk)
    then show "num (G k ''risco_medio'') = risco_medio_spec fp rs (hd k)"
      using gv(2) [of "hd k"] by simp
  qed
  have B: "min_max_normalizar fp ''risco_medio'' ''risco_normalizado'' g =
           \<lparr>columns = [''id_produto'', ''risco_medio'', ''demanda_valor'', ''risco_normalizado''],
              rows = map P1 K1\<rparr>"
    unfolding min_max_normalizar_eq
    by (simp add: g_def vr set_column_mk_new P1_def)
  have p1v: "\<And>k. P1 k ''demanda_valor'' = G k ''demanda_valor''"
    by (simp add: P1_def)
  have vd: "List.map_filter (\<lambda>r. num (r ''demanda_valor'')) (map P1 K1) = demandas fp rs"
    unfolding demandas_def K1_def [symmetric] map_filter_map comp_def
  proof (rule map_filter_all_Some, rule ballI)
    fix k assume "k \<in> set K1"
    then have "k = [hd k]" by (rule hdk)
    then show "num (P1 k ''demanda_valor'') = Some (demanda_spec fp rs (hd k))"
      using gv(3) [of "hd k"] by (simp add: p1v)
  qed
  have C: "min_max_normalizar fp ''demanda_valor'' ''demanda_normalizada''
             \<lparr>columns = [''id_produto'', ''risco_medio'', ''demanda_valor'', ''risco_normalizado''],
                rows = map P1 K1\<rparr> =
           \<lparr>columns = [''id_produto'', ''risco_medio'', ''demanda_valor'', ''risco_normalizado'',
                        ''demanda_normalizada''],
              rows = map P2 K1\<rparr>"
    unfolding min_max_normalizar_eq
    by (simp add: vd set_column_mk_new P2_def)
  have D: "select_cols [''id_produto'', ''indice_priorizacao'', ''demanda_valor'']
             (set_column ''indice_priorizacao'' (indice_of fp)
                \<lparr>columns = [''id_produto'', ''risco_medio'', ''demanda_valor'', ''risco_normalizado'',
                             ''demanda_normalizada''],
                   rows = map P2 K1\<rparr>) =
           Inr \<lparr>columns = [''id_produto'', ''indice_priorizacao'', ''demanda_valor''],
                rows = map P3 K1\<rparr>"
    by (simp add: set_column_mk_new select_cols_mk P3_def)
  have p3: "\<And>p. P3 [p] ''id_produto'' = p"
    "\<And>p. P3 [p] ''demanda_valor'' = Num (demanda_spec fp rs p)"
    "\<And>p. P3 [p] ''indice_priorizacao'' = indice_spec fp rs p"
  proof -
    fix p
    have r: "P2 [p] ''risco_normalizado'' = of_num (risco_normalizado fp rs p)"
      by (simp add: P2_def P1_def gv risco_normalizado_def)
    have d: "P2 [p] ''demanda_normalizada'' = of_num (demanda_normalizada fp rs p)"
      by (simp add: P2_def P1_def gv demanda_normalizada_def)
    show "P3 [p] ''id_produto'' = p" by (simp add: P3_def P2_def P1_def gv)
    show "P3 [p] ''demanda_valor'' = Num (demanda_spec fp rs p)" by (simp add: P3_def P2_def P1_def gv)
    show "P3 [p] ''indice_priorizacao'' = indice_spec fp rs p"
      by (simp add: P3_def indice_of_def r d cell_op_def indice_spec_def split: option.splits)
  qed
  have keyP3: "\<forall>k\<in>set K1. map (P3 k) [''id_produto''] = k"
  proof
    fix k assume k: "k \<in> set K1"
    then obtain p where p: "k = [p]" using k1 by blast
    show "map (P3 k) [''id_produto''] = k"
      unfolding p by (simp add: p3(1))
  qed
  define Mr where "Mr = (\<lambda>r::row. r(''indice_priorizacao'' :=
                                     (if [r ''id_produto''] \<in> set K1
                                      then P3 [r ''id_produto''] ''indice_priorizacao'' else Null),
                                   ''demanda_valor'' :=
                                     (if [r ''id_produto''] \<in> set K1
                                      then P3 [r ''id_produto''] ''demanda_valor'' else Null)))"
  define m where "m = \<lparr>columns = columns df @ [''indice_priorizacao'', ''demanda_valor''],
                       rows = map Mr (rows df)\<rparr>"
  have E: "merge_left df \<lparr>columns = [''id_produto'', ''indice_priorizacao'', ''demanda_valor''],
                            rows = map P3 K1\<rparr> [''id_produto''] = Inr m"
    using merge_left_keyed2 [OF a3 dc, of
        "\<lparr>columns = [''id_produto'', ''indice_priorizacao'', ''demanda_valor''], rows = map P3 K1\<rparr>"
        "''indice_priorizacao''" "''demanda_valor''" P3 K1] ni nd keyP3
    by (simp add: K1_def [symmetric] distinct_group_keys m_def Mr_def) (simp add: K1_def distinct_group_keys)
  have am: "all_in [''indice_priorizacao'', ''demanda_valor''] m"
    by (simp add: m_def all_in_def)
  have F1: "set_column ''demanda_valor'' (\<lambda>r. fillna0 (r ''demanda_valor''))
             (set_column ''indice_priorizacao'' (\<lambda>r. fillna0 (r ''indice_priorizacao'')) m) =
           \<lparr>columns = columns df @ [''indice_priorizacao'', ''demanda_valor''],
              rows = map (\<lambda>r. (Mr r)(''indice_priorizacao'' := fillna0 (Mr r ''indice_priorizacao''),
                                      ''demanda_valor'' := fillna0 (Mr r ''demanda_valor''))) (rows df)\<rparr>"
    unfolding m_def set_column_mk by simp
  have F2: "map (\<lambda>r. (Mr r)(''indice_priorizacao'' := fillna0 (Mr r ''indice_priorizacao''),
                                      ''demanda_valor'' := fillna0 (Mr r ''demanda_valor''))) (rows df) =
            map (\<lambda>r. r(''indice_priorizacao'' := indice_linha fp rs r,
                                 ''demanda_valor'' := demanda_linha fp rs r)) (rows df)"
  proof (rule map_cong [OF refl])
    fix r assume r: "r \<in> set (rows df)"
    have i: "[r ''id_produto''] \<in> set K1 \<longleftrightarrow> r ''id_produto'' \<noteq> Null"
      unfolding k1 using r by (auto simp add: rs_def)
    show "(Mr r)(''indice_priorizacao'' := fillna0 (Mr r ''indice_priorizacao''),
                 ''demanda_valor'' := fillna0 (Mr r ''demanda_valor'')) =
          r(''indice_priorizacao'' := indice_linha fp rs r, ''demanda_valor'' := demanda_linha fp rs r)"
      by (rule ext) (simp add: Mr_def i p3 indice_linha_def demanda_linha_def)
  qed
  have "calcular_indice_priorizacao fp df =
          Inr (set_column ''demanda_valor'' (\<lambda>r. fillna0 (r ''demanda_valor''))
             (set_column ''indice_priorizacao'' (\<lambda>r. fillna0 (r ''indice_priorizacao'')) m))"
    unfolding calcular_indice_priorizacao_def aggs_def [symmetric] A
    using cols nz np am
    by (simp add: bind_err_def B C D E)
  then show ?thesis
    unfolding F1 F2 rs_def by simp
qed

lemma min_skipna_le: "min_skipna xs = Some m \<Longrightarrow> x \<in> set xs \<Longrightarrow> m \<le> (x::real)"
proof -
  assume m: "min_skipna xs = Some m" and x: "x \<in> set xs"
  then obtain a ys where xs: "xs = a # ys" by (cases xs) auto
  have "m = Min (set xs)"
    using m unfolding xs Min.set_eq_fold by (simp add: min_skipna_def)
  then show ?thesis using x by simp
qed

lemma max_skipna_ge: "max_skipna xs = Some m \<Longrightarrow> x \<in> set xs \<Longrightarrow> (x::real) \<le> m"
proof -
  assume m: "max_skipna xs = Some m" and x: "x \<in> set xs"
  then obtain a ys where xs: "xs = a # ys" by (cases xs) auto
  have "m = Max (set xs)"
    using m unfolding xs Max.set_eq_fold by (simp add: max_skipna_def)
  then show ?thesis using x by simp
qed

lemma normalizar_spec_bounds:
  assumes u: "na_unidade fp"
    and n: "normalizar_spec fp vs x = Some v" and m: "\<forall>y. x = Some y \<longrightarrow> y \<in> set vs"
  shows "0 \<le> v \<and> v \<le> 1"
proof (cases "max_skipna vs")
  case None
  then show ?thesis using n by (simp add: normalizar_spec_def)
next
  case mx: (Some v_max)
  show ?thesis
  proof (cases "min_skipna vs")
    case None
    then show ?thesis using n mx by (simp add: normalizar_spec_def)
  next
    case mn: (Some v_min)
    show ?thesis
    proof (cases "0 < fl_sub fp v_max v_min")
      case False
      then show ?thesis using n mx mn by (simp add: normalizar_spec_def)
    next
      case True
      then obtain y where y: "x = Some y"
        "v = fl_div fp (fl_sub fp y v_min) (fl_sub fp v_max v_min)"
        using n mx mn by (auto simp add: normalizar_spec_def)
      have "v_min \<le> y" "y \<le> v_max"
        using m y(1) min_skipna_le [OF mn] max_skipna_ge [OF mx] by simp_all
      then have "0 \<le> fl_sub fp y v_min \<and> fl_sub fp y v_min \<le> fl_sub fp v_max v_min"
        using u unfolding na_unidade_def by blast
      then have "0 \<le> fl_div fp (fl_sub fp y v_min) (fl_sub fp v_max v_min) \<and>
                 fl_div fp (fl_sub fp y v_min) (fl_sub fp v_max v_min) \<le> 1"
        using u True unfolding na_unidade_def by blast
      then show ?thesis using y(2) by simp
    qed
  qed
qed

lemma normalizar_spec_Some: "normalizar_spec fp vs (Some x) \<noteq> None"
  by (simp add: normalizar_spec_def split: option.splits)

lemma normalizar_spec_iguais:
  "\<forall>x. fl_sub fp x x = 0 \<Longrightarrow> max_skipna vs = min_skipna vs \<Longrightarrow>
   normalizar_spec fp vs x = Some 0"
  by (simp add: normalizar_spec_def split: option.splits)

lemma risco_em_riscos:
  assumes "r \<in> set rs" and "r ''id_produto'' \<noteq> Null"
    and "risco_medio_spec fp rs (r ''id_produto'') = Some y"
  shows "y \<in> set (riscos fp rs)"
proof -
  have "[r ''id_produto''] \<in> set (group_keys [''id_produto''] rs)"
    unfolding keys1 using assms(1,2) by blast
  then show ?thesis
    unfolding riscos_def set_map_filter using assms(3) by force
qed

lemma demanda_em_demandas:
  assumes "r \<in> set rs" and "r ''id_produto'' \<noteq> Null"
  shows "demanda_spec fp rs (r ''id_produto'') \<in> set (demandas fp rs)"
proof -
  have "[r ''id_produto''] \<in> set (group_keys [''id_produto''] rs)"
    unfolding keys1 using assms(1,2) by blast
  then show ?thesis
    unfolding demandas_def by force
qed

lemma componentes_unit:
  assumes u: "na_unidade fp" and r: "r \<in> set rs" and p: "r ''id_produto'' \<noteq> Null"
  shows "(\<exists>d. demanda_normalizada fp rs (r ''id_produto'') = Some d \<and> 0 \<le> d \<and> d \<le> 1) \<and>
         (case risco_normalizado fp rs (r ''id_produto'') of
            Some a \<Rightarrow> 0 \<le> a \<and> a \<le> 1
          | None \<Rightarrow> risco_medio_spec fp rs (r ''id_produto'') = None)"
proof -
  define p where "p = r ''id_produto''"
  obtain d where d: "demanda_normalizada fp rs p = Some d"
    using normalizar_spec_Some [of fp "demandas fp rs" "demanda_spec fp rs p"]
    by (auto simp add: demanda_normalizada_def)
  have db: "0 \<le> d \<and> d \<le> 1"
    using normalizar_spec_bounds [OF u, of "demandas fp rs" "Some (demanda_spec fp rs p)" d]
      d demanda_em_demandas [OF r assms(3)]
    by (simp add: demanda_normalizada_def p_def)
  have rn: "case risco_normalizado fp rs p of
            Some a \<Rightarrow> 0 \<le> a \<and> a \<le> 1
          | None \<Rightarrow> risco_medio_spec fp rs p = None"
  proof (cases "risco_normalizado fp rs p")
    case None
    then show ?thesis
      using normalizar_spec_Some [of fp "riscos fp rs"]
      by (cases "risco_medio_spec fp rs p") (simp_all add: risco_normalizado_def)
  next
    case (Some a)
    have "0 \<le> a \<and> a \<le> 1"
      using normalizar_spec_bounds [OF u, of "riscos fp rs" "risco_medio_spec fp rs p" a] Some
        risco_em_riscos [OF r assms(3)]
      by (simp add: risco_normalizado_def p_def)
    then show ?thesis using Some by simp
  qed
  show ?thesis using d db rn unfolding p_def by simp
qed

lemma indice_linha_unit:
  assumes u: "na_unidade fp" and r: "r \<in> set rs"
  shows "\<exists>v. indice_linha fp rs r = Num v \<and> 0 \<le> v \<and> v \<le> 1"
proof (cases "r ''id_produto'' = Null")
  case True
  then show ?thesis by (simp add: indice_linha_def)
next
  case False
  obtain d where d: "demanda_normalizada fp rs (r ''id_produto'') = Some d" "0 \<le> d" "d \<le> 1"
    using componentes_unit [OF u r False] by blast
  show ?thesis
  proof (cases "risco_normalizado fp rs (r ''id_produto'')")
    case None
    then show ?thesis using False by (simp add: indice_linha_def indice_spec_def)
  next
    case (Some a)
    then have ab: "0 \<le> a \<and> a \<le> 1"
      using componentes_unit [OF u r False] by simp
    have "0 \<le> fl_add fp (fl_mul fp a (1 / 2)) (fl_mul fp d (1 / 2)) \<and>
          fl_add fp (fl_mul fp a (1 / 2)) (fl_mul fp d (1 / 2)) \<le> 1"
      using u ab d(2,3) unfolding na_unidade_def by blast
    then have "0 \<le> fl_round fp 4 (fl_add fp (fl_mul fp a (1 / 2)) (fl_mul fp d (1 / 2))) \<and>
               fl_round fp 4 (fl_add fp (fl_mul fp a (1 / 2)) (fl_mul fp d (1 / 2))) \<le> 1"
      using u unfolding na_unidade_def by blast
    then show ?thesis
      using False Some d(1) by (simp add: indice_linha_def indice_spec_def)
  qed
qed

lemma round_half_even_mono_bounds:
  "of_int k \<le> x \<Longrightarrow> k \<le> round_half_even x"
  "x \<le> of_int k \<Longrightarrow> round_half_even x \<le> k"
proof -
  assume "of_int k \<le> x"
  then have "k \<le> \<lfloor>x\<rfloor>" by (simp add: le_floor_iff)
  then show "k \<le> round_half_even x"
    by (auto simp add: round_half_even_def Let_def)
next
  assume a: "x \<le> of_int k"
  then have f: "\<lfloor>x\<rfloor> \<le> k" by (simp add: floor_le_iff)
  show "round_half_even x \<le> k"
  proof (cases "\<lfloor>x\<rfloor> = k")
    case True
    then have "of_int k \<le> x" using of_int_floor_le [of x] by simp
    then have "x = of_int k" using a by simp
    then show ?thesis by simp
  next
    case False
    then have "\<lfloor>x\<rfloor> + 1 \<le> k" using f by simp
    then show ?thesis using f by (auto simp add: round_half_even_def Let_def)
  qed
qed

lemma round_dec_unit: "0 \<le> y \<Longrightarrow> y \<le> 1 \<Longrightarrow> 0 \<le> round_dec n y \<and> round_dec n y \<le> 1"
proof -
  assume y: "0 \<le> y" "y \<le> 1"
  have "of_int 0 \<le> y * 10 ^ n" using y by simp
  then have l: "0 \<le> round_half_even (y * 10 ^ n)" by (rule round_half_even_mono_bounds(1))
  have "y * 10 ^ n \<le> of_int (10 ^ n)" using y by (simp add: mult_left_le_one_le mult.commute)
  then have u: "round_half_even (y * 10 ^ n) \<le> 10 ^ n" by (rule round_half_even_mono_bounds(2))
  have "real_of_int (round_half_even (y * 10 ^ n)) \<le> real_of_int (10 ^ n)"
    using u by (simp only: of_int_le_iff)
  then show ?thesis using l by (simp add: round_dec_def field_simps)
qed

lemma na_unidade_exato: "na_unidade exato"
  unfolding na_unidade_def
proof (intro conjI allI impI)
  fix a b :: real assume "0 \<le> a \<and> a \<le> b \<and> 0 < b"
  then show "0 \<le> fl_div exato a b" "fl_div exato a b \<le> 1"
    by (simp_all add: exato_def)
next
  fix x :: real assume "0 \<le> x \<and> x \<le> 1"
  then show "0 \<le> fl_round exato 4 x" "fl_round exato 4 x \<le> 1"
    using round_dec_unit [of x 4] by (simp_all add: exato_def)
qed (simp_all add: exato_def)

text \<open>
  C6. On a table with \<open>id_produto\<close> and numeric \<open>preco_total\<close> and \<open>score_z_risco\<close>
  (distinct labels, the two result columns not yet present) the stage returns, and every
  row receives \<open>indice_linha\<close> and \<open>demanda_linha\<close>: for a row with a product, half the
  normalized mean absolute z-score plus half the normalized spend of the product, rounded
  to 4 decimals, and the product's spend; 0 for both where the merge left them missing,
  so that neither column has a missing value. In an arithmetic whose rounding is monotone
  and keeps 0 and 1 (\<open>na_unidade\<close>), every \<open>indice_priorizacao\<close> lies in [0, 1]; for
  every product the normalized spend lies in [0, 1], and so does the normalized risk,
  which is missing only for a product without any z-score; and a metric whose maximum
  equals its minimum is normalized to 0 for every product.
\<close>

theorem calcular_indice_priorizacao_indice:
  assumes "all_in [''id_produto'', ''preco_total'', ''score_z_risco''] df"
    and "is_numeric_col df ''score_z_risco''" and "is_numeric_col df ''preco_total''"
    and "distinct (columns df)"
    and "''indice_priorizacao'' \<notin> set (columns df)" and "''demanda_valor'' \<notin> set (columns df)"
  shows "\<exists>out. calcular_indice_priorizacao fp df = Inr out \<and>
           col out ''indice_priorizacao'' = map (indice_linha fp (rows df)) (rows df) \<and>
           col out ''demanda_valor'' = map (demanda_linha fp (rows df)) (rows df) \<and>
           Null \<notin> set (col out ''indice_priorizacao'') \<and>
           Null \<notin> set (col out ''demanda_valor'') \<and>
           (na_unidade fp \<longrightarrow>
              (\<forall>c\<in>set (col out ''indice_priorizacao''). \<exists>v. c = Num v \<and> 0 \<le> v \<and> v \<le> 1) \<and>
              (\<forall>r\<in>set (rows df). r ''id_produto'' \<noteq> Null \<longrightarrow>
                 (\<exists>d. demanda_normalizada fp (rows df) (r ''id_produto'') = Some d \<and>
                      0 \<le> d \<and> d \<le> 1) \<and>
                 (case risco_normalizado fp (rows df) (r ''id_produto'') of
                    Some a \<Rightarrow> 0 \<le> a \<and> a \<le> 1
                  | None \<Rightarrow> risco_medio_spec fp (rows df) (r ''id_produto'') = None)) \<and>
              (max_skipna (riscos fp (rows df)) = min_skipna (riscos fp (rows df)) \<longrightarrow>
                 (\<forall>p. risco_normalizado fp (rows df) p = Some 0)) \<and>
              (max_skipna (demandas fp (rows df)) = min_skipna (demandas fp (rows df)) \<longrightarrow>
                 (\<forall>p. demanda_normalizada fp (rows df) p = Some 0)))"
proof -
  define out where "out = \<lparr>columns = columns df @ [''indice_priorizacao'', ''demanda_valor''],
                rows = map (\<lambda>r. r(''indice_priorizacao'' := indice_linha fp (rows df) r,
                                   ''demanda_valor'' := demanda_linha fp (rows df) r)) (rows df)\<rparr>"
  have o: "calcular_indice_priorizacao fp df = Inr out"
    unfolding out_def by (rule calcular_indice_priorizacao_rows [OF assms])
  have i: "col out ''indice_priorizacao'' = map (indice_linha fp (rows df)) (rows df)"
    and d: "col out ''demanda_valor'' = map (demanda_linha fp (rows df)) (rows df)"
    by (simp_all add: out_def col_def comp_def)
  have f: "\<And>c. fillna0 c \<noteq> Null"
  proof -
    fix c show "fillna0 c \<noteq> Null" by (cases c) simp_all
  qed
  have ni: "Null \<notin> set (col out ''indice_priorizacao'')"
    unfolding i using f [symmetric] by (auto simp add: indice_linha_def)
  have nd: "Null \<notin> set (col out ''demanda_valor'')"
    unfolding d by (auto simp add: demanda_linha_def)
  have u: "na_unidade fp \<longrightarrow>
              (\<forall>c\<in>set (col out ''indice_priorizacao''). \<exists>v. c = Num v \<and> 0 \<le> v \<and> v \<le> 1) \<and>
              (\<forall>r\<in>set (rows df). r ''id_produto'' \<noteq> Null \<longrightarrow>
                 (\<exists>d. demanda_normalizada fp (rows df) (r ''id_produto'') = Some d \<and>
                      0 \<le> d \<and> d \<le> 1) \<and>
                 (case risco_normalizado fp (rows df) (r ''id_produto'') of
                    Some a \<Rightarrow> 0 \<le> a \<and> a \<le> 1
                  | None \<Rightarrow> risco_medio_spec fp (rows df) (r ''id_produto'') = None)) \<and>
              (max_skipna (riscos fp (rows df)) = min_skipna (riscos fp (rows df)) \<longrightarrow>
                 (\<forall>p. risco_normalizado fp (rows df) p = Some 0)) \<and>
              (max_skipna (demandas fp (rows df)) = min_skipna (demandas fp (rows df)) \<longrightarrow>
                 (\<forall>p. demanda_normalizada fp (rows df) p = Some 0))"
  proof
    assume n: "na_unidade fp"
    then have z: "\<forall>x. fl_sub fp x x = 0" by (simp add: na_unidade_def)
    have ib: "\<forall>c\<in>set (col out ''indice_priorizacao''). \<exists>v. c = Num v \<and> 0 \<le> v \<and> v \<le> 1"
      unfolding i using indice_linha_unit [OF n] by auto
    have sc: "\<forall>r\<in>set (rows df). r ''id_produto'' \<noteq> Null \<longrightarrow>
                 (\<exists>d. demanda_normalizada fp (rows df) (r ''id_produto'') = Some d \<and>
                      0 \<le> d \<and> d \<le> 1) \<and>
                 (case risco_normalizado fp (rows df) (r ''id_produto'') of
                    Some a \<Rightarrow> 0 \<le> a \<and> a \<le> 1
                  | None \<Rightarrow> risco_medio_spec fp (rows df) (r ''id_produto'') = None)"
      using componentes_unit [OF n] by blast
    have e1: "max_skipna (riscos fp (rows df)) = min_skipna (riscos fp (rows df)) \<longrightarrow>
                (\<forall>p. risco_normalizado fp (rows df) p = Some 0)"
      by (simp add: risco_normalizado_def normalizar_spec_iguais [OF z])
    have e2: "max_skipna (demandas fp (rows df)) = min_skipna (demandas fp (rows df)) \<longrightarrow>
                (\<forall>p. demanda_normalizada fp (rows df) p = Some 0)"
      by (simp add: demanda_normalizada_def normalizar_spec_iguais [OF z])
    show "(\<forall>c\<in>set (col out ''indice_priorizacao''). \<exists>v. c = Num v \<and> 0 \<le> v \<and> v \<le> 1) \<and>
              (\<forall>r\<in>set (rows df). r ''id_produto'' \<noteq> Null \<longrightarrow>
                 (\<exists>d. demanda_normalizada fp (rows df) (r ''id_produto'') = Some d \<and>
                      0 \<le> d \<and> d \<le> 1) \<and>
                 (case risco_normalizado fp (rows df) (r ''id_produto'') of
                    Some a \<Rightarrow> 0 \<le> a \<and> a \<le> 1
                  | None \<Rightarrow> risco_medio_spec fp (rows df) (r ''id_produto'') = None)) \<and>
              (max_skipna (riscos fp (rows df)) = min_skipna (riscos fp (rows df)) \<longrightarrow>
                 (\<forall>p. risco_normalizado fp (rows df) p = Some 0)) \<and>
              (max_skipna (demandas fp (rows df)) = min_skipna (demandas fp (rows df)) \<longrightarrow>
                 (\<forall>p. demanda_normalizada fp (rows df) p = Some 0))"
      using ib sc e1 e2 by blast
  qed
  show ?thesis
    using o i d ni nd u by blast
qed

lemma exato_simps:
  "fl_add exato = (+)" "fl_sub exato = (-)" "fl_mul exato = (*)" "fl_div exato = (/)"
  "fl_round exato = round_dec" "fl_group_sum exato = sum_list"
  "fl_group_std exato = desvio_amostral"
  "fl_group_mean exato = (\<lambda>xs. sum_list xs / real (length xs))"
  "fl_mean exato = (\<lambda>xs. sum_list xs / real (length xs))"
  by (simp_all add: exato_def)

lemma ex_prio_keys:
  "group_keys [''id_produto''] (rows ex_prio) =
     [[Str ''Pro00001''], [Str ''Pro00002''], [Str ''Pro00003'']]"
  by (simp add: group_keys_def ex_prio_def mk_row_def)

lemma ex_prio_medio:
  "risco_medio_spec exato (rows ex_prio) (Str ''Pro00001'') = Some 2"
  "risco_medio_spec exato (rows ex_prio) (Str ''Pro00002'') = Some 0"
  "risco_medio_spec exato (rows ex_prio) (Str ''Pro00003'') = Some 1"
  by (simp_all add: risco_medio_spec_def ex_prio_def mk_row_def List.map_filter_simps exato_simps)

lemma ex_prio_demanda:
  "demanda_spec exato (rows ex_prio) (Str ''Pro00001'') = 400"
  "demanda_spec exato (rows ex_prio) (Str ''Pro00002'') = 50"
  "demanda_spec exato (rows ex_prio) (Str ''Pro00003'') = 150"
  by (simp_all add: demanda_spec_def ex_prio_def mk_row_def List.map_filter_simps exato_simps)

lemma ex_prio_listas:
  "riscos exato (rows ex_prio) = [2, 0, 1]" "demandas exato (rows ex_prio) = [400, 50, 150]"
  by (simp_all add: riscos_def demandas_def ex_prio_keys ex_prio_medio ex_prio_demanda
      List.map_filter_simps)

lemma ex_prio_normalizados:
  "risco_normalizado exato (rows ex_prio) (Str ''Pro00001'') = Some 1"
  "risco_normalizado exato (rows ex_prio) (Str ''Pro00002'') = Some 0"
  "risco_normalizado exato (rows ex_prio) (Str ''Pro00003'') = Some (1 / 2)"
  "demanda_normalizada exato (rows ex_prio) (Str ''Pro00001'') = Some 1"
  "demanda_normalizada exato (rows ex_prio) (Str ''Pro00002'') = Some 0"
  "demanda_normalizada exato (rows ex_prio) (Str ''Pro00003'') = Some (2 / 7)"
  by (simp_all add: risco_normalizado_def demanda_normalizada_def normalizar_spec_def
      ex_prio_listas ex_prio_medio ex_prio_demanda max_skipna_def min_skipna_def exato_simps)

lemma round_dec_3929: "round_dec 4 (1 / 2 * (1 / 2) + 2 / 7 * (1 / 2)) = 3929 / 10000"
proof -
  have "round_half_even ((1 / 2 * (1 / 2) + 2 / 7 * (1 / 2)) * 10 ^ 4) = 3929"
    by (rule round_half_even_near) simp_all
  then show ?thesis by (simp add: round_dec_def)
qed

lemma round_dec_one: "round_dec n 1 = 1"
  using round_half_even_of_int [of "10 ^ n"] by (simp add: round_dec_def)

lemma ex_prio_indice:
  "indice_spec exato (rows ex_prio) (Str ''Pro00001'') = Num 1"
  "indice_spec exato (rows ex_prio) (Str ''Pro00002'') = Num 0"
  "indice_spec exato (rows ex_prio) (Str ''Pro00003'') = Num (3929 / 10000)"
  using round_dec_3929
  by (simp_all add: indice_spec_def ex_prio_normalizados round_dec_one exato_simps)

lemma ex_prio_produtos:
  "map (\<lambda>r. r ''id_produto'') (rows ex_prio) =
     [Str ''Pro00001'', Str ''Pro00001'', Str ''Pro00002'', Str ''Pro00003'', Null]"
  by (simp add: ex_prio_def mk_row_def)

lemma ex_prio_linhas:
  "map (indice_linha exato (rows ex_prio)) (rows ex_prio) =
     [Num 1, Num 1, Num 0, Num (3929 / 10000), Num 0]"
  "map (demanda_linha exato (rows ex_prio)) (rows ex_prio) =
     [Num 400, Num 400, Num 50, Num 150, Num 0]"
proof -
  have i: "indice_linha exato (rows ex_prio) =
             (\<lambda>p. if p = Null then Num 0 else fillna0 (indice_spec exato (rows ex_prio) p)) \<circ>
             (\<lambda>r. r ''id_produto'')"
    and d: "demanda_linha exato (rows ex_prio) =
             (\<lambda>p. if p = Null then Num 0 else Num (demanda_spec exato (rows ex_prio) p)) \<circ>
             (\<lambda>r. r ''id_produto'')"
    by (simp_all add: fun_eq_iff indice_linha_def demanda_linha_def)
  show "map (indice_linha exato (rows ex_prio)) (rows ex_prio) =
     [Num 1, Num 1, Num 0, Num (3929 / 10000), Num 0]"
    unfolding i map_map [symmetric] ex_prio_produtos by (simp add: ex_prio_indice)
  show "map (demanda_linha exato (rows ex_prio)) (rows ex_prio) =
     [Num 400, Num 400, Num 50, Num 150, Num 0]"
    unfolding d map_map [symmetric] ex_prio_produtos by (simp add: ex_prio_demanda)
qed

lemma ex_prio_unico_listas:
  "riscos exato (rows ex_prio_unico) = [3 / 2]" "demandas exato (rows ex_prio_unico) = [400]"
  by (simp_all add: riscos_def demandas_def group_keys_def risco_medio_spec_def
      demanda_spec_def ex_prio_unico_def mk_row_def List.map_filter_simps exato_simps)

theorem calcular_indice_priorizacao_indice_witness:
  "all_in [''id_produto'', ''preco_total'', ''score_z_risco''] ex_prio \<and>
   is_numeric_col ex_prio ''score_z_risco'' \<and> is_numeric_col ex_prio ''preco_total'' \<and>
   distinct (columns ex_prio) \<and>
   ''indice_priorizacao'' \<notin> set (columns ex_prio) \<and> ''demanda_valor'' \<notin> set (columns ex_prio) \<and>
   (\<exists>out. calcular_indice_priorizacao exato ex_prio = Inr out \<and>
      col out ''indice_priorizacao'' = [Num 1, Num 1, Num 0, Num (3929 / 10000), Num 0] \<and>
      col out ''demanda_valor'' = [Num 400, Num 400, Num 50, Num 150, Num 0]) \<and>
   rows ex_prio ! 3 \<in> set (rows ex_prio) \<and>
   (rows ex_prio ! 3) ''id_produto'' = Str ''Pro00003'' \<and>
   risco_normalizado exato (rows ex_prio) (Str ''Pro00003'') = Some (1 / 2) \<and>
   demanda_normalizada exato (rows ex_prio) (Str ''Pro00003'') = Some (2 / 7) \<and>
   all_in [''id_produto'', ''preco_total'', ''score_z_risco''] ex_prio_unico \<and>
   is_numeric_col ex_prio_unico ''score_z_risco'' \<and>
   is_numeric_col ex_prio_unico ''preco_total'' \<and> distinct (columns ex_prio_unico) \<and>
   ''indice_priorizacao'' \<notin> set (columns ex_prio_unico) \<and>
   ''demanda_valor'' \<notin> set (columns ex_prio_unico) \<and>
   max_skipna (riscos exato (rows ex_prio_unico)) = min_skipna (riscos exato (rows ex_prio_unico)) \<and>
   max_skipna (demandas exato (rows ex_prio_unico)) =
     min_skipna (demandas exato (rows ex_prio_unico)) \<and>
   (\<forall>p. risco_normalizado exato (rows ex_prio_unico) p = Some 0) \<and>
   (\<forall>p. demanda_normalizada exato (rows ex_prio_unico) p = Some 0)"
proof -
  have h: "all_in [''id_produto'', ''preco_total'', ''score_z_risco''] ex_prio"
    "is_numeric_col ex_prio ''score_z_risco''" "is_numeric_col ex_prio ''preco_total''"
    "distinct (columns ex_prio)"
    "''indice_priorizacao'' \<notin> set (columns ex_prio)" "''demanda_valor'' \<notin> set (columns ex_prio)"
    by (simp_all add: ex_prio_def all_in_def is_numeric_col_def mk_row_def)
  have u: "all_in [''id_produto'', ''preco_total'', ''score_z_risco''] ex_prio_unico"
    "is_numeric_col ex_prio_unico ''score_z_risco''" "is_numeric_col ex_prio_unico ''preco_total''"
    "distinct (columns ex_prio_unico)"
    "''indice_priorizacao'' \<notin> set (columns ex_prio_unico)"
    "''demanda_valor'' \<notin> set (columns ex_prio_unico)"
    by (simp_all add: ex_prio_unico_def all_in_def is_numeric_col_def mk_row_def)
  have e: "max_skipna (riscos exato (rows ex_prio_unico)) =
             min_skipna (riscos exato (rows ex_prio_unico))"
    "max_skipna (demandas exato (rows ex_prio_unico)) =
       min_skipna (demandas exato (rows ex_prio_unico))"
    by (simp_all add: ex_prio_unico_listas max_skipna_def min_skipna_def)
  have m: "rows ex_prio ! 3 \<in> set (rows ex_prio)"
    "(rows ex_prio ! 3) ''id_produto'' = Str ''Pro00003''"
    by (simp_all add: ex_prio_def mk_row_def)
  obtain out where o: "calcular_indice_priorizacao exato ex_prio = Inr out"
    "col out ''indice_priorizacao'' = map (indice_linha exato (rows ex_prio)) (rows ex_prio)"
    "col out ''demanda_valor'' = map (demanda_linha exato (rows ex_prio)) (rows ex_prio)"
    and s: "na_unidade exato \<longrightarrow>
             (\<forall>r\<in>set (rows ex_prio). r ''id_produto'' \<noteq> Null \<longrightarrow>
                 (\<exists>d. demanda_normalizada exato (rows ex_prio) (r ''id_produto'') = Some d \<and>
                      0 \<le> d \<and> d \<le> 1) \<and>
                 (case risco_normalizado exato (rows ex_prio) (r ''id_produto'') of
                    Some a \<Rightarrow> 0 \<le> a \<and> a \<le> 1
                  | None \<Rightarrow> risco_medio_spec exato (rows ex_prio) (r ''id_produto'') = None))"
    using calcular_indice_priorizacao_indice [OF h, of exato] by blast
  have b: "\<exists>d. demanda_normalizada exato (rows ex_prio) (Str ''Pro00003'') = Some d \<and>
              0 \<le> d \<and> d \<le> 1"
    using s na_unidade_exato m by fastforce
  have z: "\<forall>p. risco_normalizado exato (rows ex_prio_unico) p = Some 0"
    "\<forall>p. demanda_normalizada exato (rows ex_prio_unico) p = Some 0"
    using calcular_indice_priorizacao_indice [OF u, of exato] na_unidade_exato e by blast+
  show ?thesis
    using h u e z o m ex_prio_normalizados(3,6) unfolding ex_prio_linhas by blast
qed

subsection \<open>The opportunity radar\<close>

lemma linha_valida_positivo:
  "linha_valida r = (positivo (r ''preco_total'') \<and> positivo (r ''qtd_itens_comprados''))"
  by (cases "r ''preco_total''"; cases "r ''qtd_itens_comprados''")
    (simp_all add: linha_valida_def)

lemma filter_linha_valida: "filter linha_valida rs = validas rs"
  by (simp add: validas_def linha_valida_positivo [abs_def])

lemma mediana_spec_eq: "mediana_spec fp xs = median_list fp xs"
proof (cases "xs = []")
  case True
  then show ?thesis by (simp add: mediana_spec_def median_list_def)
next
  case False
  define s where "s = sort xs"
  define h where "h = length s div 2"
  have "length s = length xs" by (simp add: s_def)
  then have n: "s \<noteq> []" "0 < length s" using False by auto
  have hl: "h < length s" using n by (simp add: h_def)
  have a: "hd (drop h s) = s ! h"
    using hl by (simp add: hd_drop_conv_nth)
  have b: "even (length s) \<Longrightarrow> last (take h s) = s ! (h - 1)"
  proof -
    assume e: "even (length s)"
    have "length s \<noteq> 1" using e by auto
    then have "2 \<le> length s" using n(2) by linarith
    then have "0 < h" unfolding h_def by simp
    then have "take h s \<noteq> []" using n by auto
    then have "last (take h s) = take h s ! (length (take h s) - 1)"
      by (rule last_conv_nth)
    also have "\<dots> = s ! (h - 1)" using hl \<open>0 < h\<close> by simp
    finally show ?thesis .
  qed
  show ?thesis
    unfolding mediana_spec_def median_list_def Let_def s_def [symmetric] h_def [symmetric]
    using n a b by (auto simp add: h_def)
qed

lemma economia_of_spec:
  "b = Null \<or> (\<exists>x. b = Num x) \<Longrightarrow>
   economia_of fp (r(''PMP_Mediano_Dinamico'' := b)) = economia_spec fp r b"
  by (cases "r ''preco_unitario''"; cases "r ''qtd_itens_comprados''"; cases b)
    (simp_all add: economia_of_def economia_spec_def cell_op_def)

lemma desvio_of_spec:
  "b = Null \<or> (\<exists>x. b = Num x) \<Longrightarrow>
   desvio_of fp (r(''PMP_Mediano_Dinamico'' := b, ''Economia_por_Linha'' := e)) =
     desvio_oportunidade_spec fp r b"
  by (cases "r ''preco_unitario''"; cases b)
    (simp_all add: desvio_of_def desvio_oportunidade_spec_def cell_op_def)

lemma benchmark_spec_num: "benchmark_spec fp vs r = Null \<or> (\<exists>x. benchmark_spec fp vs r = Num x)"
  by (cases "mediana_spec fp (List.map_filter (\<lambda>r'. num (r' ''preco_unitario'')) (grupo_radar vs r))")
    (simp_all add: benchmark_spec_def)

lemma dataframe_rows_update: "df\<lparr>rows := rs\<rparr> = \<lparr>columns = columns df, rows = rs\<rparr>"
  by (cases df) simp

lemma gerar_mini_fato_radar_enriquecida_rows:
  assumes cols: "all_in required_cols df"
    and nt: "is_numeric_col df ''preco_total''" and nq: "is_numeric_col df ''qtd_itens_comprados''"
    and nu: "is_numeric_col df ''preco_unitario''"
    and dc: "distinct (columns df)"
    and nb: "''PMP_Mediano_Dinamico'' \<notin> set (columns df)"
    and ne: "validas (rows df) \<noteq> []"
  shows "gerar_mini_fato_radar_enriquecida fp df =
           Inr \<lparr>columns = colunas_radar,
                rows = map (radar_linha fp (validas (rows df))) (validas (rows df))\<rparr>"
proof -
  define vs where "vs = validas (rows df)"
  define cs where "cs = columns df"
  define df_limpo where "df_limpo = \<lparr>columns = cs, rows = vs\<rparr>"
  define K where "K = group_keys contexto_benchmark vs"
  define aggs where "aggs = [(''PMP_Mediano_Dinamico'', ''preco_unitario'', agg_median fp)]"
  define G where "G = group_row contexto_benchmark aggs vs"
  define M where "M = (\<lambda>r::row. r(''PMP_Mediano_Dinamico'' := benchmark_spec fp vs r))"
  define M1 where "M1 = (\<lambda>r. (M r)(''Economia_por_Linha'' := economia_spec fp r (benchmark_spec fp vs r)))"
  define M2 where "M2 = (\<lambda>r. (M1 r)(''Desvio_%_Oportunidade'' :=
                                desvio_oportunidade_spec fp r (benchmark_spec fp vs r)))"
  have lim: "df\<lparr>rows := filter linha_valida (rows df)\<rparr> = df_limpo"
    by (simp add: dataframe_rows_update filter_linha_valida df_limpo_def vs_def cs_def)
  have incs: "''id_produto'' \<in> set cs" "''id_instituicao'' \<in> set cs" "''id_tempo'' \<in> set cs"
    "''id_pedido'' \<in> set cs" "''id_fornecedor'' \<in> set cs" "''id_fabricante'' \<in> set cs"
    "''preco_unitario'' \<in> set cs" "''preco_total'' \<in> set cs" "''qtd_itens_comprados'' \<in> set cs"
    using cols by (simp_all add: all_in_def required_cols_def contexto_benchmark_def cs_def)
  have a1: "all_in (contexto_benchmark @ map (\<lambda>(out, c, agg). c) aggs) df_limpo"
    and a3: "all_in contexto_benchmark df_limpo"
    using incs by (simp_all add: all_in_def aggs_def contexto_benchmark_def df_limpo_def)
  have nul: "is_numeric_col df_limpo ''preco_unitario''"
    using nu by (auto simp add: is_numeric_col_def list_all_iff df_limpo_def vs_def validas_def)
  have A: "groupby_agg contexto_benchmark aggs df_limpo =
             Inr \<lparr>columns = contexto_benchmark @ [''PMP_Mediano_Dinamico''], rows = map G K\<rparr>"
    unfolding groupby_agg_ok [OF a1] by (simp add: G_def K_def aggs_def df_limpo_def)
  have kk: "\<And>k. k \<in> set K \<longleftrightarrow> Null \<notin> set k \<and> (\<exists>r\<in>set vs. k = map r contexto_benchmark)"
    unfolding K_def set_group_keys by auto
  have key: "\<forall>k\<in>set K. map (G k) contexto_benchmark = k"
  proof
    fix k assume "k \<in> set K"
    then obtain r where "k = map r contexto_benchmark" using kk by blast
    then show "map (G k) contexto_benchmark = k"
      by (simp add: G_def group_row_def aggs_def contexto_benchmark_def mk_row_def)
  qed
  have gv: "\<And>r. G (map r contexto_benchmark) ''PMP_Mediano_Dinamico'' =
                 of_num (mediana_spec fp (List.map_filter (\<lambda>r'. num (r' ''preco_unitario''))
                           (grupo_radar vs r)))"
    by (simp add: G_def group_row_def aggs_def contexto_benchmark_def mk_row_def agg_median_def
        mediana_spec_eq map_filter_map comp_def grupo_radar_def)
  have E0: "merge_left df_limpo
              \<lparr>columns = contexto_benchmark @ [''PMP_Mediano_Dinamico''], rows = map G K\<rparr>
              contexto_benchmark =
            Inr \<lparr>columns = cs @ [''PMP_Mediano_Dinamico''],
                 rows = map (\<lambda>r. r(''PMP_Mediano_Dinamico'' :=
                                     (if map r contexto_benchmark \<in> set K
                                      then G (map r contexto_benchmark) ''PMP_Mediano_Dinamico''
                                      else Null))) vs\<rparr>"
    using merge_left_keyed [OF a3, of
        "\<lparr>columns = contexto_benchmark @ [''PMP_Mediano_Dinamico''], rows = map G K\<rparr>"
        "''PMP_Mediano_Dinamico''" G K] dc nb key
    by (simp add: df_limpo_def cs_def K_def distinct_group_keys contexto_benchmark_def)
  have E1: "map (\<lambda>r. r(''PMP_Mediano_Dinamico'' :=
                                     (if map r contexto_benchmark \<in> set K
                                      then G (map r contexto_benchmark) ''PMP_Mediano_Dinamico''
                                      else Null))) vs = map M vs"
  proof (rule map_cong [OF refl])
    fix r assume r: "r \<in> set vs"
    have "map r contexto_benchmark \<in> set K \<longleftrightarrow>
            \<not> (r ''id_produto'' = Null \<or> r ''id_instituicao'' = Null \<or> r ''id_tempo'' = Null)"
      unfolding kk using r by (auto simp add: contexto_benchmark_def)
    then show "r(''PMP_Mediano_Dinamico'' :=
                 (if map r contexto_benchmark \<in> set K
                  then G (map r contexto_benchmark) ''PMP_Mediano_Dinamico'' else Null)) = M r"
      by (simp add: M_def gv benchmark_spec_def)
  qed
  define m where "m = \<lparr>columns = cs @ [''PMP_Mediano_Dinamico''], rows = map M vs\<rparr>"
  have E: "merge_left df_limpo
              \<lparr>columns = contexto_benchmark @ [''PMP_Mediano_Dinamico''], rows = map G K\<rparr>
              contexto_benchmark = Inr m"
    unfolding E0 E1 m_def ..
  define c1 where "c1 = (if ''Economia_por_Linha'' \<in> set (cs @ [''PMP_Mediano_Dinamico''])
                         then cs @ [''PMP_Mediano_Dinamico'']
                         else (cs @ [''PMP_Mediano_Dinamico'']) @ [''Economia_por_Linha''])"
  define c2 where "c2 = (if ''Desvio_%_Oportunidade'' \<in> set c1 then c1
                         else c1 @ [''Desvio_%_Oportunidade''])"
  have F1: "set_column ''Economia_por_Linha'' (economia_of fp) m = \<lparr>columns = c1, rows = map M1 vs\<rparr>"
    unfolding m_def set_column_mk
    by (simp add: c1_def M1_def M_def economia_of_spec [OF benchmark_spec_num])
  have F2: "set_column ''Desvio_%_Oportunidade'' (desvio_of fp) \<lparr>columns = c1, rows = map M1 vs\<rparr> =
            \<lparr>columns = c2, rows = map M2 vs\<rparr>"
    unfolding set_column_mk
    by (simp add: c2_def M2_def M1_def M_def desvio_of_spec [OF benchmark_spec_num])
  have in2: "list_all (\<lambda>c. c \<in> set c2)
               [''id_pedido'', ''id_produto'', ''id_instituicao'', ''id_fabricante'',
                ''id_fornecedor'', ''id_tempo'', ''preco_unitario'', ''PMP_Mediano_Dinamico'',
                ''Desvio_%_Oportunidade'', ''Economia_por_Linha'']"
    using incs by (simp add: c2_def c1_def)
  have S: "select_cols [''id_pedido'', ''id_produto'', ''id_instituicao'', ''id_fabricante'',
                ''id_fornecedor'', ''id_tempo'', ''preco_unitario'', ''PMP_Mediano_Dinamico'',
                ''Desvio_%_Oportunidade'', ''Economia_por_Linha'']
                \<lparr>columns = c2, rows = map M2 vs\<rparr> =
           Inr \<lparr>columns = [''id_pedido'', ''id_produto'', ''id_instituicao'', ''id_fabricante'',
                ''id_fornecedor'', ''id_tempo'', ''preco_unitario'', ''PMP_Mediano_Dinamico'',
                ''Desvio_%_Oportunidade'', ''Economia_por_Linha''], rows = map M2 vs\<rparr>"
    by (rule select_cols_mk [OF in2])
  have R: "rename_col ''PMP_Mediano_Dinamico'' ''PMP_Benchmark_Referencia''
             (rename_col ''preco_unitario'' ''PMP_Pago_Linha''
                \<lparr>columns = [''id_pedido'', ''id_produto'', ''id_instituicao'', ''id_fabricante'',
                ''id_fornecedor'', ''id_tempo'', ''preco_unitario'', ''PMP_Mediano_Dinamico'',
                ''Desvio_%_Oportunidade'', ''Economia_por_Linha''], rows = map M2 vs\<rparr>) =
           \<lparr>columns = colunas_radar, rows = map (radar_linha fp vs) vs\<rparr>"
    by (simp add: rename_col_mk colunas_radar_def radar_linha_def M2_def M1_def M_def
        fun_upd_twist)
  have pm: "''PMP_Mediano_Dinamico'' \<in> set (columns m)"
    by (simp add: m_def)
  have "vs \<noteq> []" using ne by (simp add: vs_def)
  then have "gerar_mini_fato_radar_enriquecida fp df =
               Inr (rename_col ''PMP_Mediano_Dinamico'' ''PMP_Benchmark_Referencia''
             (rename_col ''preco_unitario'' ''PMP_Pago_Linha''
                \<lparr>columns = [''id_pedido'', ''id_produto'', ''id_instituicao'', ''id_fabricante'',
                ''id_fornecedor'', ''id_tempo'', ''preco_unitario'', ''PMP_Mediano_Dinamico'',
                ''Desvio_%_Oportunidade'', ''Economia_por_Linha''], rows = map M2 vs\<rparr>))"
    unfolding gerar_mini_fato_radar_enriquecida_def Let_def lim aggs_def [symmetric] A
    using cols nt nq nul pm
    by (simp add: bind_err_def E F1 F2 S) (simp add: df_limpo_def)
  then have "gerar_mini_fato_radar_enriquecida fp df =
               Inr \<lparr>columns = colunas_radar, rows = map (radar_linha fp vs) vs\<rparr>"
    by (simp only: R)
  then show ?thesis
    by (simp only: vs_def)
qed

lemma validas_sub: "r \<in> set (validas rs) \<Longrightarrow>
  r \<in> set rs \<and> positivo (r ''preco_total'') \<and> positivo (r ''qtd_itens_comprados'')"
  by (simp add: validas_def)

text \<open>
  C8. On a fact table with the nine required columns (numeric prices and quantity,
  distinct labels, no benchmark column yet) the stage returns one radar row for each fact
  row whose total price and quantity are both strictly positive, in their order, and no
  other row. Each carries the unit price paid, the benchmark, which is the median unit
  price of the valid rows with the same product, institution and time period (missing if
  one of the three is missing), \<open>Economia_por_Linha = (unit price - benchmark) * quantity\<close>
  and \<open>Desvio_%_Oportunidade = (unit price - benchmark) / benchmark\<close> if the benchmark is
  strictly positive, else 0.
\<close>

theorem gerar_mini_fato_radar_enriquecida_radar:
  assumes "all_in required_cols df"
    and "is_numeric_col df ''preco_total''" and "is_numeric_col df ''qtd_itens_comprados''"
    and "is_numeric_col df ''preco_unitario''"
    and "distinct (columns df)"
    and "''PMP_Mediano_Dinamico'' \<notin> set (columns df)"
  shows "\<exists>out. gerar_mini_fato_radar_enriquecida fp df = Inr out \<and>
           rows out = map (radar_linha fp (validas (rows df))) (validas (rows df)) \<and>
           (validas (rows df) \<noteq> [] \<longrightarrow> columns out = colunas_radar) \<and>
           (\<forall>r\<in>set (validas (rows df)).
              r \<in> set (rows df) \<and> positivo (r ''preco_total'') \<and>
              positivo (r ''qtd_itens_comprados'')) \<and>
           col out ''PMP_Pago_Linha'' = map (\<lambda>r. r ''preco_unitario'') (validas (rows df)) \<and>
           col out ''PMP_Benchmark_Referencia'' =
             map (benchmark_spec fp (validas (rows df))) (validas (rows df)) \<and>
           col out ''Economia_por_Linha'' =
             map (\<lambda>r. economia_spec fp r (benchmark_spec fp (validas (rows df)) r))
               (validas (rows df)) \<and>
           col out ''Desvio_%_Oportunidade'' =
             map (\<lambda>r. desvio_oportunidade_spec fp r (benchmark_spec fp (validas (rows df)) r))
               (validas (rows df))"
proof -
  define vs where "vs = validas (rows df)"
  define out where
    "out = (if vs = [] then empty_frame
            else \<lparr>columns = colunas_radar, rows = map (radar_linha fp vs) vs\<rparr>)"
  have o: "gerar_mini_fato_radar_enriquecida fp df = Inr out"
  proof (cases "vs = []")
    case True
    then have "filter linha_valida (rows df) = []"
      by (simp add: filter_linha_valida vs_def)
    then show ?thesis
      using assms(1-3) True
      by (simp add: gerar_mini_fato_radar_enriquecida_def Let_def out_def)
  next
    case False
    then show ?thesis
      using gerar_mini_fato_radar_enriquecida_rows [OF assms, of fp]
      by (simp add: out_def vs_def)
  qed
  have r: "rows out = map (radar_linha fp vs) vs"
    by (simp add: out_def empty_frame_def)
  have c: "vs \<noteq> [] \<longrightarrow> columns out = colunas_radar"
    by (simp add: out_def)
  have v: "\<forall>r\<in>set vs. r \<in> set (rows df) \<and> positivo (r ''preco_total'') \<and>
              positivo (r ''qtd_itens_comprados'')"
    unfolding vs_def using validas_sub by blast
  have c1: "col out ''PMP_Pago_Linha'' = map (\<lambda>r. r ''preco_unitario'') vs"
    and c2: "col out ''PMP_Benchmark_Referencia'' = map (benchmark_spec fp vs) vs"
    and c3: "col out ''Economia_por_Linha'' =
               map (\<lambda>r. economia_spec fp r (benchmark_spec fp vs r)) vs"
    and c4: "col out ''Desvio_%_Oportunidade'' =
               map (\<lambda>r. desvio_oportunidade_spec fp r (benchmark_spec fp vs r)) vs"
    by (simp_all add: col_def r radar_linha_def)
  show ?thesis
    using o r c v c1 c2 c3 c4 unfolding vs_def by blast
qed

lemma ex_radar_validas:
  "validas (rows ex_radar) =
     [rows ex_radar ! 0, rows ex_radar ! 1, rows ex_radar ! 3, rows ex_radar ! 4]"
  by (simp add: validas_def ex_radar_def mk_row_def)

lemma exato_radar:
  "fl_add exato = (+)" "fl_sub exato = (-)" "fl_mul exato = (*)" "fl_div exato = (/)"
  by (simp_all add: exato_def)

lemma ex_radar_benchmark:
  "map (benchmark_spec exato (validas (rows ex_radar))) (validas (rows ex_radar)) =
     [Num 20, Num 20, Num 7, Null]"
  unfolding ex_radar_validas
  by (simp add: benchmark_spec_def grupo_radar_def mediana_spec_def ex_radar_def mk_row_def
      List.map_filter_simps exato_radar Let_def)

lemma ex_radar_colunas:
  "map (\<lambda>r. r ''id_pedido'') (validas (rows ex_radar)) = [Str ''a'', Str ''b'', Str ''d'', Str ''e'']"
  "map (\<lambda>r. r ''preco_unitario'') (validas (rows ex_radar)) = [Num 10, Num 30, Num 7, Num 4]"
  "map (\<lambda>r. r ''qtd_itens_comprados'') (validas (rows ex_radar)) = [Num 2, Num 3, Num 1, Num 2]"
  unfolding ex_radar_validas by (simp_all add: ex_radar_def mk_row_def)

lemma map2_cols:
  "map (\<lambda>r. f (r a) (r b) (g r)) xs = map (\<lambda>(x, y, z). f x y z) (zip (map (\<lambda>r. r a) xs) (zip (map (\<lambda>r. r b) xs) (map g xs)))"
  by (induction xs) simp_all

lemma ex_radar_economia:
  "map (\<lambda>r. economia_spec exato r (benchmark_spec exato (validas (rows ex_radar)) r))
     (validas (rows ex_radar)) = [Num (- 20), Num 30, Num 0, Null]"
proof -
  have "map (\<lambda>r. economia_spec exato r (benchmark_spec exato (validas (rows ex_radar)) r))
         (validas (rows ex_radar)) =
        map (\<lambda>(p, q, b). case (p, b, q) of
                  (Num p, Num m, Num q) \<Rightarrow> Num (fl_mul exato (fl_sub exato p m) q)
                | _ \<Rightarrow> Null)
          (zip (map (\<lambda>r. r ''preco_unitario'') (validas (rows ex_radar)))
             (zip (map (\<lambda>r. r ''qtd_itens_comprados'') (validas (rows ex_radar)))
                (map (benchmark_spec exato (validas (rows ex_radar))) (validas (rows ex_radar)))))"
    unfolding economia_spec_def
    by (rule map2_cols [of "\<lambda>p q b. case (p, b, q) of
                  (Num p, Num m, Num q) \<Rightarrow> Num (fl_mul exato (fl_sub exato p m) q)
                | _ \<Rightarrow> Null"])
  then show ?thesis
    unfolding ex_radar_colunas ex_radar_benchmark by (simp add: exato_radar)
qed

lemma map1_cols:
  "map (\<lambda>r. f (r a) (g r)) xs = map (\<lambda>(x, z). f x z) (zip (map (\<lambda>r. r a) xs) (map g xs))"
  by (induction xs) simp_all

lemma ex_radar_desvio:
  "map (\<lambda>r. desvio_oportunidade_spec exato r (benchmark_spec exato (validas (rows ex_radar)) r))
     (validas (rows ex_radar)) = [Num (- 1 / 2), Num (1 / 2), Num 0, Num 0]"
proof -
  have "map (\<lambda>r. desvio_oportunidade_spec exato r (benchmark_spec exato (validas (rows ex_radar)) r))
         (validas (rows ex_radar)) =
        map (\<lambda>(p, b). case b of
                Num m \<Rightarrow>
                  if m > 0
                  then (case p of
                          Num p \<Rightarrow> Num (fl_div exato (fl_sub exato p m) m)
                        | _ \<Rightarrow> Null)
                  else Num 0
              | _ \<Rightarrow> Num 0)
          (zip (map (\<lambda>r. r ''preco_unitario'') (validas (rows ex_radar)))
             (map (benchmark_spec exato (validas (rows ex_radar))) (validas (rows ex_radar))))"
    unfolding desvio_oportunidade_spec_def
    by (rule map1_cols [of "\<lambda>p b. case b of
                Num m \<Rightarrow>
                  if m > 0
                  then (case p of
                          Num p \<Rightarrow> Num (fl_div exato (fl_sub exato p m) m)
                        | _ \<Rightarrow> Null)
                  else Num 0
              | _ \<Rightarrow> Num 0"])
  then show ?thesis
    unfolding ex_radar_colunas ex_radar_benchmark by (simp add: exato_radar)
qed

theorem gerar_mini_fato_radar_enriquecida_radar_witness:
  "all_in required_cols ex_radar \<and> is_numeric_col ex_radar ''preco_total'' \<and>
   is_numeric_col ex_radar ''qtd_itens_comprados'' \<and> is_numeric_col ex_radar ''preco_unitario'' \<and>
   distinct (columns ex_radar) \<and> ''PMP_Mediano_Dinamico'' \<notin> set (columns ex_radar) \<and>
   validas (rows ex_radar) \<noteq> [] \<and>
   map (\<lambda>r. r ''id_pedido'') (validas (rows ex_radar)) = [Str ''a'', Str ''b'', Str ''d'', Str ''e''] \<and>
   (\<exists>out. gerar_mini_fato_radar_enriquecida exato ex_radar = Inr out \<and>
      columns out = colunas_radar \<and>
      col out ''id_pedido'' = [Str ''a'', Str ''b'', Str ''d'', Str ''e''] \<and>
      col out ''PMP_Pago_Linha'' = [Num 10, Num 30, Num 7, Num 4] \<and>
      col out ''PMP_Benchmark_Referencia'' = [Num 20, Num 20, Num 7, Null] \<and>
      col out ''Economia_por_Linha'' = [Num (- 20), Num 30, Num 0, Null] \<and>
      col out ''Desvio_%_Oportunidade'' = [Num (- 1 / 2), Num (1 / 2), Num 0, Num 0])"
proof -
  have h: "all_in required_cols ex_radar" "is_numeric_col ex_radar ''preco_total''"
    "is_numeric_col ex_radar ''qtd_itens_comprados''" "is_numeric_col ex_radar ''preco_unitario''"
    "distinct (columns ex_radar)" "''PMP_Mediano_Dinamico'' \<notin> set (columns ex_radar)"
    by (simp_all add: ex_radar_def all_in_def required_cols_def contexto_benchmark_def
        is_numeric_col_def mk_row_def)
  have n: "validas (rows ex_radar) \<noteq> []"
    unfolding ex_radar_validas by simp
  obtain out where o: "gerar_mini_fato_radar_enriquecida exato ex_radar = Inr out"
    and r: "rows out = map (radar_linha exato (validas (rows ex_radar))) (validas (rows ex_radar))"
    and c: "validas (rows ex_radar) \<noteq> [] \<longrightarrow> columns out = colunas_radar"
    and c1: "col out ''PMP_Pago_Linha'' = map (\<lambda>r. r ''preco_unitario'') (validas (rows ex_radar))"
    and c2: "col out ''PMP_Benchmark_Referencia'' =
             map (benchmark_spec exato (validas (rows ex_radar))) (validas (rows ex_radar))"
    and c3: "col out ''Economia_por_Linha'' =
             map (\<lambda>r. economia_spec exato r (benchmark_spec exato (validas (rows ex_radar)) r))
               (validas (rows ex_radar))"
    and c4: "col out ''Desvio_%_Oportunidade'' =
             map (\<lambda>r. desvio_oportunidade_spec exato r (benchmark_spec exato (validas (rows ex_radar)) r))
               (validas (rows ex_radar))"
    using gerar_mini_fato_radar_enriquecida_radar [OF h, of exato] by blast
  have c0: "col out ''id_pedido'' = map (\<lambda>r. r ''id_pedido'') (validas (rows ex_radar))"
    by (simp add: col_def r radar_linha_def)
  show ?thesis
    using h n o c c0 c1 c2 c3 c4
    unfolding ex_radar_colunas ex_radar_benchmark ex_radar_economia ex_radar_desvio
    by blast
qed

end
